theory Spec2Isabelle
  imports Complex_Main "HOL-Library.AList"
begin

section \<open>The storage marketplace of \<^verbatim>\<open>enhanced_cloud_storage.py\<close>\<close>

text \<open>
  The embedding follows the module class by class. Conventions:
  \<^item> Python \<^verbatim>\<open>int\<close> values are \<^typ>\<open>int\<close>. A finite \<^verbatim>\<open>float\<close> is the \<^typ>\<open>real\<close> number it
    denotes; infinities and NaN are not values of the model. The broker's score and the
    fields of the contracts it builds are computed as the code computes them, every
    operation rounding its result to the nearest double (subsection
    ``Double-precision arithmetic''). The other float arithmetic of the module is exact
    in the model.
  \<^item> A \<^verbatim>\<open>dict\<close> is an association list in insertion order, which is the order Python
    iterates in. \<^const>\<open>AList.update\<close> is \<^verbatim>\<open>d[k] = v\<close> (an existing key keeps its
    position and its value is replaced, a new key goes to the end), \<^const>\<open>AList.delete\<close> is
    \<^verbatim>\<open>del d[k]\<close> and \<^const>\<open>map_of\<close> is the lookup.
  \<^item> Every read of the clock (\<^verbatim>\<open>time.time()\<close>) and every random draw is an argument of the
    function that makes it, in the order the source makes them.
  \<^item> A method that mutates \<^verbatim>\<open>self\<close>, the message bus or the global metrics takes them as
    arguments and returns them updated. An \<^verbatim>\<open>await\<close> is a point where other tasks run;
    a handler is modelled from the state it finds when it resumes.
  \<^item> Record fields carry a prefix naming their class, since several classes share field
    names (\<^verbatim>\<open>space_gb\<close>, \<^verbatim>\<open>agent_id\<close>, \<^verbatim>\<open>reputation\<close>).
\<close>

datatype py_error = ZeroDivisionError | StatisticsError | KeyError | OverflowError

subsection \<open>Data classes\<close>

record StorageRequest =
  req_buyer_id :: string
  req_space_gb :: int
  req_duration_hours :: real
  req_max_price_per_gb_hour :: real
  req_timestamp :: real
  req_request_id :: string

record StorageContract =
  con_contract_id :: string
  con_buyer_id :: string
  con_provider_id :: string
  con_space_gb :: int
  con_duration_hours :: real
  con_price_per_gb_hour :: real
  con_total_cost :: real
  con_start_time :: real
  con_end_time :: real
  con_status :: string

record ProviderInfo =
  pi_agent_id :: string
  pi_total_space_gb :: int
  pi_available_space_gb :: int
  pi_reputation :: real
  pi_price_per_gb_hour :: real
  pi_last_seen :: real
  pi_success_count :: int
  pi_failure_count :: int
  pi_response_time_avg :: real

subsection \<open>SimulationMetrics\<close>

record SimulationMetrics =
  m_start_time :: real
  m_total_requests :: int
  m_successful_requests :: int
  m_failed_requests :: int
  m_response_times :: "real list"
  m_contracts_created :: int
  m_contracts_completed :: int
  m_contracts_failed :: int
  m_contract_durations :: "real list"
  m_contract_values :: "real list"
  m_provider_utilizations :: "real list"
  m_provider_reputations :: "real list"
  m_provider_earnings :: "real list"
  m_network_corruptions :: int
  m_provider_failures :: int
  m_network_latencies :: "real list"
  m_total_space_allocated :: int
  m_peak_utilization :: real
  m_avg_utilization :: real

text \<open>\<^verbatim>\<open>reset\<close> (which \<^verbatim>\<open>__init__\<close> calls) overwrites every field; \<open>now\<close> is its clock read.\<close>

definition reset :: "real \<Rightarrow> SimulationMetrics" where
  "reset now =
     \<lparr> m_start_time = now,
       m_total_requests = 0, m_successful_requests = 0, m_failed_requests = 0,
       m_response_times = [],
       m_contracts_created = 0, m_contracts_completed = 0, m_contracts_failed = 0,
       m_contract_durations = [], m_contract_values = [],
       m_provider_utilizations = [], m_provider_reputations = [], m_provider_earnings = [],
       m_network_corruptions = 0, m_provider_failures = 0, m_network_latencies = [],
       m_total_space_allocated = 0, m_peak_utilization = 0, m_avg_utilization = 0 \<rparr>"

definition record_request :: "SimulationMetrics \<Rightarrow> bool \<Rightarrow> real \<Rightarrow> SimulationMetrics" where
  "record_request m successful response_time =
     (let m1 = m\<lparr>m_total_requests := m_total_requests m + 1\<rparr>;
          m2 = (if successful
                then m1\<lparr>m_successful_requests := m_successful_requests m1 + 1\<rparr>
                else m1\<lparr>m_failed_requests := m_failed_requests m1 + 1\<rparr>)
      in if response_time > 0
         then m2\<lparr>m_response_times := m_response_times m2 @ [response_time]\<rparr>
         else m2)"

definition record_contract :: "SimulationMetrics \<Rightarrow> StorageContract \<Rightarrow> bool \<Rightarrow> SimulationMetrics" where
  "record_contract m contract completed =
     (if con_status contract = ''active''
      then m\<lparr>m_contracts_created := m_contracts_created m + 1,
             m_contract_durations := m_contract_durations m @ [con_duration_hours contract],
             m_contract_values := m_contract_values m @ [con_total_cost contract]\<rparr>
      else if completed
      then m\<lparr>m_contracts_completed := m_contracts_completed m + 1\<rparr>
      else m)"

definition record_provider_metrics ::
  "SimulationMetrics \<Rightarrow> real \<Rightarrow> real \<Rightarrow> real \<Rightarrow> SimulationMetrics" where
  "record_provider_metrics m utilization reputation earnings =
     (let m1 = m\<lparr>m_provider_utilizations := m_provider_utilizations m @ [utilization],
                  m_provider_reputations := m_provider_reputations m @ [reputation]\<rparr>
      in if earnings > 0
         then m1\<lparr>m_provider_earnings := m_provider_earnings m1 @ [earnings]\<rparr>
         else m1)"

definition record_network_event :: "SimulationMetrics \<Rightarrow> string \<Rightarrow> real \<Rightarrow> SimulationMetrics" where
  "record_network_event m event_type latency =
     (let m1 = (if event_type = ''corruption''
                then m\<lparr>m_network_corruptions := m_network_corruptions m + 1\<rparr>
                else if event_type = ''provider_failure''
                then m\<lparr>m_provider_failures := m_provider_failures m + 1\<rparr>
                else m)
      in if latency > 0
         then m1\<lparr>m_network_latencies := m_network_latencies m1 @ [latency]\<rparr>
         else m1)"

text \<open>
  \<^verbatim>\<open>statistics.mean\<close> raises \<^verbatim>\<open>StatisticsError\<close> on an empty sample and
  \<^verbatim>\<open>statistics.stdev\<close> on fewer than two data points; \<^verbatim>\<open>stdev\<close> is the square root of
  the sample variance.
\<close>

definition statistics_mean :: "real list \<Rightarrow> py_error + real" where
  "statistics_mean xs =
     (if xs = [] then Inl StatisticsError else Inr (sum_list xs / real (length xs)))"

definition statistics_stdev :: "real list \<Rightarrow> py_error + real" where
  "statistics_stdev xs =
     (if length xs < 2 then Inl StatisticsError
      else let mu = sum_list xs / real (length xs)
           in Inr (sqrt (sum_list (map (\<lambda>x. (x - mu)\<^sup>2) xs) / real (length xs - 1))))"

record Summary =
  simulation_duration :: real
  requests_total :: int
  requests_successful :: int
  requests_failed :: int
  requests_success_rate :: real
  requests_avg_response_time :: real
  requests_std_response_time :: real
  contracts_created :: int
  contracts_completed :: int
  contracts_failed :: int
  contracts_avg_duration_hours :: real
  contracts_avg_value :: real
  contracts_completion_rate :: real
  providers_avg_utilization :: real
  providers_avg_reputation :: real
  providers_total_earnings :: real
  providers_avg_earnings_per_provider :: real
  network_corruptions :: int
  network_provider_failures :: int
  network_avg_latency :: real
  network_corruption_rate :: real

text \<open>
  Python's \<^verbatim>\<open>a / b\<close> raises \<^verbatim>\<open>ZeroDivisionError\<close> when \<open>b\<close> is zero, for integers and for
  floats alike.
\<close>

definition py_truediv :: "real \<Rightarrow> real \<Rightarrow> py_error + real" where
  "py_truediv a b = (if b = 0 then Inl ZeroDivisionError else Inr (a / b))"

text \<open>Sequencing of computations that may raise: the first exception ends the computation.\<close>

definition bind_err :: "py_error + 'a \<Rightarrow> ('a \<Rightarrow> py_error + 'b) \<Rightarrow> py_error + 'b" where
  "bind_err r f = (case r of Inl e \<Rightarrow> Inl e | Inr x \<Rightarrow> f x)"

text \<open>
  \<^verbatim>\<open>get_summary\<close>, statement by statement; \<open>now\<close> is its clock read. Every call of
  \<^verbatim>\<open>statistics.mean\<close>, \<^verbatim>\<open>statistics.stdev\<close> and every division is one that may raise,
  and the function returns the dictionary only if none did.
\<close>

definition get_summary :: "SimulationMetrics \<Rightarrow> real \<Rightarrow> py_error + Summary" where
  "get_summary m now =
     (let sim_duration = now - m_start_time m in
      bind_err (py_truediv (real_of_int (m_successful_requests m))
                           (real_of_int (max (m_total_requests m) 1))) (\<lambda>q.
      let success_rate = q * 100 in
      bind_err (if m_response_times m \<noteq> [] then statistics_mean (m_response_times m)
                else Inr 0) (\<lambda>avg_response_time.
      bind_err (if length (m_response_times m) > 1 then statistics_stdev (m_response_times m)
                else Inr 0) (\<lambda>std_response_time.
      bind_err (if m_contract_durations m \<noteq> [] then statistics_mean (m_contract_durations m)
                else Inr 0) (\<lambda>avg_contract_duration.
      bind_err (if m_contract_values m \<noteq> [] then statistics_mean (m_contract_values m)
                else Inr 0) (\<lambda>avg_contract_value.
      bind_err (if m_provider_utilizations m \<noteq> []
                then statistics_mean (m_provider_utilizations m) else Inr 0) (\<lambda>avg_util.
      bind_err (if m_provider_reputations m \<noteq> []
                then statistics_mean (m_provider_reputations m) else Inr 0) (\<lambda>avg_reputation.
      let total_earnings = (if m_provider_earnings m \<noteq> []
                            then sum_list (m_provider_earnings m) else 0) in
      bind_err (if m_network_latencies m \<noteq> [] then statistics_mean (m_network_latencies m)
                else Inr 0) (\<lambda>avg_network_latency.
      bind_err (py_truediv (real_of_int (m_contracts_completed m))
                           (real_of_int (max (m_contracts_created m) 1))) (\<lambda>cq.
      bind_err (if total_earnings > 0 then py_truediv total_earnings 3 else Inr 0) (\<lambda>per_provider.
      bind_err (py_truediv (real_of_int (m_network_corruptions m))
                           (real_of_int (max (m_total_requests m) 1))) (\<lambda>nq.
      Inr \<lparr> simulation_duration = sim_duration,
            requests_total = m_total_requests m,
            requests_successful = m_successful_requests m,
            requests_failed = m_failed_requests m,
            requests_success_rate = success_rate,
            requests_avg_response_time = avg_response_time,
            requests_std_response_time = std_response_time,
            contracts_created = m_contracts_created m,
            contracts_completed = m_contracts_completed m,
            contracts_failed = m_contracts_failed m,
            contracts_avg_duration_hours = avg_contract_duration,
            contracts_avg_value = avg_contract_value,
            contracts_completion_rate = cq * 100,
            providers_avg_utilization = avg_util,
            providers_avg_reputation = avg_reputation,
            providers_total_earnings = total_earnings,
            providers_avg_earnings_per_provider = per_provider,
            network_corruptions = m_network_corruptions m,
            network_provider_failures = m_provider_failures m,
            network_avg_latency = avg_network_latency,
            network_corruption_rate = nq * 100 \<rparr>))))))))))))"

subsection \<open>Messages and the MessageBus\<close>

text \<open>
  A message body is a dictionary tagged by its \<^verbatim>\<open>'type'\<close> entry. The bodies the agents build
  are the six below; the optional fields of the two response dictionaries are options
  (\<^verbatim>\<open>'contract_id'\<close> is present in an accepted allocation response and \<^verbatim>\<open>'reason'\<close> in a
  rejected one; \<^verbatim>\<open>'reason'\<close> or \<^verbatim>\<open>'contract'\<close> in a storage response).
\<close>

record allocation_response =
  ar_request_id :: string
  ar_contract_id :: "string option"
  ar_status :: string
  ar_reason :: "string option"
  ar_provider_id :: string

record storage_response =
  sr_request_id :: string
  sr_status :: string
  sr_reason :: "string option"
  sr_contract :: "StorageContract option"

record status_update =
  su_provider_id :: string
  su_available_space_gb :: int
  su_utilization :: real
  su_reputation :: real
  su_price_per_gb_hour :: real
  su_active_contracts :: int

datatype message =
    Storage_request StorageRequest
  | Allocation_request string StorageContract
  | Allocation_response allocation_response
  | Storage_response storage_response
  | Provider_registration ProviderInfo
  | Status_update status_update

record envelope =
  env_from :: string
  env_to :: string
  env_body :: message
  env_timestamp :: real
  env_latency :: real
  env_id :: int

text \<open>
  A mailbox is an unbounded \<^verbatim>\<open>asyncio.Queue\<close>: the list of the envelopes put and not yet
  taken, oldest first. \<^verbatim>\<open>put\<close> on an unbounded queue neither blocks nor raises.
\<close>

record MessageBus =
  mailboxes :: "(string \<times> envelope list) list"
  message_count :: int

definition MessageBus_init :: MessageBus where
  "MessageBus_init = \<lparr> mailboxes = [], message_count = 0 \<rparr>"

definition register_agent :: "MessageBus \<Rightarrow> string \<Rightarrow> MessageBus" where
  "register_agent bus agent_id = bus\<lparr>mailboxes := AList.update agent_id [] (mailboxes bus)\<rparr>"

text \<open>
  \<^verbatim>\<open>send_message\<close>. The arguments \<open>latency_draw\<close> and \<open>now\<close> are the value of
  \<^verbatim>\<open>random.uniform(0.05, 0.5)\<close> and the clock read for the envelope. The result is the
  returned flag, the bus, the metrics, and how long the caller was suspended in
  \<^verbatim>\<open>asyncio.sleep\<close> (\<open>None\<close> when it was not). The bus argument is the bus as it is when
  the sleep is over; no operation removes a mailbox, so the registration test made before
  the sleep still holds then.
\<close>

definition send_message ::
  "MessageBus \<Rightarrow> SimulationMetrics \<Rightarrow> string \<Rightarrow> string \<Rightarrow> message \<Rightarrow> bool \<Rightarrow> real \<Rightarrow> real
     \<Rightarrow> bool \<times> MessageBus \<times> SimulationMetrics \<times> real option" where
  "send_message bus m from_agent to_agent msg simulate_latency latency_draw now =
     (case map_of (mailboxes bus) to_agent of
        None \<Rightarrow> (False, bus, m, None)
      | Some queue \<Rightarrow>
          let latency = (if simulate_latency then latency_draw else 0);
              slept = (if simulate_latency then Some latency else None);
              m1 = (if simulate_latency then record_network_event m ''latency'' latency else m);
              msg_envelope = \<lparr> env_from = from_agent, env_to = to_agent, env_body = msg,
                               env_timestamp = now, env_latency = latency,
                               env_id = message_count bus \<rparr>;
              bus1 = bus\<lparr>message_count := message_count bus + 1\<rparr>;
              bus2 = bus1\<lparr>mailboxes :=
                            AList.update to_agent (queue @ [msg_envelope]) (mailboxes bus1)\<rparr>
          in (True, bus2, m1, slept))"

text \<open>
  \<^verbatim>\<open>receive_message\<close> takes the oldest envelope of the mailbox; with an empty mailbox the
  wait times out and the result is \<open>None\<close>. A mailbox that does not exist raises
  \<^verbatim>\<open>KeyError\<close>.
\<close>

definition receive_message :: "MessageBus \<Rightarrow> string \<Rightarrow> py_error + (envelope option \<times> MessageBus)" where
  "receive_message bus agent_id =
     (case map_of (mailboxes bus) agent_id of
        None \<Rightarrow> Inl KeyError
      | Some [] \<Rightarrow> Inr (None, bus)
      | Some (e # queue) \<Rightarrow>
          Inr (Some e, bus\<lparr>mailboxes := AList.update agent_id queue (mailboxes bus)\<rparr>))"

subsection \<open>StorageProviderAgent\<close>

record provider_stats =
  ps_requests_received :: int
  ps_requests_accepted :: int
  ps_requests_rejected :: int
  ps_total_earnings :: real
  ps_uptime :: real
  ps_avg_utilization :: real
  ps_contracts_completed :: int
  ps_current_reputation :: real

record StorageProviderAgent =
  p_agent_id :: string
  p_broker_id :: string
  p_total_space_gb :: int
  p_available_space_gb :: int
  p_base_price_per_gb_hour :: real
  p_failure_probability :: real
  p_current_price_per_gb_hour :: real
  p_active_contracts :: "(string \<times> StorageContract) list"
  p_completed_contracts :: "StorageContract list"
  p_reputation :: real
  p_success_count :: int
  p_failure_count :: int
  p_stats :: provider_stats
  p_start_time :: real
  p_running :: bool

text \<open>\<^verbatim>\<open>__init__\<close>, which also registers the agent with the bus; \<open>now\<close> is its clock read.\<close>

definition StorageProviderAgent_init ::
  "string \<Rightarrow> string \<Rightarrow> MessageBus \<Rightarrow> int \<Rightarrow> real \<Rightarrow> real \<Rightarrow> real
     \<Rightarrow> StorageProviderAgent \<times> MessageBus" where
  "StorageProviderAgent_init agent_id broker_id bus total_space_gb base_price_per_gb_hour
       failure_probability now =
     (\<lparr> p_agent_id = agent_id, p_broker_id = broker_id,
        p_total_space_gb = total_space_gb, p_available_space_gb = total_space_gb,
        p_base_price_per_gb_hour = base_price_per_gb_hour,
        p_failure_probability = failure_probability,
        p_current_price_per_gb_hour = base_price_per_gb_hour,
        p_active_contracts = [], p_completed_contracts = [],
        p_reputation = 5.0, p_success_count = 0, p_failure_count = 0,
        p_stats = \<lparr> ps_requests_received = 0, ps_requests_accepted = 0,
                    ps_requests_rejected = 0, ps_total_earnings = 0, ps_uptime = 0,
                    ps_avg_utilization = 0, ps_contracts_completed = 0,
                    ps_current_reputation = 5.0 \<rparr>,
        p_start_time = now, p_running = False \<rparr>,
      register_agent bus agent_id)"

definition can_fulfill_request :: "StorageProviderAgent \<Rightarrow> int \<Rightarrow> real \<Rightarrow> bool" where
  \<comment> \<open>\<open>draw\<close> is the value of \<^verbatim>\<open>random.random()\<close>, read only when the space suffices\<close>
  "can_fulfill_request p space_needed draw =
     (if p_available_space_gb p < space_needed then False
      else if draw < p_failure_probability p then False
      else True)"

definition get_utilization :: "StorageProviderAgent \<Rightarrow> py_error + real" where
  "get_utilization p =
     py_truediv (real_of_int (p_total_space_gb p - p_available_space_gb p))
                (real_of_int (p_total_space_gb p))"

text \<open>
  \<^verbatim>\<open>update_reputation\<close> mutates the agent and then samples the utilization for the metrics.
  When \<^verbatim>\<open>get_utilization\<close> raises, the mutation has already happened: the result is the
  agent and the metrics as the exception leaves them, with the exception (\<open>None\<close> for a
  normal return).
\<close>

definition update_reputation ::
  "StorageProviderAgent \<Rightarrow> SimulationMetrics \<Rightarrow> bool
     \<Rightarrow> StorageProviderAgent \<times> SimulationMetrics \<times> py_error option" where
  "update_reputation p m success =
     (let p1 = (if success
                then p\<lparr>p_success_count := p_success_count p + 1,
                       p_reputation := min (p_reputation p * 1.02) 10.0\<rparr>
                else p\<lparr>p_failure_count := p_failure_count p + 1,
                       p_reputation := max (p_reputation p * 0.98) 0.1\<rparr>);
          p2 = p1\<lparr>p_stats := (p_stats p1)\<lparr>ps_current_reputation := p_reputation p1\<rparr>\<rparr>
      in case get_utilization p2 of
           Inl e \<Rightarrow> (p2, m, Some e)
         | Inr utilization \<Rightarrow>
             (p2, record_provider_metrics m utilization (p_reputation p2)
                    (ps_total_earnings (p_stats p2)), None))"

text \<open>
  \<^verbatim>\<open>process_allocation_request\<close>. \<open>draw\<close> is the value of \<^verbatim>\<open>random.random()\<close> in the admission
  test, \<open>latency_draw\<close> and \<open>now\<close> belong to the send of the reply. The whole body is inside
  \<^verbatim>\<open>try ... except Exception\<close>, which logs: an exception ends the handler with the state
  as it is at that point and without a reply. The agent is the agent as it is after the
  simulated processing time (the only \<^verbatim>\<open>await\<close> before the reply is sent); the counter
  \<^verbatim>\<open>requests_received\<close>, incremented before it, is not read in between.
\<close>

definition process_allocation_request ::
  "StorageProviderAgent \<Rightarrow> MessageBus \<Rightarrow> SimulationMetrics \<Rightarrow> envelope \<Rightarrow> real \<Rightarrow> real \<Rightarrow> real
     \<Rightarrow> StorageProviderAgent \<times> MessageBus \<times> SimulationMetrics" where
  "process_allocation_request p bus m msg draw latency_draw now =
     (case env_body msg of
        Allocation_request request_id contract_data \<Rightarrow>
          let p1 = p\<lparr>p_stats := (p_stats p)\<lparr>ps_requests_received :=
                                               ps_requests_received (p_stats p) + 1\<rparr>\<rparr>;
              space_needed = con_space_gb contract_data;
              can_allocate = can_fulfill_request p1 space_needed draw
          in if can_allocate then
               let contract = contract_data;
                   p2 = p1\<lparr>p_active_contracts :=
                            AList.update (con_contract_id contract) contract (p_active_contracts p1)\<rparr>;
                   p3 = p2\<lparr>p_available_space_gb := p_available_space_gb p2 - space_needed\<rparr>;
                   p4 = p3\<lparr>p_stats := (p_stats p3)\<lparr>
                            ps_requests_accepted := ps_requests_accepted (p_stats p3) + 1,
                            ps_total_earnings := ps_total_earnings (p_stats p3)
                                                   + con_total_cost contract\<rparr>\<rparr>
               in case update_reputation p4 m True of
                    (p5, m1, Some e) \<Rightarrow> (p5, bus, m1)
                  | (p5, m1, None) \<Rightarrow>
                      let response = Allocation_response
                            \<lparr> ar_request_id = request_id,
                              ar_contract_id = Some (con_contract_id contract),
                              ar_status = ''accepted'', ar_reason = None,
                              ar_provider_id = p_agent_id p5 \<rparr>;
                          (ok, bus1, m2, slept) =
                            send_message bus m1 (p_agent_id p5) (env_from msg) response True
                              latency_draw now
                      in (p5, bus1, m2)
             else
               let p2 = p1\<lparr>p_stats := (p_stats p1)\<lparr>
                            ps_requests_rejected := ps_requests_rejected (p_stats p1) + 1\<rparr>\<rparr>
               in case update_reputation p2 m False of
                    (p3, m1, Some e) \<Rightarrow> (p3, bus, m1)
                  | (p3, m1, None) \<Rightarrow>
                      let m2 = record_network_event m1 ''provider_failure'' 0;
                          reason = (if p_available_space_gb p3 < space_needed
                                    then ''insufficient_space'' else ''provider_failure'');
                          response = Allocation_response
                            \<lparr> ar_request_id = request_id, ar_contract_id = None,
                              ar_status = ''rejected'', ar_reason = Some reason,
                              ar_provider_id = p_agent_id p3 \<rparr>;
                          (ok, bus1, m3, slept) =
                            send_message bus m2 (p_agent_id p3) (env_from msg) response True
                              latency_draw now
                      in (p3, bus1, m3)
      | _ \<Rightarrow> (p, bus, m))"

text \<open>
  One pass of \<^verbatim>\<open>contract_manager\<close> at clock read \<open>current_time\<close>. The first loop runs over
  the items of \<^verbatim>\<open>active_contracts\<close>; for an expired contract it releases the space, marks
  the contract object completed (the object is the one in the dictionary) and notes its
  id. The second loop deletes the noted ids.
\<close>

fun sweep_loop ::
  "real \<Rightarrow> (string \<times> StorageContract) list \<Rightarrow> StorageProviderAgent \<times> string list
     \<Rightarrow> StorageProviderAgent \<times> string list" where
  "sweep_loop current_time [] (p, completed) = (p, completed)"
| "sweep_loop current_time ((contract_id, contract) # items) (p, completed) =
     (if current_time \<ge> con_end_time contract then
        let p1 = p\<lparr>p_available_space_gb := p_available_space_gb p + con_space_gb contract\<rparr>;
            p2 = p1\<lparr>p_stats := (p_stats p1)\<lparr>ps_contracts_completed :=
                                                ps_contracts_completed (p_stats p1) + 1\<rparr>\<rparr>;
            contract' = contract\<lparr>con_status := ''completed''\<rparr>;
            p3 = p2\<lparr>p_active_contracts :=
                      AList.update contract_id contract' (p_active_contracts p2)\<rparr>;
            p4 = p3\<lparr>p_completed_contracts := p_completed_contracts p3 @ [contract']\<rparr>
        in sweep_loop current_time items (p4, completed @ [contract_id])
      else sweep_loop current_time items (p, completed))"

definition contract_manager :: "StorageProviderAgent \<Rightarrow> real \<Rightarrow> StorageProviderAgent" where
  "contract_manager p current_time =
     (let (p1, completed) = sweep_loop current_time (p_active_contracts p) (p, [])
      in p1\<lparr>p_active_contracts := fold AList.delete completed (p_active_contracts p1)\<rparr>)"

text \<open>
  One pass of \<^verbatim>\<open>dynamic_pricing\<close> and of \<^verbatim>\<open>status_updater\<close>, the other two periodic tasks of
  the provider. Each body is inside \<^verbatim>\<open>try ... except Exception\<close>.
\<close>

definition dynamic_pricing :: "StorageProviderAgent \<Rightarrow> StorageProviderAgent" where
  "dynamic_pricing p =
     (case get_utilization p of
        Inl e \<Rightarrow> p
      | Inr utilization \<Rightarrow>
          if utilization > 0.8 then
            p\<lparr>p_current_price_per_gb_hour :=
                 min (p_base_price_per_gb_hour p * 1.5) (p_base_price_per_gb_hour p * 2.0)\<rparr>
          else if utilization < 0.3 then
            p\<lparr>p_current_price_per_gb_hour :=
                 max (p_base_price_per_gb_hour p * 0.8) (p_base_price_per_gb_hour p * 0.5)\<rparr>
          else p\<lparr>p_current_price_per_gb_hour := p_base_price_per_gb_hour p\<rparr>)"

definition status_updater ::
  "StorageProviderAgent \<Rightarrow> MessageBus \<Rightarrow> SimulationMetrics \<Rightarrow> real \<Rightarrow> real \<Rightarrow> real
     \<Rightarrow> StorageProviderAgent \<times> MessageBus \<times> SimulationMetrics" where
  "status_updater p bus m t_uptime latency_draw now =
     (let p1 = p\<lparr>p_stats := (p_stats p)\<lparr>ps_uptime := t_uptime - p_start_time p\<rparr>\<rparr>
      in case get_utilization p1 of
           Inl e \<Rightarrow> (p1, bus, m)
         | Inr utilization \<Rightarrow>
             let p2 = p1\<lparr>p_stats := (p_stats p1)\<lparr>ps_avg_utilization := utilization\<rparr>\<rparr>;
                 status = Status_update
                   \<lparr> su_provider_id = p_agent_id p2,
                     su_available_space_gb = p_available_space_gb p2,
                     su_utilization = utilization,
                     su_reputation = p_reputation p2,
                     su_price_per_gb_hour = p_current_price_per_gb_hour p2,
                     su_active_contracts = int (length (p_active_contracts p2)) \<rparr>;
                 (ok, bus1, m1, slept) =
                   send_message bus m (p_agent_id p2) (p_broker_id p2) status True latency_draw now
             in (p2, bus1, m1))"

subsection \<open>Identifiers\<close>

text \<open>
  \<^verbatim>\<open>int(x)\<close> truncates a float toward zero and an f-string prints an integer in decimal.
\<close>

definition py_int :: "real \<Rightarrow> int" where
  "py_int x = (if x \<ge> 0 then \<lfloor>x\<rfloor> else \<lceil>x\<rceil>)"

definition digit_char :: "nat \<Rightarrow> char" where
  "digit_char d = ''0123456789'' ! d"

function str_nat :: "nat \<Rightarrow> string" where
  "str_nat n = (if n < 10 then [digit_char n] else str_nat (n div 10) @ [digit_char (n mod 10)])"
  by pat_completeness auto
termination
  by (relation "measure (\<lambda>n. n)") auto

declare str_nat.simps [simp del]

definition str_int :: "int \<Rightarrow> string" where
  "str_int i = (if i < 0 then CHR ''-'' # str_nat (nat (- i)) else str_nat (nat i))"

subsection \<open>Double-precision arithmetic\<close>

text \<open>
  A Python \<^verbatim>\<open>float\<close> is an IEEE 754 binary64 number. The result of an arithmetic operation
  is the exact result rounded to the nearest double, and of two nearest doubles to the one
  whose significand is even. \<open>bit_length n\<close> is the number of binary digits of a positive
  integer, as \<^verbatim>\<open>int.bit_length\<close>, and \<open>ilog2 x\<close> is the exponent \<open>e\<close> of a positive number
  \<open>x\<close>, the integer with \<open>2 ^ e \<le> x < 2 ^ (e + 1)\<close>. The doubles around \<open>x\<close> are the multiples
  of \<open>double_ulp x\<close>: a significand has 53 bits, and from the exponent \<open>-1022\<close> downwards the
  step stays \<open>2 ^ (-1074)\<close>. \<open>double_round\<close> has no largest value: a result of size
  \<open>2 ^ 1024\<close> or more stands for a result that is an infinity in the code. The conversions
  from \<^verbatim>\<open>int\<close> raise there, as the code does.
\<close>

function bit_length :: "int \<Rightarrow> nat" where
  "bit_length n = (if n \<le> 0 then 0 else Suc (bit_length (n div 2)))"
  by pat_completeness auto
termination
  by (relation "measure nat") auto

declare bit_length.simps [simp del]

definition ilog2 :: "real \<Rightarrow> int" where
  "ilog2 x = (if x \<ge> 1 then int (bit_length \<lfloor>x\<rfloor>) - 1
              else - int (bit_length (\<lceil>1 / x\<rceil> - 1)))"

definition round_half_even :: "real \<Rightarrow> int" where
  "round_half_even q =
     (let f = \<lfloor>q\<rfloor>; r = q - real_of_int f
      in if r < 1/2 then f else if r > 1/2 then f + 1 else if even f then f else f + 1)"

definition double_ulp :: "real \<Rightarrow> real" where
  "double_ulp x = power_int 2 (max (ilog2 \<bar>x\<bar>) (- 1022) - 52)"

definition double_round :: "real \<Rightarrow> real" where
  "double_round x =
     (if x = 0 then 0 else real_of_int (round_half_even (x / double_ulp x)) * double_ulp x)"

definition double_add :: "real \<Rightarrow> real \<Rightarrow> real" where
  "double_add x y = double_round (x + y)"

definition double_sub :: "real \<Rightarrow> real \<Rightarrow> real" where
  "double_sub x y = double_round (x - y)"

definition double_mul :: "real \<Rightarrow> real \<Rightarrow> real" where
  "double_mul x y = double_round (x * y)"

text \<open>
  The division of two floats raises \<^verbatim>\<open>ZeroDivisionError\<close> for a zero divisor. The
  conversion of an \<^verbatim>\<open>int\<close> to a \<^verbatim>\<open>float\<close>, which \<^verbatim>\<open>int * float\<close> begins with, rounds the
  integer and raises \<^verbatim>\<open>OverflowError\<close> when the result is not finite. The true division
  of two integers rounds the exact quotient once; it raises \<^verbatim>\<open>ZeroDivisionError\<close> for a
  zero divisor and \<^verbatim>\<open>OverflowError\<close> for a quotient that is not finite.
\<close>

definition double_truediv :: "real \<Rightarrow> real \<Rightarrow> py_error + real" where
  "double_truediv a b = (if b = 0 then Inl ZeroDivisionError else Inr (double_round (a / b)))"

definition py_float :: "int \<Rightarrow> py_error + real" where
  "py_float i =
     (if \<bar>double_round (real_of_int i)\<bar> < 2 ^ 1024 then Inr (double_round (real_of_int i))
      else Inl OverflowError)"

definition int_truediv :: "int \<Rightarrow> int \<Rightarrow> py_error + real" where
  "int_truediv a b =
     (if b = 0 then Inl ZeroDivisionError
      else if \<bar>double_round (real_of_int a / real_of_int b)\<bar> < 2 ^ 1024
      then Inr (double_round (real_of_int a / real_of_int b))
      else Inl OverflowError)"

subsection \<open>IntermediaryNetworkAgent\<close>

record network_stats =
  ns_requests_processed :: int
  ns_successful_allocations :: int
  ns_failed_allocations :: int
  ns_corrupted_contracts :: int
  ns_active_providers :: int
  ns_total_providers_registered :: int
  ns_avg_response_time :: real

text \<open>
  The broker keeps \<^verbatim>\<open>ProviderInfo\<close> objects in \<^verbatim>\<open>self.providers\<close> and, for a request it has
  forwarded, a reference to the selected object in \<^verbatim>\<open>self.pending_allocations\<close>. The handlers
  mutate the objects in place, so the two can be one object seen twice. The model has an
  explicit store: \<open>n_objects\<close> maps an address to the object there, \<open>n_next_object\<close> is the
  next free address, and the two dictionaries hold addresses.
\<close>

record IntermediaryNetworkAgent =
  n_agent_id :: string
  n_corruption_probability :: real
  n_objects :: "nat \<Rightarrow> ProviderInfo"
  n_next_object :: nat
  n_providers :: "(string \<times> nat) list"
  n_provider_last_seen :: "(string \<times> real) list"
  n_pending_allocations :: "(string \<times> (string \<times> StorageRequest \<times> nat)) list"
  n_stats :: network_stats
  n_running :: bool

definition unallocated :: ProviderInfo where
  \<comment> \<open>the content of an address that holds no object; no handler reads it\<close>
  "unallocated =
     \<lparr> pi_agent_id = [], pi_total_space_gb = 0, pi_available_space_gb = 0, pi_reputation = 0,
       pi_price_per_gb_hour = 0, pi_last_seen = 0, pi_success_count = 0, pi_failure_count = 0,
       pi_response_time_avg = 0 \<rparr>"

definition IntermediaryNetworkAgent_init ::
  "string \<Rightarrow> MessageBus \<Rightarrow> real \<Rightarrow> IntermediaryNetworkAgent \<times> MessageBus" where
  "IntermediaryNetworkAgent_init agent_id bus corruption_probability =
     (\<lparr> n_agent_id = agent_id, n_corruption_probability = corruption_probability,
        n_objects = (\<lambda>a. unallocated), n_next_object = 0,
        n_providers = [], n_provider_last_seen = [], n_pending_allocations = [],
        n_stats = \<lparr> ns_requests_processed = 0, ns_successful_allocations = 0,
                    ns_failed_allocations = 0, ns_corrupted_contracts = 0,
                    ns_active_providers = 0, ns_total_providers_registered = 0,
                    ns_avg_response_time = 0 \<rparr>,
        n_running = False \<rparr>,
      register_agent bus agent_id)"

definition handle_provider_registration ::
  "IntermediaryNetworkAgent \<Rightarrow> envelope \<Rightarrow> real \<Rightarrow> IntermediaryNetworkAgent" where
  "handle_provider_registration n msg now =
     (case env_body msg of
        Provider_registration provider_info \<Rightarrow>
          let a = n_next_object n;
              n1 = n\<lparr>n_objects := (n_objects n)(a := provider_info), n_next_object := a + 1\<rparr>;
              n2 = n1\<lparr>n_providers := AList.update (pi_agent_id provider_info) a (n_providers n1)\<rparr>;
              n3 = n2\<lparr>n_provider_last_seen :=
                        AList.update (pi_agent_id provider_info) now (n_provider_last_seen n2)\<rparr>;
              n4 = (if pi_agent_id provider_info
                         \<notin> set (map (\<lambda>(k, b). pi_agent_id (n_objects n3 b)) (n_providers n3))
                    then n3\<lparr>n_stats := (n_stats n3)\<lparr>ns_total_providers_registered :=
                                 ns_total_providers_registered (n_stats n3) + 1\<rparr>\<rparr>
                    else n3)
          in n4\<lparr>n_stats := (n_stats n4)\<lparr>ns_active_providers := int (length (n_providers n4))\<rparr>\<rparr>
      | _ \<Rightarrow> n)"

text \<open>
  \<^verbatim>\<open>calculate_score\<close>, the key function local to \<^verbatim>\<open>select_provider\<close>. Every operation
  rounds its result, and the literals \<^verbatim>\<open>0.4\<close>, \<^verbatim>\<open>0.3\<close>, \<^verbatim>\<open>0.2\<close> and \<^verbatim>\<open>0.1\<close> are the doubles
  nearest to them. The division by the request's maximal price is a division of floats;
  the space ratio and the success rate are divisions of integers.
\<close>

definition calculate_score :: "StorageRequest \<Rightarrow> ProviderInfo \<Rightarrow> py_error + real" where
  "calculate_score request provider =
     (let reputation_score =
            double_mul (double_round (pi_reputation provider / 10)) (double_round (4/10));
          max_price = req_max_price_per_gb_hour request
      in bind_err (double_truediv (pi_price_per_gb_hour provider) max_price) (\<lambda>price_ratio.
         let price_score = double_mul (double_sub 1 price_ratio) (double_round (3/10)) in
         bind_err (int_truediv (pi_available_space_gb provider)
                               (pi_total_space_gb provider)) (\<lambda>space_ratio.
         let availability_score = double_mul space_ratio (double_round (2/10));
             total_attempts = pi_success_count provider + pi_failure_count provider in
         bind_err (int_truediv (pi_success_count provider) (max total_attempts 1)) (\<lambda>rate.
         let success_rate = double_mul rate (double_round (1/10))
         in Inr (double_add (double_add (double_add reputation_score price_score)
                               availability_score) success_rate)))))"

text \<open>
  \<^verbatim>\<open>xs.sort(key=f, reverse=True)\<close> first calls \<open>f\<close> on every element, in order, and gives
  up at the first call that raises. It then sorts by decreasing key and keeps elements
  with equal keys in the order they had: a stable sort, here \<^const>\<open>sort_key\<close> on the
  negated key.
\<close>

fun sort_keys :: "('a \<Rightarrow> py_error + real) \<Rightarrow> 'a list \<Rightarrow> py_error + (real \<times> 'a) list" where
  "sort_keys f [] = Inr []"
| "sort_keys f (x # xs) =
     (case f x of
        Inl e \<Rightarrow> Inl e
      | Inr k \<Rightarrow> (case sort_keys f xs of Inl e \<Rightarrow> Inl e | Inr ks \<Rightarrow> Inr ((k, x) # ks)))"

definition sort_reverse :: "('a \<Rightarrow> py_error + real) \<Rightarrow> 'a list \<Rightarrow> py_error + 'a list" where
  "sort_reverse f xs =
     (case sort_keys f xs of
        Inl e \<Rightarrow> Inl e
      | Inr ks \<Rightarrow> Inr (map snd (sort_key (\<lambda>(k, x). - k) ks)))"

text \<open>
  The filter of \<^verbatim>\<open>select_provider\<close>, and \<^verbatim>\<open>select_provider\<close> itself: it returns the address
  of the selected object. \<^verbatim>\<open>self.provider_last_seen.get(id, 0)\<close> is \<open>0\<close> for a missing id.
  Any exception is caught inside the function, which then returns \<^verbatim>\<open>None\<close>.
\<close>

definition meets_requirements ::
  "IntermediaryNetworkAgent \<Rightarrow> StorageRequest \<Rightarrow> real \<Rightarrow> ProviderInfo \<Rightarrow> bool" where
  "meets_requirements n request current_time provider =
     (pi_available_space_gb provider \<ge> req_space_gb request \<and>
      pi_price_per_gb_hour provider \<le> req_max_price_per_gb_hour request \<and>
      pi_reputation provider \<ge> 1.0 \<and>
      current_time - (case map_of (n_provider_last_seen n) (pi_agent_id provider) of
                        None \<Rightarrow> 0 | Some t \<Rightarrow> t) < 30)"

definition suitable_providers ::
  "IntermediaryNetworkAgent \<Rightarrow> StorageRequest \<Rightarrow> real \<Rightarrow> nat list" where
  "suitable_providers n request current_time =
     filter (\<lambda>a. meets_requirements n request current_time (n_objects n a))
            (map snd (n_providers n))"

definition select_provider ::
  "IntermediaryNetworkAgent \<Rightarrow> StorageRequest \<Rightarrow> real \<Rightarrow> nat option" where
  "select_provider n request current_time =
     (let suitable = suitable_providers n request current_time
      in if suitable = [] then None
         else case sort_reverse (\<lambda>a. calculate_score request (n_objects n a)) suitable of
                Inl e \<Rightarrow> None
              | Inr sorted_providers \<Rightarrow>
                  (case sorted_providers of [] \<Rightarrow> None | a # rest \<Rightarrow> Some a))"

definition send_failure_response ::
  "IntermediaryNetworkAgent \<Rightarrow> MessageBus \<Rightarrow> SimulationMetrics \<Rightarrow> string \<Rightarrow> string \<Rightarrow> string
     \<Rightarrow> real \<Rightarrow> real \<Rightarrow> MessageBus \<times> SimulationMetrics" where
  "send_failure_response n bus m buyer_id request_id reason latency_draw now =
     (let response = Storage_response
            \<lparr> sr_request_id = request_id, sr_status = ''failure'', sr_reason = Some reason,
              sr_contract = None \<rparr>;
          (ok, bus1, m1, slept) =
            send_message bus m (n_agent_id n) buyer_id response True latency_draw now
      in (bus1, m1))"

text \<open>
  \<^verbatim>\<open>handle_storage_request\<close>. Its clock reads are, in order: \<open>t_select\<close> inside
  \<^verbatim>\<open>select_provider\<close>, \<open>t_id\<close> for the contract id, \<open>t_start\<close> and \<open>t_end\<close> for the two time
  fields of the contract, and \<open>now\<close> for the envelope; \<open>rand_id\<close> is
  \<^verbatim>\<open>random.randint(1000, 9999)\<close>. The total cost is \<^verbatim>\<open>int * float * float\<close>, evaluated from
  the left; when the conversion of the space to a float raises, the handler's \<^verbatim>\<open>except\<close>
  clause logs the error: the request has been counted and nothing is sent.
\<close>

definition handle_storage_request ::
  "IntermediaryNetworkAgent \<Rightarrow> MessageBus \<Rightarrow> SimulationMetrics \<Rightarrow> envelope
     \<Rightarrow> real \<Rightarrow> real \<Rightarrow> int \<Rightarrow> real \<Rightarrow> real \<Rightarrow> real \<Rightarrow> real
     \<Rightarrow> IntermediaryNetworkAgent \<times> MessageBus \<times> SimulationMetrics" where
  "handle_storage_request n bus m msg t_select t_id rand_id t_start t_end latency_draw now =
     (case env_body msg of
        Storage_request request \<Rightarrow>
          let buyer_id = env_from msg;
              n1 = n\<lparr>n_stats := (n_stats n)\<lparr>ns_requests_processed :=
                                               ns_requests_processed (n_stats n) + 1\<rparr>\<rparr>
          in (case select_provider n1 request t_select of
                Some a \<Rightarrow>
                  let selected_provider = n_objects n1 a
                  in (case py_float (req_space_gb request) of
                        Inl e \<Rightarrow> (n1, bus, m)
                      | Inr space \<Rightarrow>
                          let total_cost =
                                double_mul (double_mul space (req_duration_hours request))
                                  (pi_price_per_gb_hour selected_provider);
                              contract =
                                \<lparr> con_contract_id =
                                    ''CONT-'' @ str_int (py_int t_id) @ ''-'' @ str_int rand_id,
                                  con_buyer_id = req_buyer_id request,
                                  con_provider_id = pi_agent_id selected_provider,
                                  con_space_gb = req_space_gb request,
                                  con_duration_hours = req_duration_hours request,
                                  con_price_per_gb_hour = pi_price_per_gb_hour selected_provider,
                                  con_total_cost = total_cost,
                                  con_start_time = t_start,
                                  con_end_time =
                                    double_add t_end
                                      (double_mul (req_duration_hours request) 3600),
                                  con_status = ''pending'' \<rparr>;
                              n2 = n1\<lparr>n_pending_allocations :=
                                        AList.update (req_request_id request)
                                          (buyer_id, request, a) (n_pending_allocations n1)\<rparr>;
                              allocation_message =
                                Allocation_request (req_request_id request) contract;
                              (ok, bus1, m1, slept) =
                                send_message bus m (n_agent_id n2)
                                  (pi_agent_id selected_provider) allocation_message True
                                  latency_draw now
                          in (n2, bus1, m1))
              | None \<Rightarrow>
                  let (bus1, m1) = send_failure_response n1 bus m buyer_id
                                     (req_request_id request) ''no_suitable_provider''
                                     latency_draw now
                  in (n1\<lparr>n_stats := (n_stats n1)\<lparr>ns_failed_allocations :=
                                          ns_failed_allocations (n_stats n1) + 1\<rparr>\<rparr>, bus1, m1))
      | _ \<Rightarrow> (n, bus, m))"

text \<open>
  The broker's own nudge of a provider's reputation, applied to the object that
  \<^verbatim>\<open>self.providers\<close> holds under the selected provider's id, if there is one.
\<close>

definition nudge_provider ::
  "IntermediaryNetworkAgent \<Rightarrow> string \<Rightarrow> bool \<Rightarrow> IntermediaryNetworkAgent" where
  "nudge_provider n provider_id accepted =
     (case map_of (n_providers n) provider_id of
        None \<Rightarrow> n
      | Some a \<Rightarrow>
          let provider = n_objects n a;
              provider' = (if accepted
                           then provider\<lparr>pi_success_count := pi_success_count provider + 1,
                                         pi_reputation := min (pi_reputation provider * 1.01) 10.0\<rparr>
                           else provider\<lparr>pi_failure_count := pi_failure_count provider + 1,
                                         pi_reputation := max (pi_reputation provider * 0.99) 0.1\<rparr>)
          in n\<lparr>n_objects := (n_objects n)(a := provider')\<rparr>)"

text \<open>
  The end of \<^verbatim>\<open>handle_allocation_response\<close>, common to its branches: the reply to the buyer,
  the running average and the removal of the pending entry.
\<close>

definition relay_response ::
  "IntermediaryNetworkAgent \<Rightarrow> MessageBus \<Rightarrow> SimulationMetrics \<Rightarrow> string \<Rightarrow> string \<Rightarrow> message
     \<Rightarrow> real \<Rightarrow> real \<Rightarrow> real
     \<Rightarrow> IntermediaryNetworkAgent \<times> MessageBus \<times> SimulationMetrics" where
  "relay_response n bus m buyer_id request_id final_response response_time latency_draw now =
     (let (ok, bus1, m1, slept) =
            send_message bus m (n_agent_id n) buyer_id final_response True latency_draw now;
          total_responses = ns_successful_allocations (n_stats n)
                              + ns_failed_allocations (n_stats n);
          n1 = (if total_responses > 0
                then n\<lparr>n_stats := (n_stats n)\<lparr>ns_avg_response_time :=
                          (ns_avg_response_time (n_stats n) * real_of_int (total_responses - 1)
                             + response_time) / real_of_int total_responses\<rparr>\<rparr>
                else n)
      in (n1\<lparr>n_pending_allocations := AList.delete request_id (n_pending_allocations n1)\<rparr>,
          bus1, m1))"

text \<open>
  \<^verbatim>\<open>handle_allocation_response\<close>. Clock reads in order: \<open>t_response\<close> for the response time,
  \<open>t_start\<close> and \<open>t_end\<close> for the relayed contract, \<open>now\<close> for the envelope; \<open>draw\<close> is the
  value of \<^verbatim>\<open>random.random()\<close> compared with the corruption probability. A missing
  \<^verbatim>\<open>'contract_id'\<close> raises \<^verbatim>\<open>KeyError\<close>, and the conversion of the space to a float can
  raise \<^verbatim>\<open>OverflowError\<close>; the handler catches and logs either.
\<close>

definition handle_allocation_response ::
  "IntermediaryNetworkAgent \<Rightarrow> MessageBus \<Rightarrow> SimulationMetrics \<Rightarrow> envelope
     \<Rightarrow> real \<Rightarrow> real \<Rightarrow> real \<Rightarrow> real \<Rightarrow> real \<Rightarrow> real
     \<Rightarrow> IntermediaryNetworkAgent \<times> MessageBus \<times> SimulationMetrics" where
  "handle_allocation_response n bus m msg t_response draw t_start t_end latency_draw now =
     (case env_body msg of
        Allocation_response response \<Rightarrow>
          let request_id = ar_request_id response
          in (case map_of (n_pending_allocations n) request_id of
                None \<Rightarrow> (n, bus, m)
              | Some (buyer_id, original_request, sp) \<Rightarrow>
                  let response_time = t_response - req_timestamp original_request
                  in if ar_status response = ''accepted'' then
                       let n1 = nudge_provider n (pi_agent_id (n_objects n sp)) True;
                           corrupted = (draw < n_corruption_probability n1)
                       in if corrupted then
                            let n2 = n1\<lparr>n_stats := (n_stats n1)\<lparr>ns_corrupted_contracts :=
                                           ns_corrupted_contracts (n_stats n1) + 1\<rparr>\<rparr>;
                                m1 = record_network_event m ''corruption'' 0;
                                final_response = Storage_response
                                  \<lparr> sr_request_id = request_id, sr_status = ''failure'',
                                    sr_reason = Some ''network_corruption'', sr_contract = None \<rparr>;
                                n3 = n2\<lparr>n_stats := (n_stats n2)\<lparr>ns_successful_allocations :=
                                           ns_successful_allocations (n_stats n2) + 1\<rparr>\<rparr>
                            in relay_response n3 bus m1 buyer_id request_id final_response
                                 response_time latency_draw now
                          else
                            (case ar_contract_id response of
                               None \<Rightarrow> (n1, bus, m)
                             | Some contract_id \<Rightarrow>
                                 (case py_float (req_space_gb original_request) of
                                    Inl e \<Rightarrow> (n1, bus, m)
                                  | Inr space \<Rightarrow>
                                 let selected_provider = n_objects n1 sp;
                                     contract_data =
                                       \<lparr> con_contract_id = contract_id,
                                         con_buyer_id = req_buyer_id original_request,
                                         con_provider_id = pi_agent_id selected_provider,
                                         con_space_gb = req_space_gb original_request,
                                         con_duration_hours = req_duration_hours original_request,
                                         con_price_per_gb_hour =
                                           pi_price_per_gb_hour selected_provider,
                                         con_total_cost =
                                           double_mul
                                             (double_mul space
                                                (req_duration_hours original_request))
                                             (pi_price_per_gb_hour selected_provider),
                                         con_start_time = t_start,
                                         con_end_time =
                                           double_add t_end
                                             (double_mul (req_duration_hours original_request)
                                                3600),
                                         con_status = ''active'' \<rparr>;
                                     final_response = Storage_response
                                       \<lparr> sr_request_id = request_id, sr_status = ''success'',
                                         sr_reason = None, sr_contract = Some contract_data \<rparr>;
                                     n3 = n1\<lparr>n_stats := (n_stats n1)\<lparr>
                                                ns_successful_allocations :=
                                                  ns_successful_allocations (n_stats n1) + 1\<rparr>\<rparr>
                                 in relay_response n3 bus m buyer_id request_id final_response
                                      response_time latency_draw now))
                     else
                       let n1 = nudge_provider n (pi_agent_id (n_objects n sp)) False;
                           final_response = Storage_response
                             \<lparr> sr_request_id = request_id, sr_status = ''failure'',
                               sr_reason = Some (case ar_reason response of
                                                   None \<Rightarrow> ''provider_rejected''
                                                 | Some r \<Rightarrow> r),
                               sr_contract = None \<rparr>;
                           n3 = n1\<lparr>n_stats := (n_stats n1)\<lparr>ns_failed_allocations :=
                                      ns_failed_allocations (n_stats n1) + 1\<rparr>\<rparr>
                       in relay_response n3 bus m buyer_id request_id final_response
                            response_time latency_draw now)
      | _ \<Rightarrow> (n, bus, m))"

text \<open>\<^verbatim>\<open>handle_status_update\<close>, with its two clock reads.\<close>

definition handle_status_update ::
  "IntermediaryNetworkAgent \<Rightarrow> envelope \<Rightarrow> real \<Rightarrow> real \<Rightarrow> IntermediaryNetworkAgent" where
  "handle_status_update n msg t_seen now =
     (case env_body msg of
        Status_update status \<Rightarrow>
          let provider_id = su_provider_id status
          in (case map_of (n_providers n) provider_id of
                None \<Rightarrow> n
              | Some a \<Rightarrow>
                  let provider = n_objects n a;
                      provider' = provider\<lparr>pi_available_space_gb := su_available_space_gb status,
                                           pi_reputation := su_reputation status,
                                           pi_price_per_gb_hour := su_price_per_gb_hour status,
                                           pi_last_seen := t_seen\<rparr>;
                      n1 = n\<lparr>n_objects := (n_objects n)(a := provider')\<rparr>
                  in n1\<lparr>n_provider_last_seen :=
                          AList.update provider_id now (n_provider_last_seen n1)\<rparr>)
      | _ \<Rightarrow> n)"

subsection \<open>BuyerAgent\<close>

record buyer_stats =
  bs_requests_sent :: int
  bs_requests_successful :: int
  bs_requests_failed :: int
  bs_total_spent :: real
  bs_total_storage_used :: int
  bs_avg_response_time :: real
  bs_contracts_completed :: int

record BuyerAgent =
  b_agent_id :: string
  b_broker_id :: string
  b_request_interval :: "real \<times> real"
  b_budget_per_hour :: real
  b_pending_requests :: "(string \<times> StorageRequest) list"
  b_active_contracts :: "(string \<times> StorageContract) list"
  b_completed_contracts :: "StorageContract list"
  b_running :: bool
  b_stats :: buyer_stats

definition BuyerAgent_init ::
  "string \<Rightarrow> string \<Rightarrow> MessageBus \<Rightarrow> real \<times> real \<Rightarrow> real \<Rightarrow> BuyerAgent \<times> MessageBus" where
  "BuyerAgent_init agent_id broker_id bus request_interval budget_per_hour =
     (\<lparr> b_agent_id = agent_id, b_broker_id = broker_id,
        b_request_interval = request_interval, b_budget_per_hour = budget_per_hour,
        b_pending_requests = [], b_active_contracts = [], b_completed_contracts = [],
        b_running = False,
        b_stats = \<lparr> bs_requests_sent = 0, bs_requests_successful = 0, bs_requests_failed = 0,
                    bs_total_spent = 0, bs_total_storage_used = 0, bs_avg_response_time = 0,
                    bs_contracts_completed = 0 \<rparr> \<rparr>,
      register_agent bus agent_id)"

text \<open>
  One iteration of the loop of \<^verbatim>\<open>request_behavior\<close>, up to its closing sleep. The draws are
  \<open>space_needed\<close> (\<^verbatim>\<open>randint(5, 50)\<close>), \<open>duration\<close>, \<open>price_draw\<close> and \<open>rand_id\<close>
  (\<^verbatim>\<open>randint(100, 999)\<close>); the clock reads are \<open>t_id\<close> for the request id, \<open>t_stamp\<close> for the
  request's timestamp and \<open>now\<close> for the envelope. The loop body is inside
  \<^verbatim>\<open>try ... except Exception\<close>.
\<close>

definition request_behavior ::
  "BuyerAgent \<Rightarrow> MessageBus \<Rightarrow> SimulationMetrics \<Rightarrow> int \<Rightarrow> real \<Rightarrow> real \<Rightarrow> real \<Rightarrow> int \<Rightarrow> real
     \<Rightarrow> real \<Rightarrow> real \<Rightarrow> BuyerAgent \<times> MessageBus \<times> SimulationMetrics" where
  "request_behavior b bus m space_needed duration price_draw t_id rand_id t_stamp
       latency_draw now =
     (case py_truediv (b_budget_per_hour b) (real_of_int space_needed) of
        Inl e \<Rightarrow> (b, bus, m)
      | Inr budget_cap \<Rightarrow>
          let max_price = min price_draw budget_cap;
              request_id = ''REQ-'' @ b_agent_id b @ ''-'' @ str_int (py_int t_id) @ ''-''
                             @ str_int rand_id;
              request = \<lparr> req_buyer_id = b_agent_id b, req_space_gb = space_needed,
                          req_duration_hours = duration, req_max_price_per_gb_hour = max_price,
                          req_timestamp = t_stamp, req_request_id = request_id \<rparr>;
              b1 = b\<lparr>b_pending_requests :=
                       AList.update request_id request (b_pending_requests b)\<rparr>;
              (success, bus1, m1, slept) =
                send_message bus m (b_agent_id b1) (b_broker_id b1) (Storage_request request)
                  True latency_draw now
          in if success
             then (b1\<lparr>b_stats := (b_stats b1)\<lparr>bs_requests_sent :=
                                                 bs_requests_sent (b_stats b1) + 1\<rparr>\<rparr>,
                   bus1, record_request m1 False 0)
             else (b1, bus1, m1))"

text \<open>
  \<^verbatim>\<open>process_response\<close>; \<open>now\<close> is its clock read. A success response without a
  \<^verbatim>\<open>'contract'\<close> raises, and the \<^verbatim>\<open>except\<close> clause leaves the agent as it was. The task that
  \<^verbatim>\<open>asyncio.create_task\<close> starts for the contract's completion runs later and is not part
  of this function.
\<close>

definition process_response ::
  "BuyerAgent \<Rightarrow> SimulationMetrics \<Rightarrow> envelope \<Rightarrow> real \<Rightarrow> BuyerAgent \<times> SimulationMetrics" where
  "process_response b m msg now =
     (case env_body msg of
        Storage_response response \<Rightarrow>
          let request_id = sr_request_id response
          in (case map_of (b_pending_requests b) request_id of
                None \<Rightarrow> (b, m)
              | Some original_request \<Rightarrow>
                  let response_time = now - req_timestamp original_request;
                      finish = (\<lambda>b1 m1.
                        let total_responses = bs_requests_successful (b_stats b1)
                                                + bs_requests_failed (b_stats b1);
                            b2 = (if total_responses > 0
                                  then b1\<lparr>b_stats := (b_stats b1)\<lparr>bs_avg_response_time :=
                                         (bs_avg_response_time (b_stats b1)
                                            * real_of_int (total_responses - 1) + response_time)
                                         / real_of_int total_responses\<rparr>\<rparr>
                                  else b1)
                        in (b2\<lparr>b_pending_requests :=
                                 AList.delete request_id (b_pending_requests b2)\<rparr>, m1))
                  in if sr_status response = ''success'' then
                       (case sr_contract response of
                          None \<Rightarrow> (b, m)
                        | Some contract \<Rightarrow>
                            let b1 = b\<lparr>b_active_contracts :=
                                         AList.update (con_contract_id contract) contract
                                           (b_active_contracts b)\<rparr>;
                                b2 = b1\<lparr>b_stats := (b_stats b1)\<lparr>
                                         bs_requests_successful :=
                                           bs_requests_successful (b_stats b1) + 1,
                                         bs_total_spent :=
                                           bs_total_spent (b_stats b1) + con_total_cost contract,
                                         bs_total_storage_used :=
                                           bs_total_storage_used (b_stats b1)
                                             + con_space_gb contract\<rparr>\<rparr>;
                                m1 = record_request m True response_time;
                                m2 = record_contract m1 contract False
                            in finish b2 m2)
                     else
                       let b1 = b\<lparr>b_stats := (b_stats b)\<lparr>bs_requests_failed :=
                                                  bs_requests_failed (b_stats b) + 1\<rparr>\<rparr>;
                           m1 = record_request m False response_time
                       in finish b1 m1)
      | _ \<Rightarrow> (b, m))"

text \<open>
  An iteration of \<^verbatim>\<open>request_behavior\<close> is suspended once before it counts its request:
  in the \<^verbatim>\<open>asyncio.sleep\<close> of \<^verbatim>\<open>send_message\<close>, after the request has been stored in
  \<^verbatim>\<open>pending_requests\<close>. \<open>request_behavior_begin\<close> is the part of the iteration up to
  that sleep; its second component is the request whose send is suspended, and \<open>None\<close>
  when the iteration ends without a sleep (the division raised, or the broker has no
  mailbox and \<^verbatim>\<open>send_message\<close> returned \<^verbatim>\<open>False\<close> at once). \<open>request_behavior_resume\<close>
  is the part from the end of the sleep, on the state the other coroutines have left.
  With no other coroutine in between the two parts make up \<open>request_behavior\<close>.
\<close>

definition request_behavior_begin ::
  "BuyerAgent \<Rightarrow> MessageBus \<Rightarrow> int \<Rightarrow> real \<Rightarrow> real \<Rightarrow> real \<Rightarrow> int \<Rightarrow> real
     \<Rightarrow> BuyerAgent \<times> StorageRequest option" where
  "request_behavior_begin b bus space_needed duration price_draw t_id rand_id t_stamp =
     (case py_truediv (b_budget_per_hour b) (real_of_int space_needed) of
        Inl e \<Rightarrow> (b, None)
      | Inr budget_cap \<Rightarrow>
          let max_price = min price_draw budget_cap;
              request_id = ''REQ-'' @ b_agent_id b @ ''-'' @ str_int (py_int t_id) @ ''-''
                             @ str_int rand_id;
              request = \<lparr> req_buyer_id = b_agent_id b, req_space_gb = space_needed,
                          req_duration_hours = duration, req_max_price_per_gb_hour = max_price,
                          req_timestamp = t_stamp, req_request_id = request_id \<rparr>;
              b1 = b\<lparr>b_pending_requests :=
                       AList.update request_id request (b_pending_requests b)\<rparr>
          in (b1, if map_of (mailboxes bus) (b_broker_id b1) = None then None
                  else Some request))"

definition request_behavior_resume ::
  "BuyerAgent \<Rightarrow> MessageBus \<Rightarrow> SimulationMetrics \<Rightarrow> StorageRequest \<Rightarrow> real \<Rightarrow> real
     \<Rightarrow> BuyerAgent \<times> MessageBus \<times> SimulationMetrics" where
  "request_behavior_resume b bus m request latency_draw now =
     (case send_message bus m (b_agent_id b) (b_broker_id b) (Storage_request request)
             True latency_draw now of
        (success, bus1, m1, slept) \<Rightarrow>
          if success
          then (b\<lparr>b_stats := (b_stats b)\<lparr>bs_requests_sent :=
                                            bs_requests_sent (b_stats b) + 1\<rparr>\<rparr>,
                bus1, record_request m1 False 0)
          else (b, bus1, m1))"

section \<open>Traces and state predicates\<close>

text \<open>
  A finite sequence of outcomes applied to a provider through \<^verbatim>\<open>update_reputation\<close>, one call
  per outcome. The callers of \<^verbatim>\<open>update_reputation\<close> catch what it raises, and the agent
  keeps the state the call left.
\<close>

fun apply_outcomes ::
  "StorageProviderAgent \<Rightarrow> SimulationMetrics \<Rightarrow> bool list \<Rightarrow> StorageProviderAgent \<times> SimulationMetrics" where
  "apply_outcomes p m [] = (p, m)"
| "apply_outcomes p m (success # rest) =
     (case update_reputation p m success of (p1, m1, e) \<Rightarrow> apply_outcomes p1 m1 rest)"

text \<open>
  The capacity ledger of a provider: the space of its active contracts, and the invariant
  that relates it to the available and the total space.
\<close>

definition active_space :: "StorageProviderAgent \<Rightarrow> int" where
  "active_space p = sum_list (map (\<lambda>(contract_id, contract). con_space_gb contract)
                                (p_active_contracts p))"

definition ledger_invariant :: "StorageProviderAgent \<Rightarrow> bool" where
  "ledger_invariant p =
     (0 \<le> p_available_space_gb p \<and> p_available_space_gb p \<le> p_total_space_gb p \<and>
      p_total_space_gb p - p_available_space_gb p = active_space p)"

text \<open>
  A contract has expired at a clock read when the read is not before its end time; the
  sweep marks an expired contract completed.
\<close>

definition expired :: "real \<Rightarrow> string \<times> StorageContract \<Rightarrow> bool" where
  "expired current_time item = (current_time \<ge> con_end_time (snd item))"

definition mark_completed :: "real \<Rightarrow> string \<times> StorageContract \<Rightarrow> string \<times> StorageContract" where
  "mark_completed current_time item =
     (if expired current_time item then (fst item, (snd item)\<lparr>con_status := ''completed''\<rparr>)
      else item)"


text \<open>
  The body of the loop of the provider's \<^verbatim>\<open>request_handler\<close>: take the next message, if
  there is one, and process it. \<^verbatim>\<open>register_with_broker\<close> is the message a provider sends
  when it starts.
\<close>

definition request_handler ::
  "StorageProviderAgent \<Rightarrow> MessageBus \<Rightarrow> SimulationMetrics \<Rightarrow> real \<Rightarrow> real \<Rightarrow> real
     \<Rightarrow> StorageProviderAgent \<times> MessageBus \<times> SimulationMetrics" where
  "request_handler p bus m draw latency_draw now =
     (case receive_message bus (p_agent_id p) of
        Inr (Some msg, bus1) \<Rightarrow> process_allocation_request p bus1 m msg draw latency_draw now
      | _ \<Rightarrow> (p, bus, m))"

definition register_with_broker ::
  "StorageProviderAgent \<Rightarrow> MessageBus \<Rightarrow> SimulationMetrics \<Rightarrow> real \<Rightarrow> real \<Rightarrow> real
     \<Rightarrow> MessageBus \<times> SimulationMetrics" where
  "register_with_broker p bus m t_seen latency_draw now =
     (let provider_info =
            \<lparr> pi_agent_id = p_agent_id p, pi_total_space_gb = p_total_space_gb p,
              pi_available_space_gb = p_available_space_gb p, pi_reputation = p_reputation p,
              pi_price_per_gb_hour = p_current_price_per_gb_hour p, pi_last_seen = t_seen,
              pi_success_count = p_success_count p, pi_failure_count = p_failure_count p,
              pi_response_time_avg = 0.1 \<rparr>;
          (ok, bus1, m1, slept) =
            send_message bus m (p_agent_id p) (p_broker_id p)
              (Provider_registration provider_info) True latency_draw now
      in (bus1, m1))"

text \<open>
  The steps that change the buyers, the bus and the metrics, in any order. A buyer is kept
  with the request whose send is suspended, if there is one. It starts an iteration of
  \<^verbatim>\<open>request_behavior\<close> only when none is suspended, it resumes a suspended send, and its
  \<^verbatim>\<open>response_handler\<close> processes an envelope at any time, whatever the envelope. The
  other steps are those of the other agents on the bus and the metrics: a send, a receive,
  a registration, and a call of one of the three other recorders of the metrics.
\<close>

datatype market_event =
    Requests nat int real real real int real
  | Resumes nat real real
  | Receives nat envelope real
  | Posts string string message bool real real
  | Takes string
  | Registers string
  | Network_event string real
  | Provider_metrics real real real
  | Contract_event StorageContract bool

type_synonym market =
  "(BuyerAgent \<times> StorageRequest option) list \<times> MessageBus \<times> SimulationMetrics"

fun market_step :: "market \<Rightarrow> market_event \<Rightarrow> market" where
  "market_step (buyers, bus, m)
       (Requests i space_needed duration price_draw t_id rand_id t_stamp) =
     (if i < length buyers \<and> snd (buyers ! i) = None
      then (buyers[i := request_behavior_begin (fst (buyers ! i)) bus space_needed duration
                          price_draw t_id rand_id t_stamp], bus, m)
      else (buyers, bus, m))"
| "market_step (buyers, bus, m) (Resumes i latency_draw now) =
     (if i < length buyers
      then (case snd (buyers ! i) of
              None \<Rightarrow> (buyers, bus, m)
            | Some request \<Rightarrow>
                (case request_behavior_resume (fst (buyers ! i)) bus m request latency_draw now of
                   (b, bus1, m1) \<Rightarrow> (buyers[i := (b, None)], bus1, m1)))
      else (buyers, bus, m))"
| "market_step (buyers, bus, m) (Receives i msg now) =
     (if i < length buyers
      then (case process_response (fst (buyers ! i)) m msg now of
              (b, m1) \<Rightarrow> (buyers[i := (b, snd (buyers ! i))], bus, m1))
      else (buyers, bus, m))"
| "market_step (buyers, bus, m) (Posts from_agent to_agent body simulate_latency latency_draw now) =
     (case send_message bus m from_agent to_agent body simulate_latency latency_draw now of
        (success, bus1, m1, slept) \<Rightarrow> (buyers, bus1, m1))"
| "market_step (buyers, bus, m) (Takes agent_id) =
     (case receive_message bus agent_id of
        Inl e \<Rightarrow> (buyers, bus, m)
      | Inr (msg, bus1) \<Rightarrow> (buyers, bus1, m))"
| "market_step (buyers, bus, m) (Registers agent_id) = (buyers, register_agent bus agent_id, m)"
| "market_step (buyers, bus, m) (Network_event event_type latency) =
     (buyers, bus, record_network_event m event_type latency)"
| "market_step (buyers, bus, m) (Provider_metrics utilization reputation earnings) =
     (buyers, bus, record_provider_metrics m utilization reputation earnings)"
| "market_step (buyers, bus, m) (Contract_event contract completed) =
     (buyers, bus, record_contract m contract completed)"

definition run_market :: "market \<Rightarrow> market_event list \<Rightarrow> market" where
  "run_market state events = foldl market_step state events"

text \<open>
  For a buyer, \<open>awaiting\<close> is the number of its pending requests that have been counted
  at their send: the entries of \<^verbatim>\<open>pending_requests\<close>, less one while a send is suspended.
  \<open>requests_balanced\<close> relates them to the counters of the metrics, for buyers whose
  broker has a mailbox. \<open>send_covered\<close> holds of a buyer with no suspended send, and of
  one that has a pending request. \<open>fresh_buyer\<close> is a buyer as \<^verbatim>\<open>__init__\<close> leaves it,
  with a broker that has a mailbox.
\<close>

definition awaiting :: "BuyerAgent \<times> StorageRequest option \<Rightarrow> int" where
  "awaiting x = int (length (b_pending_requests (fst x))) - (if snd x = None then 0 else 1)"

definition awaiting_total :: "(BuyerAgent \<times> StorageRequest option) list \<Rightarrow> int" where
  "awaiting_total buyers = sum_list (map awaiting buyers)"

definition broker_registered :: "MessageBus \<Rightarrow> BuyerAgent \<times> StorageRequest option \<Rightarrow> bool" where
  "broker_registered bus x = (map_of (mailboxes bus) (b_broker_id (fst x)) \<noteq> None)"

definition requests_balanced :: "market \<Rightarrow> bool" where
  "requests_balanced state =
     (case state of (buyers, bus, m) \<Rightarrow>
        m_total_requests m = m_successful_requests m + m_failed_requests m
        \<and> m_successful_requests m + awaiting_total buyers \<le> m_failed_requests m
        \<and> list_all (broker_registered bus) buyers)"

definition send_covered :: "BuyerAgent \<times> StorageRequest option \<Rightarrow> bool" where
  "send_covered x = (snd x = None \<or> b_pending_requests (fst x) \<noteq> [])"

definition fresh_buyer :: "MessageBus \<Rightarrow> BuyerAgent \<Rightarrow> bool" where
  "fresh_buyer bus b =
     (b_pending_requests b = [] \<and> map_of (mailboxes bus) (b_broker_id b) \<noteq> None)"

section \<open>Scenarios\<close>

text \<open>
  Concrete agents and messages: a broker, a provider of 100 GB at 0.5 per GB and hour
  that never fails, a buyer, and the bus they are registered on, created in this order.
\<close>

definition scenario_network :: "IntermediaryNetworkAgent \<times> MessageBus" where
  "scenario_network = IntermediaryNetworkAgent_init ''network'' MessageBus_init 0.03"

definition scenario_provider :: "StorageProviderAgent \<times> MessageBus" where
  "scenario_provider =
     StorageProviderAgent_init ''provider0'' ''network'' (snd scenario_network) 100 0.5 0 0"

definition scenario_buyer :: "BuyerAgent \<times> MessageBus" where
  "scenario_buyer = BuyerAgent_init ''buyer0'' ''network'' (snd scenario_provider) (3, 8) 25"

definition scenario_bus :: MessageBus where
  "scenario_bus = snd scenario_buyer"

definition allocation_envelope :: "string \<Rightarrow> StorageContract \<Rightarrow> envelope" where
  "allocation_envelope request_id contract =
     \<lparr> env_from = ''network'', env_to = ''provider0'',
       env_body = Allocation_request request_id contract,
       env_timestamp = 0, env_latency = 0, env_id = 0 \<rparr>"

definition pending_contract :: "string \<Rightarrow> int \<Rightarrow> StorageContract" where
  "pending_contract contract_id space_gb =
     \<lparr> con_contract_id = contract_id, con_buyer_id = ''buyer0'',
       con_provider_id = ''provider0'', con_space_gb = space_gb, con_duration_hours = 2,
       con_price_per_gb_hour = 0.5, con_total_cost = real_of_int space_gb * 2 * 0.5,
       con_start_time = 0, con_end_time = 7200, con_status = ''pending'' \<rparr>"

definition zero_capacity_provider :: StorageProviderAgent where
  "zero_capacity_provider =
     fst (StorageProviderAgent_init ''provider0'' ''network'' (snd scenario_network) 0 0.5 0 0)"

text \<open>
  The broker after the provider's registration, and two buyers' requests that the broker
  handles within the same second, drawing the same number for the contract id both times.
  The provider then takes the two allocation requests from its mailbox, and later sweeps.
\<close>

definition scenario_registered :: IntermediaryNetworkAgent where
  "scenario_registered =
     handle_provider_registration (fst scenario_network)
       \<lparr> env_from = ''provider0'', env_to = ''network'',
         env_body = Provider_registration
           \<lparr> pi_agent_id = ''provider0'', pi_total_space_gb = 100,
             pi_available_space_gb = 100, pi_reputation = 5, pi_price_per_gb_hour = 0.5,
             pi_last_seen = 1700000000, pi_success_count = 0, pi_failure_count = 0,
             pi_response_time_avg = 0.1 \<rparr>,
         env_timestamp = 1700000000, env_latency = 0.1, env_id = 0 \<rparr>
       1700000000"

definition request_envelope :: "string \<Rightarrow> string \<Rightarrow> int \<Rightarrow> envelope" where
  "request_envelope buyer_id request_id space_gb =
     \<lparr> env_from = buyer_id, env_to = ''network'',
       env_body = Storage_request
         \<lparr> req_buyer_id = buyer_id, req_space_gb = space_gb, req_duration_hours = 2,
           req_max_price_per_gb_hour = 1, req_timestamp = 1700000001,
           req_request_id = request_id \<rparr>,
       env_timestamp = 1700000001, env_latency = 0.1, env_id = 1 \<rparr>"

definition collision_match1 :: "IntermediaryNetworkAgent \<times> MessageBus \<times> SimulationMetrics" where
  "collision_match1 =
     handle_storage_request scenario_registered scenario_bus (reset 1700000000)
       (request_envelope ''buyer0'' ''REQ-buyer0-1700000001-417'' 10)
       1700000002 (3400000005 / 2) 4242 (3400000005 / 2) (3400000005 / 2) (1/10)
       (3400000005 / 2)"

definition collision_match2 :: "IntermediaryNetworkAgent \<times> MessageBus \<times> SimulationMetrics" where
  "collision_match2 =
     handle_storage_request (fst collision_match1) (fst (snd collision_match1))
       (snd (snd collision_match1))
       (request_envelope ''buyer1'' ''REQ-buyer1-1700000001-880'' 20)
       (6800000011 / 4) (6800000011 / 4) 4242 (6800000011 / 4) (6800000011 / 4) (1/10)
       (6800000011 / 4)"

definition collision_admit1 :: "StorageProviderAgent \<times> MessageBus \<times> SimulationMetrics" where
  "collision_admit1 =
     request_handler (fst scenario_provider) (fst (snd collision_match2))
       (snd (snd collision_match2)) (1/2) (1/10) 1700000003"

definition collision_admit2 :: "StorageProviderAgent \<times> MessageBus \<times> SimulationMetrics" where
  "collision_admit2 =
     request_handler (fst collision_admit1) (fst (snd collision_admit1))
       (snd (snd collision_admit1)) (1/2) (1/10) 1700000004"


definition collision_sweep :: StorageProviderAgent where
  "collision_sweep = contract_manager (fst collision_admit2) 1700010000"

text \<open>The provider's reply to the first of the two requests, as the broker receives it.\<close>

definition accepted_envelope :: envelope where
  "accepted_envelope =
     \<lparr> env_from = ''provider0'', env_to = ''network'',
       env_body = Allocation_response
         \<lparr> ar_request_id = ''REQ-buyer0-1700000001-417'',
           ar_contract_id = Some ''CONT-1700000002-4242'', ar_status = ''accepted'',
           ar_reason = None, ar_provider_id = ''provider0'' \<rparr>,
       env_timestamp = 1700000003, env_latency = 1/10, env_id = 2 \<rparr>"

text \<open>
  The broker takes that reply from its mailbox and draws 0.01, below its corruption
  probability of 0.03. The provider then takes the second allocation request, and later
  sweeps.
\<close>

definition corrupted_relay :: "IntermediaryNetworkAgent \<times> MessageBus \<times> SimulationMetrics" where
  "corrupted_relay =
     (case receive_message (fst (snd collision_admit1)) ''network'' of
        Inr (Some msg, bus1) \<Rightarrow>
          handle_allocation_response (fst collision_match2) bus1 (snd (snd collision_admit1))
            msg (3400000007 / 2) (1/100) (3400000007 / 2) (3400000007 / 2) (1/10)
            (3400000007 / 2)
      | _ \<Rightarrow> (fst collision_match2, fst (snd collision_admit1), snd (snd collision_admit1)))"

definition corrupted_admit2 :: "StorageProviderAgent \<times> MessageBus \<times> SimulationMetrics" where
  "corrupted_admit2 =
     request_handler (fst collision_admit1) (fst (snd corrupted_relay))
       (snd (snd corrupted_relay)) (1/2) (1/10) 1700000004"

definition corrupted_sweep :: StorageProviderAgent where
  "corrupted_sweep = contract_manager (fst corrupted_admit2) 1700010000"

text \<open>
  A provider that offers its space for free and a request that will pay nothing; and the
  same two providers, equal but for their ids, registered in either order.
\<close>

definition registration_envelope :: "string \<Rightarrow> real \<Rightarrow> envelope" where
  "registration_envelope agent_id price =
     \<lparr> env_from = agent_id, env_to = ''network'',
       env_body = Provider_registration
         \<lparr> pi_agent_id = agent_id, pi_total_space_gb = 100, pi_available_space_gb = 100,
           pi_reputation = 5, pi_price_per_gb_hour = price, pi_last_seen = 1700000000,
           pi_success_count = 0, pi_failure_count = 0, pi_response_time_avg = 1/10 \<rparr>,
       env_timestamp = 1700000000, env_latency = 1/10, env_id = 0 \<rparr>"

definition free_registered :: IntermediaryNetworkAgent where
  "free_registered =
     handle_provider_registration (fst scenario_network)
       (registration_envelope ''provider0'' 0) 1700000000"

definition free_request :: StorageRequest where
  "free_request =
     \<lparr> req_buyer_id = ''buyer0'', req_space_gb = 10, req_duration_hours = 2,
       req_max_price_per_gb_hour = 0, req_timestamp = 1700000001,
       req_request_id = ''REQ-buyer0-1700000001-417'' \<rparr>"

definition free_request_envelope :: envelope where
  "free_request_envelope =
     \<lparr> env_from = ''buyer0'', env_to = ''network'', env_body = Storage_request free_request,
       env_timestamp = 1700000001, env_latency = 1/10, env_id = 1 \<rparr>"

definition registry_ab :: IntermediaryNetworkAgent where
  "registry_ab =
     handle_provider_registration
       (handle_provider_registration (fst scenario_network)
          (registration_envelope ''a'' (1/2)) 1700000000)
       (registration_envelope ''b'' (1/2)) 1700000000"

definition registry_ba :: IntermediaryNetworkAgent where
  "registry_ba =
     handle_provider_registration
       (handle_provider_registration (fst scenario_network)
          (registration_envelope ''b'' (1/2)) 1700000000)
       (registration_envelope ''a'' (1/2)) 1700000000"

text \<open>A request of \<^verbatim>\<open>buyer0\<close> for 10 GB with a duration to be chosen.\<close>

definition brief_envelope :: "real \<Rightarrow> envelope" where
  "brief_envelope duration =
     \<lparr> env_from = ''buyer0'', env_to = ''network'',
       env_body = Storage_request
         \<lparr> req_buyer_id = ''buyer0'', req_space_gb = 10, req_duration_hours = duration,
           req_max_price_per_gb_hour = 1, req_timestamp = 1700000001,
           req_request_id = ''REQ-buyer0-1700000001-417'' \<rparr>,
       env_timestamp = 1700000001, env_latency = 1/10, env_id = 1 \<rparr>"

text \<open>
  Provider a with half of its space taken and one success counted, registered before a
  provider b with all of its space and no allocation counted.
\<close>

definition used_registration :: envelope where
  "used_registration =
     \<lparr> env_from = ''a'', env_to = ''network'',
       env_body = Provider_registration
         \<lparr> pi_agent_id = ''a'', pi_total_space_gb = 100, pi_available_space_gb = 50,
           pi_reputation = 5, pi_price_per_gb_hour = 1/2, pi_last_seen = 1700000000,
           pi_success_count = 1, pi_failure_count = 0, pi_response_time_avg = 1/10 \<rparr>,
       env_timestamp = 1700000000, env_latency = 1/10, env_id = 0 \<rparr>"

definition registry_used :: IntermediaryNetworkAgent where
  "registry_used =
     handle_provider_registration
       (handle_provider_registration (fst scenario_network) used_registration 1700000000)
       (registration_envelope ''b'' (1/2)) 1700000000"

definition tie_request :: StorageRequest where
  "tie_request =
     \<lparr> req_buyer_id = ''buyer0'', req_space_gb = 10, req_duration_hours = 2,
       req_max_price_per_gb_hour = 1, req_timestamp = 1700000001,
       req_request_id = ''REQ-buyer0-1700000001-417'' \<rparr>"

text \<open>
  One request of the buyer, sent without interruption, the response that reports its
  success, and the same as three steps of the market.
\<close>

definition served_request :: StorageRequest where
  "served_request =
     \<lparr> req_buyer_id = ''buyer0'', req_space_gb = 10, req_duration_hours = 2,
       req_max_price_per_gb_hour = 1, req_timestamp = 1700000001,
       req_request_id = ''REQ-buyer0-1700000001-417'' \<rparr>"

definition served_iteration :: "BuyerAgent \<times> MessageBus \<times> SimulationMetrics" where
  "served_iteration =
     request_behavior (fst scenario_buyer) scenario_bus (reset 1700000000) 10 2 1 1700000001
       417 1700000001 (1/10) (17000000011 / 10)"

definition served_envelope :: envelope where
  "served_envelope =
     \<lparr> env_from = ''network'', env_to = ''buyer0'',
       env_body = Storage_response
         \<lparr> sr_request_id = ''REQ-buyer0-1700000001-417'', sr_status = ''success'',
           sr_reason = None,
           sr_contract = Some ((pending_contract ''CONT-1700000002-4242'' 10)
                                 \<lparr>con_status := ''active''\<rparr>) \<rparr>,
       env_timestamp = 1700000004, env_latency = 1/10, env_id = 4 \<rparr>"

definition served_events :: "market_event list" where
  "served_events =
     [Requests 0 10 2 1 1700000001 417 1700000001,
      Resumes 0 (1/10) (17000000011 / 10),
      Receives 0 served_envelope 1700000004]"

section \<open>The metrics summary\<close>

lemma bind_err_Inr: "bind_err (Inr x) f = f x"
  by (simp add: bind_err_def)

lemma guarded_mean:
  "(if xs \<noteq> [] then statistics_mean xs else Inr 0) =
     Inr (if xs \<noteq> [] then sum_list xs / real (length xs) else 0)"
  by (simp add: statistics_mean_def)

lemma guarded_stdev:
  "(if length xs > 1 then statistics_stdev xs else Inr 0) =
     Inr (if length xs > 1
          then sqrt (sum_list (map (\<lambda>x. (x - sum_list xs / real (length xs))\<^sup>2) xs)
                       / real (length xs - 1))
          else 0)"
  by (simp add: statistics_stdev_def Let_def)

lemma guarded_ratio:
  "py_truediv a (real_of_int (max k 1)) = Inr (a / real_of_int (max k 1))"
  by (simp add: py_truediv_def max_def)

lemma guarded_share:
  "(if t > 0 then py_truediv t 3 else Inr 0) = Inr (if t > 0 then t / 3 else 0)"
  by (simp add: py_truediv_def)

lemma get_summary_value:
  "get_summary m now = Inr
     \<lparr> simulation_duration = now - m_start_time m,
       requests_total = m_total_requests m,
       requests_successful = m_successful_requests m,
       requests_failed = m_failed_requests m,
       requests_success_rate =
         real_of_int (m_successful_requests m) / real_of_int (max (m_total_requests m) 1) * 100,
       requests_avg_response_time =
         (if m_response_times m \<noteq> []
          then sum_list (m_response_times m) / real (length (m_response_times m)) else 0),
       requests_std_response_time =
         (if length (m_response_times m) > 1
          then sqrt (sum_list (map (\<lambda>x. (x - sum_list (m_response_times m)
                                              / real (length (m_response_times m)))\<^sup>2)
                                (m_response_times m))
                       / real (length (m_response_times m) - 1))
          else 0),
       contracts_created = m_contracts_created m,
       contracts_completed = m_contracts_completed m,
       contracts_failed = m_contracts_failed m,
       contracts_avg_duration_hours =
         (if m_contract_durations m \<noteq> []
          then sum_list (m_contract_durations m) / real (length (m_contract_durations m))
          else 0),
       contracts_avg_value =
         (if m_contract_values m \<noteq> []
          then sum_list (m_contract_values m) / real (length (m_contract_values m)) else 0),
       contracts_completion_rate =
         real_of_int (m_contracts_completed m) / real_of_int (max (m_contracts_created m) 1)
           * 100,
       providers_avg_utilization =
         (if m_provider_utilizations m \<noteq> []
          then sum_list (m_provider_utilizations m) / real (length (m_provider_utilizations m))
          else 0),
       providers_avg_reputation =
         (if m_provider_reputations m \<noteq> []
          then sum_list (m_provider_reputations m) / real (length (m_provider_reputations m))
          else 0),
       providers_total_earnings =
         (if m_provider_earnings m \<noteq> [] then sum_list (m_provider_earnings m) else 0),
       providers_avg_earnings_per_provider =
         (if (if m_provider_earnings m \<noteq> [] then sum_list (m_provider_earnings m) else 0) > 0
          then (if m_provider_earnings m \<noteq> [] then sum_list (m_provider_earnings m) else 0) / 3
          else 0),
       network_corruptions = m_network_corruptions m,
       network_provider_failures = m_provider_failures m,
       network_avg_latency =
         (if m_network_latencies m \<noteq> []
          then sum_list (m_network_latencies m) / real (length (m_network_latencies m)) else 0),
       network_corruption_rate =
         real_of_int (m_network_corruptions m) / real_of_int (max (m_total_requests m) 1) * 100 \<rparr>"
  unfolding get_summary_def Let_def guarded_mean guarded_stdev guarded_ratio guarded_share
    bind_err_Inr
  by (rule refl)

text \<open>
  \<^bold>\<open>C10.\<close> \<^verbatim>\<open>get_summary\<close> returns a summary for every state of the metrics and every clock
  read: no call of \<^verbatim>\<open>statistics.mean\<close> or \<^verbatim>\<open>statistics.stdev\<close> and no division in it
  raises. With no sample recorded, the mean of the response times, contract durations,
  contract values, utilizations, reputations and latencies is 0; the standard deviation
  of the response times is 0 with fewer than two samples; and with no request or no
  contract counted, the divisor of the success rate and of the completion rate is 1.
\<close>

theorem get_summary_total:
  "\<exists>s. get_summary m now = Inr s
     \<and> (m_response_times m = [] \<longrightarrow> requests_avg_response_time s = 0)
     \<and> (length (m_response_times m) < 2 \<longrightarrow> requests_std_response_time s = 0)
     \<and> (m_contract_durations m = [] \<longrightarrow> contracts_avg_duration_hours s = 0)
     \<and> (m_contract_values m = [] \<longrightarrow> contracts_avg_value s = 0)
     \<and> (m_provider_utilizations m = [] \<longrightarrow> providers_avg_utilization s = 0)
     \<and> (m_provider_reputations m = [] \<longrightarrow> providers_avg_reputation s = 0)
     \<and> (m_network_latencies m = [] \<longrightarrow> network_avg_latency s = 0)
     \<and> (m_total_requests m \<le> 0 \<longrightarrow>
          requests_success_rate s = real_of_int (m_successful_requests m) * 100)
     \<and> (m_contracts_created m \<le> 0 \<longrightarrow>
          contracts_completion_rate s = real_of_int (m_contracts_completed m) * 100)"
  by (simp add: get_summary_value max_def)

theorem get_summary_total_witness:
  "\<exists>s. get_summary (reset 0) 7 = Inr s
     \<and> requests_avg_response_time s = 0 \<and> requests_std_response_time s = 0
     \<and> contracts_avg_duration_hours s = 0 \<and> contracts_avg_value s = 0
     \<and> providers_avg_utilization s = 0 \<and> providers_avg_reputation s = 0
     \<and> network_avg_latency s = 0 \<and> requests_success_rate s = 0
     \<and> contracts_completion_rate s = 0"
  using get_summary_total [of "reset 0" 7] by (simp add: reset_def)

section \<open>The message bus\<close>

lemma send_unregistered:
  "map_of (mailboxes bus) to_agent = None \<Longrightarrow>
   send_message bus m from_agent to_agent msg sim lat now = (False, bus, m, None)"
  by (simp add: send_message_def)

lemma send_registered:
  "map_of (mailboxes bus) to_agent = Some queue \<Longrightarrow>
   send_message bus m from_agent to_agent msg sim lat now =
     (True,
      bus\<lparr>message_count := message_count bus + 1,
          mailboxes := AList.update to_agent
            (queue @ [\<lparr> env_from = from_agent, env_to = to_agent, env_body = msg,
                        env_timestamp = now, env_latency = (if sim then lat else 0),
                        env_id = message_count bus \<rparr>]) (mailboxes bus)\<rparr>,
      (if sim then record_network_event m ''latency'' lat else m),
      (if sim then Some lat else None))"
  by (simp add: send_message_def Let_def)


lemma send_other_mailbox:
  "other \<noteq> to_agent \<Longrightarrow>
   map_of (mailboxes (fst (snd (send_message bus m from_agent to_agent msg sim lat now)))) other
     = map_of (mailboxes bus) other"
  by (cases "map_of (mailboxes bus) to_agent")
     (simp_all add: send_unregistered send_registered AList.update_conv')

text \<open>
  \<^bold>\<open>C9.\<close> A send to an agent id without a mailbox returns \<^verbatim>\<open>False\<close> and leaves the bus and
  the metrics as they were, and the caller is not suspended. A send to a registered id
  returns \<^verbatim>\<open>True\<close> and appends one envelope, carrying the message, to that agent's mailbox;
  every other mailbox keeps its content.
\<close>

theorem send_message_delivery:
  "(map_of (mailboxes bus) to_agent = None \<longrightarrow>
      send_message bus m from_agent to_agent msg sim lat now = (False, bus, m, None))
   \<and> (map_of (mailboxes bus) to_agent = Some queue \<longrightarrow>
        fst (send_message bus m from_agent to_agent msg sim lat now) = True
        \<and> map_of (mailboxes (fst (snd (send_message bus m from_agent to_agent msg sim lat now))))
              to_agent
            = Some (queue @ [\<lparr> env_from = from_agent, env_to = to_agent, env_body = msg,
                                env_timestamp = now, env_latency = (if sim then lat else 0),
                                env_id = message_count bus \<rparr>])
        \<and> (\<forall>other. other \<noteq> to_agent \<longrightarrow>
              map_of (mailboxes (fst (snd (send_message bus m from_agent to_agent msg sim lat now))))
                other = map_of (mailboxes bus) other))"
  by (auto simp: send_unregistered send_registered AList.update_conv')

theorem send_message_delivery_witness:
  "send_message (register_agent MessageBus_init ''network'') (reset 0) ''buyer0'' ''ghost''
       (Status_update \<lparr> su_provider_id = ''p'', su_available_space_gb = 1, su_utilization = 0,
                         su_reputation = 5, su_price_per_gb_hour = 1, su_active_contracts = 0 \<rparr>)
       True (1/10) 3
     = (False, register_agent MessageBus_init ''network'', reset 0, None)
   \<and> fst (send_message (register_agent MessageBus_init ''network'') (reset 0) ''buyer0''
            ''network''
            (Status_update \<lparr> su_provider_id = ''p'', su_available_space_gb = 1,
                              su_utilization = 0, su_reputation = 5, su_price_per_gb_hour = 1,
                              su_active_contracts = 0 \<rparr>)
            True (1/10) 3) = True
   \<and> map_of (mailboxes (fst (snd (send_message (register_agent MessageBus_init ''network'')
            (reset 0) ''buyer0'' ''network''
            (Status_update \<lparr> su_provider_id = ''p'', su_available_space_gb = 1,
                              su_utilization = 0, su_reputation = 5, su_price_per_gb_hour = 1,
                              su_active_contracts = 0 \<rparr>)
            True (1/10) 3)))) ''network''
       = Some [\<lparr> env_from = ''buyer0'', env_to = ''network'',
                  env_body = Status_update
                    \<lparr> su_provider_id = ''p'', su_available_space_gb = 1, su_utilization = 0,
                      su_reputation = 5, su_price_per_gb_hour = 1, su_active_contracts = 0 \<rparr>,
                  env_timestamp = 3, env_latency = 1/10, env_id = 0 \<rparr>]"
  using send_message_delivery [of "register_agent MessageBus_init ''network''" "''ghost''"
          "reset 0" "''buyer0''" _ True "1/10" 3 "[]"]
        send_message_delivery [of "register_agent MessageBus_init ''network''" "''network''"
          "reset 0" "''buyer0''" _ True "1/10" 3 "[]"]
  by (simp add: register_agent_def MessageBus_init_def)

section \<open>The provider's reputation\<close>

lemma update_reputation_value:
  "p_reputation (fst (update_reputation p m success)) =
     (if success then min (p_reputation p * 1.02) 10 else max (p_reputation p * 0.98) 0.1)"
  by (simp add: update_reputation_def Let_def split: sum.split)

lemma update_reputation_range:
  assumes "0.1 \<le> p_reputation p" "p_reputation p \<le> 10"
  shows "0.1 \<le> p_reputation (fst (update_reputation p m success))
         \<and> p_reputation (fst (update_reputation p m success)) \<le> 10"
  using assms by (simp add: update_reputation_value min_def max_def)

lemma apply_outcomes_range:
  "0.1 \<le> p_reputation p \<Longrightarrow> p_reputation p \<le> 10 \<Longrightarrow>
   0.1 \<le> p_reputation (fst (apply_outcomes p m outcomes))
   \<and> p_reputation (fst (apply_outcomes p m outcomes)) \<le> 10"
proof (induction outcomes arbitrary: p m)
  case Nil
  then show ?case by simp
next
  case (Cons s rest)
  obtain p1 m1 e where u: "update_reputation p m s = (p1, m1, e)"
    by (cases "update_reputation p m s") auto
  have "0.1 \<le> p_reputation p1 \<and> p_reputation p1 \<le> 10"
    using update_reputation_range [OF Cons.prems, of m s] u by simp
  then show ?case using Cons.IH [of p1 m1] u by simp
qed

text \<open>
  \<^bold>\<open>C3.\<close> A new provider has reputation 5.0. A success sets the reputation to the minimum
  of 1.02 times its value and 10.0, a failure to the maximum of 0.98 times its value and
  0.1. After any finite sequence of outcomes, applied to a new provider, the reputation
  is at least 0.1 and at most 10.0.
\<close>

theorem reputation_bounded:
  "p_reputation (fst (StorageProviderAgent_init agent_id broker_id bus capacity price fp t0)) = 5
   \<and> p_reputation (fst (update_reputation p m True)) = min (p_reputation p * 1.02) 10
   \<and> p_reputation (fst (update_reputation p m False)) = max (p_reputation p * 0.98) 0.1
   \<and> 0.1 \<le> p_reputation (fst (apply_outcomes
              (fst (StorageProviderAgent_init agent_id broker_id bus capacity price fp t0))
              m outcomes))
   \<and> p_reputation (fst (apply_outcomes
              (fst (StorageProviderAgent_init agent_id broker_id bus capacity price fp t0))
              m outcomes)) \<le> 10"
proof -
  let ?p0 = "fst (StorageProviderAgent_init agent_id broker_id bus capacity price fp t0)"
  have r0: "p_reputation ?p0 = 5" by (simp add: StorageProviderAgent_init_def)
  have "0.1 \<le> p_reputation ?p0" "p_reputation ?p0 \<le> 10" using r0 by simp_all
  from apply_outcomes_range [OF this, of m outcomes] r0 show ?thesis
    by (simp add: update_reputation_value)
qed

section \<open>The provider's capacity ledger\<close>

lemma update_fresh: "k \<notin> fst ` set al \<Longrightarrow> AList.update k v al = al @ [(k, v)]"
  by (induction al) auto

lemma update_append_right:
  "k \<notin> fst ` set pre \<Longrightarrow> AList.update k v (pre @ al) = pre @ AList.update k v al"
  by (induction pre) auto

lemma sweep_loop_fields:
  assumes "p_active_contracts p = pre @ items" "distinct (map fst (pre @ items))"
  shows "p_active_contracts (fst (sweep_loop t items (p, done)))
           = pre @ map (mark_completed t) items
       \<and> p_available_space_gb (fst (sweep_loop t items (p, done)))
           = p_available_space_gb p
               + sum_list (map (\<lambda>(k, c). con_space_gb c) (filter (expired t) items))
       \<and> snd (sweep_loop t items (p, done)) = done @ map fst (filter (expired t) items)
       \<and> p_total_space_gb (fst (sweep_loop t items (p, done))) = p_total_space_gb p
       \<and> p_reputation (fst (sweep_loop t items (p, done))) = p_reputation p"
  using assms
proof (induction items arbitrary: p pre "done")
  case Nil
  then show ?case by simp
next
  case (Cons item items)
  obtain k c where item: "item = (k, c)" by (cases item)
  show ?case
  proof (cases "expired t item")
    case False
    have a: "p_active_contracts p = (pre @ [item]) @ items" using Cons.prems by simp
    have d: "distinct (map fst ((pre @ [item]) @ items))" using Cons.prems by simp
    from Cons.IH [OF a d, of "done"] False show ?thesis
      by (simp add: item expired_def mark_completed_def)
  next
    case True
    let ?c' = "c\<lparr>con_status := ''completed''\<rparr>"
    let ?p4 = "p\<lparr>p_available_space_gb := p_available_space_gb p + con_space_gb c,
                  p_stats := (p_stats p)\<lparr>ps_contracts_completed :=
                                ps_contracts_completed (p_stats p) + 1\<rparr>,
                  p_active_contracts := AList.update k ?c' (p_active_contracts p),
                  p_completed_contracts := p_completed_contracts p @ [?c']\<rparr>"
    have kpre: "k \<notin> fst ` set pre" using Cons.prems by (auto simp: item)
    have upd: "AList.update k ?c' (p_active_contracts p) = (pre @ [(k, ?c')]) @ items"
      using Cons.prems kpre by (simp add: item update_append_right)
    have a: "p_active_contracts ?p4 = (pre @ [(k, ?c')]) @ items" using upd by simp
    have d: "distinct (map fst ((pre @ [(k, ?c')]) @ items))" using Cons.prems by (simp add: item)
    have step: "sweep_loop t (item # items) (p, done) = sweep_loop t items (?p4, done @ [k])"
      using True by (simp add: item expired_def Let_def)
    from Cons.IH [OF a d, of "done @ [k]"] True show ?thesis
      unfolding step by (simp add: item expired_def mark_completed_def)
  qed
qed

lemma fold_delete_filter:
  "fold AList.delete ks al = filter (\<lambda>item. fst item \<notin> set ks) al"
proof (induction ks arbitrary: al)
  case Nil
  then show ?case by simp
next
  case (Cons k ks)
  have "AList.delete k al = filter (\<lambda>item. fst item \<noteq> k) al"
    by (induction al) auto
  then show ?case using Cons.IH [of "AList.delete k al"]
    by (simp add: conj_commute)
qed

lemma expired_key_iff:
  assumes "distinct (map fst al)" "item \<in> set al"
  shows "fst item \<in> set (map fst (filter (expired t) al)) \<longleftrightarrow> expired t item"
proof
  assume "fst item \<in> set (map fst (filter (expired t) al))"
  then obtain item' where i': "item' \<in> set al" "expired t item'" "fst item' = fst item"
    by auto
  have "item' = item"
    using assms i' by (metis eq_key_imp_eq_value prod.collapse)
  then show "expired t item" using i' by simp
next
  assume "expired t item"
  then show "fst item \<in> set (map fst (filter (expired t) al))" using assms by force
qed

lemma remove_marked:
  assumes "distinct (map fst al)"
  shows "filter (\<lambda>item. fst item \<notin> set (map fst (filter (expired t) al)))
           (map (mark_completed t) al) = filter (\<lambda>item. \<not> expired t item) al"
proof -
  have fst_mark: "\<And>item. fst (mark_completed t item) = fst item"
    by (simp add: mark_completed_def)
  have "filter (\<lambda>item. fst item \<notin> set (map fst (filter (expired t) al)))
           (map (mark_completed t) al)
        = map (mark_completed t)
            (filter (\<lambda>item. fst item \<notin> set (map fst (filter (expired t) al))) al)"
    by (simp add: filter_map comp_def fst_mark)
  also have "filter (\<lambda>item. fst item \<notin> set (map fst (filter (expired t) al))) al
        = filter (\<lambda>item. \<not> expired t item) al"
    using expired_key_iff [OF assms] by (intro filter_cong) auto
  also have "map (mark_completed t) (filter (\<lambda>item. \<not> expired t item) al)
        = filter (\<lambda>item. \<not> expired t item) al"
    by (intro map_idI) (simp add: mark_completed_def)
  finally show ?thesis .
qed

lemma contract_manager_fields:
  assumes "distinct (map fst (p_active_contracts p))"
  shows "p_active_contracts (contract_manager p t)
           = filter (\<lambda>item. \<not> expired t item) (p_active_contracts p)"
    and "p_available_space_gb (contract_manager p t)
           = p_available_space_gb p
               + sum_list (map (\<lambda>(k, c). con_space_gb c)
                            (filter (expired t) (p_active_contracts p)))"
    and "p_total_space_gb (contract_manager p t) = p_total_space_gb p"
proof -
  have a: "p_active_contracts p = [] @ p_active_contracts p" by simp
  have d: "distinct (map fst ([] @ p_active_contracts p))" using assms by simp
  note f = sweep_loop_fields [OF a d, of t "[]"]
  obtain p1 completed where s: "sweep_loop t (p_active_contracts p) (p, []) = (p1, completed)"
    by (cases "sweep_loop t (p_active_contracts p) (p, [])") auto
  have cm: "contract_manager p t
      = p1\<lparr>p_active_contracts := fold AList.delete completed (p_active_contracts p1)\<rparr>"
    by (simp add: contract_manager_def s)
  show "p_active_contracts (contract_manager p t)
           = filter (\<lambda>item. \<not> expired t item) (p_active_contracts p)"
    using f s remove_marked [OF assms, of t] by (simp add: cm fold_delete_filter)
  show "p_available_space_gb (contract_manager p t)
           = p_available_space_gb p
               + sum_list (map (\<lambda>(k, c). con_space_gb c)
                            (filter (expired t) (p_active_contracts p)))"
    using f s by (simp add: cm)
  show "p_total_space_gb (contract_manager p t) = p_total_space_gb p"
    using f s by (simp add: cm)
qed

lemma sum_list_split:
  "sum_list (map f (filter P xs)) + sum_list (map f (filter (\<lambda>x. \<not> P x) xs))
     = (sum_list (map f xs) :: int)"
  by (induction xs) auto

lemma contract_manager_ledger:
  assumes inv: "ledger_invariant p"
    and d: "distinct (map fst (p_active_contracts p))"
    and nonneg: "\<forall>item \<in> set (p_active_contracts p). 0 \<le> con_space_gb (snd item)"
  shows "ledger_invariant (contract_manager p t)"
proof -
  let ?f = "\<lambda>(k, c). con_space_gb c"
  let ?A = "p_active_contracts p"
  have split: "sum_list (map ?f (filter (expired t) ?A))
                 + sum_list (map ?f (filter (\<lambda>x. \<not> expired t x) ?A)) = sum_list (map ?f ?A)"
    by (rule sum_list_split)
  have n1: "0 \<le> sum_list (map ?f (filter (expired t) ?A))"
    using nonneg by (intro sum_list_nonneg) auto
  have n2: "0 \<le> sum_list (map ?f (filter (\<lambda>x. \<not> expired t x) ?A))"
    using nonneg by (intro sum_list_nonneg) auto
  show ?thesis
    using inv split n1 n2
    by (simp add: ledger_invariant_def active_space_def contract_manager_fields [OF d])
qed

lemma can_fulfill_request_iff:
  "can_fulfill_request p space_needed draw \<longleftrightarrow>
     p_available_space_gb p \<ge> space_needed \<and> \<not> draw < p_failure_probability p"
  by (auto simp: can_fulfill_request_def)

lemma can_fulfill_request_stats [simp]:
  "can_fulfill_request (p\<lparr>p_stats := st\<rparr>) space_needed draw
     = can_fulfill_request p space_needed draw"
  by (simp add: can_fulfill_request_def)

lemma update_reputation_fst:
  "fst (update_reputation p m success) =
     (if success
      then p\<lparr>p_success_count := p_success_count p + 1,
             p_reputation := min (p_reputation p * 1.02) 10.0,
             p_stats := (p_stats p)\<lparr>ps_current_reputation := min (p_reputation p * 1.02) 10.0\<rparr>\<rparr>
      else p\<lparr>p_failure_count := p_failure_count p + 1,
             p_reputation := max (p_reputation p * 0.98) 0.1,
             p_stats := (p_stats p)\<lparr>ps_current_reputation := max (p_reputation p * 0.98) 0.1\<rparr>\<rparr>)"
  by (cases success; cases "p_total_space_gb p = 0")
     (simp_all add: update_reputation_def get_utilization_def py_truediv_def)

lemma update_reputation_raised:
  "snd (snd (update_reputation p m success))
     = (if p_total_space_gb p = 0 then Some ZeroDivisionError else None)"
  by (cases success; cases "p_total_space_gb p = 0")
     (simp_all add: update_reputation_def get_utilization_def py_truediv_def)

text \<open>
  The provider as \<^verbatim>\<open>process_allocation_request\<close> has changed it when it calls
  \<^verbatim>\<open>update_reputation\<close>, on the accepting and on the rejecting path.
\<close>

lemma admission_unfold:
  assumes body: "env_body msg = Allocation_request request_id c"
  shows "process_allocation_request p bus m msg draw lat now =
     (let accepted = can_fulfill_request p (con_space_gb c) draw;
          q = (if accepted
               then p\<lparr>p_active_contracts :=
                        AList.update (con_contract_id c) c (p_active_contracts p),
                      p_available_space_gb := p_available_space_gb p - con_space_gb c,
                      p_stats := (p_stats p)\<lparr>
                        ps_requests_received := ps_requests_received (p_stats p) + 1,
                        ps_requests_accepted := ps_requests_accepted (p_stats p) + 1,
                        ps_total_earnings := ps_total_earnings (p_stats p) + con_total_cost c\<rparr>\<rparr>
               else p\<lparr>p_stats := (p_stats p)\<lparr>
                        ps_requests_received := ps_requests_received (p_stats p) + 1,
                        ps_requests_rejected := ps_requests_rejected (p_stats p) + 1\<rparr>\<rparr>);
          u = update_reputation q m accepted
      in if p_total_space_gb p = 0 then (fst u, bus, fst (snd u))
         else let response = Allocation_response
                    (if accepted
                     then \<lparr> ar_request_id = request_id,
                            ar_contract_id = Some (con_contract_id c),
                            ar_status = ''accepted'', ar_reason = None,
                            ar_provider_id = p_agent_id p \<rparr>
                     else \<lparr> ar_request_id = request_id, ar_contract_id = None,
                            ar_status = ''rejected'',
                            ar_reason = Some (if p_available_space_gb p < con_space_gb c
                                              then ''insufficient_space''
                                              else ''provider_failure''),
                            ar_provider_id = p_agent_id p \<rparr>);
                  s = send_message bus
                        (if accepted then fst (snd u)
                         else record_network_event (fst (snd u)) ''provider_failure'' 0)
                        (p_agent_id p) (env_from msg) response True lat now
              in (fst u, fst (snd s), fst (snd (snd s))))"
proof (cases "can_fulfill_request p (con_space_gb c) draw")
  case True
  show ?thesis
    by (cases "p_total_space_gb p = 0")
       (simp_all add: process_allocation_request_def body True Let_def split_beta
          update_reputation_raised update_reputation_fst)
next
  case False
  show ?thesis
    by (cases "p_total_space_gb p = 0")
       (simp_all add: process_allocation_request_def body False Let_def split_beta
          update_reputation_raised update_reputation_fst)
qed


lemma admission_accept:
  assumes "env_body msg = Allocation_request request_id c"
    and "can_fulfill_request p (con_space_gb c) draw"
  shows "p_active_contracts (fst (process_allocation_request p bus m msg draw lat now))
           = AList.update (con_contract_id c) c (p_active_contracts p)"
    and "p_available_space_gb (fst (process_allocation_request p bus m msg draw lat now))
           = p_available_space_gb p - con_space_gb c"
    and "p_reputation (fst (process_allocation_request p bus m msg draw lat now))
           = min (p_reputation p * 1.02) 10"
  by (simp_all add: admission_unfold [OF assms(1)] assms(2) Let_def update_reputation_fst)

lemma admission_reject:
  assumes "env_body msg = Allocation_request request_id c"
    and "\<not> can_fulfill_request p (con_space_gb c) draw"
  shows "p_active_contracts (fst (process_allocation_request p bus m msg draw lat now))
           = p_active_contracts p"
    and "p_available_space_gb (fst (process_allocation_request p bus m msg draw lat now))
           = p_available_space_gb p"
    and "p_reputation (fst (process_allocation_request p bus m msg draw lat now))
           = max (p_reputation p * 0.98) 0.1"
  by (simp_all add: admission_unfold [OF assms(1)] assms(2) Let_def update_reputation_fst)

lemma admission_other:
  assumes "\<And>request_id c. env_body msg \<noteq> Allocation_request request_id c"
  shows "process_allocation_request p bus m msg draw lat now = (p, bus, m)"
  by (cases "env_body msg") (use assms in \<open>simp_all add: process_allocation_request_def\<close>)

lemma admission_static:
  "p_agent_id (fst (process_allocation_request p bus m msg draw lat now)) = p_agent_id p"
  "p_failure_probability (fst (process_allocation_request p bus m msg draw lat now))
     = p_failure_probability p"
  "p_total_space_gb (fst (process_allocation_request p bus m msg draw lat now))
     = p_total_space_gb p"
proof -
  have "p_agent_id (fst (process_allocation_request p bus m msg draw lat now)) = p_agent_id p
     \<and> p_failure_probability (fst (process_allocation_request p bus m msg draw lat now))
          = p_failure_probability p
     \<and> p_total_space_gb (fst (process_allocation_request p bus m msg draw lat now))
          = p_total_space_gb p"
  proof (cases "env_body msg")
    case (Allocation_request request_id c)
    show ?thesis
      by (cases "can_fulfill_request p (con_space_gb c) draw")
         (simp_all add: admission_unfold [OF Allocation_request] update_reputation_fst Let_def)
  qed (simp_all add: process_allocation_request_def)
  then show
    "p_agent_id (fst (process_allocation_request p bus m msg draw lat now)) = p_agent_id p"
    "p_failure_probability (fst (process_allocation_request p bus m msg draw lat now))
       = p_failure_probability p"
    "p_total_space_gb (fst (process_allocation_request p bus m msg draw lat now))
       = p_total_space_gb p"
    by simp_all
qed

lemma admission_reply:
  assumes body: "env_body msg = Allocation_request request_id c"
    and capacity: "p_total_space_gb p \<noteq> 0"
    and sender: "map_of (mailboxes bus) (env_from msg) = Some queue"
  shows "map_of (mailboxes (fst (snd (process_allocation_request p bus m msg draw lat now))))
             (env_from msg)
           = Some (queue @
               [\<lparr> env_from = p_agent_id p, env_to = env_from msg,
                   env_body = Allocation_response
                     (if can_fulfill_request p (con_space_gb c) draw
                      then \<lparr> ar_request_id = request_id,
                             ar_contract_id = Some (con_contract_id c),
                             ar_status = ''accepted'', ar_reason = None,
                             ar_provider_id = p_agent_id p \<rparr>
                      else \<lparr> ar_request_id = request_id, ar_contract_id = None,
                             ar_status = ''rejected'',
                             ar_reason = Some (if p_available_space_gb p < con_space_gb c
                                               then ''insufficient_space''
                                               else ''provider_failure''),
                             ar_provider_id = p_agent_id p \<rparr>),
                   env_timestamp = now, env_latency = lat,
                   env_id = message_count bus \<rparr>])"
  by (simp add: admission_unfold [OF body] capacity Let_def send_registered [OF sender]
      AList.update_conv')

lemma admission_no_reply:
  assumes body: "env_body msg = Allocation_request request_id c"
    and capacity: "p_total_space_gb p = 0"
  shows "fst (snd (process_allocation_request p bus m msg draw lat now)) = bus"
  by (simp add: admission_unfold [OF body] capacity Let_def)

lemma admission_other_mailbox:
  assumes "other \<noteq> env_from msg"
  shows "map_of (mailboxes (fst (snd (process_allocation_request p bus m msg draw lat now)))) other
           = map_of (mailboxes bus) other"
proof (cases "env_body msg")
  case (Allocation_request request_id c)
  show ?thesis
    using assms
    by (simp add: admission_unfold [OF Allocation_request] Let_def send_other_mailbox)
qed (simp_all add: process_allocation_request_def)

lemma request_handler_next:
  "map_of (mailboxes bus) (p_agent_id p) = Some (msg # queue) \<Longrightarrow>
   request_handler p bus m draw lat now =
     process_allocation_request p
       (bus\<lparr>mailboxes := AList.update (p_agent_id p) queue (mailboxes bus)\<rparr>) m msg draw lat now"
  by (simp add: request_handler_def receive_message_def)

lemma ledger_initial:
  "ledger_invariant (fst (StorageProviderAgent_init agent_id broker_id bus capacity price fp t0))
     \<longleftrightarrow> 0 \<le> capacity"
  by (auto simp: ledger_invariant_def active_space_def StorageProviderAgent_init_def)

lemma admission_ledger:
  assumes body: "env_body msg = Allocation_request request_id c"
    and inv: "ledger_invariant p"
    and fresh: "con_contract_id c \<notin> fst ` set (p_active_contracts p)"
    and nonneg: "0 \<le> con_space_gb c"
  shows "ledger_invariant (fst (process_allocation_request p bus m msg draw lat now))"
proof (cases "can_fulfill_request p (con_space_gb c) draw")
  case True
  then have "con_space_gb c \<le> p_available_space_gb p" by (simp add: can_fulfill_request_iff)
  then show ?thesis
    using inv nonneg
    by (simp add: ledger_invariant_def active_space_def admission_accept [OF body True]
        admission_static update_fresh [OF fresh])
next
  case False
  then show ?thesis
    using inv by (simp add: ledger_invariant_def active_space_def
        admission_reject [OF body False] admission_static)
qed

section \<open>The admission decision\<close>

lemmas scenario_defs = scenario_network_def scenario_provider_def scenario_buyer_def
  scenario_bus_def allocation_envelope_def pending_contract_def
  IntermediaryNetworkAgent_init_def StorageProviderAgent_init_def BuyerAgent_init_def
  MessageBus_init_def register_agent_def reset_def

lemma scenario_bus_value:
  "mailboxes scenario_bus = [(''network'', []), (''provider0'', []), (''buyer0'', [])]"
  by (simp add: scenario_defs)



text \<open>
  \<^bold>\<open>C2.\<close> Let a provider whose total space is not zero process an allocation request
  whose sender has a mailbox. Then one allocation response is appended to the sender's
  mailbox. Its status is \<^verbatim>\<open>'accepted'\<close> exactly when the available space is at least the
  requested space and the random draw is not below the failure probability; in that case
  the contract is stored under its id and the available space is reduced by the requested
  space. Otherwise the status is \<^verbatim>\<open>'rejected'\<close>, the reason is \<^verbatim>\<open>'insufficient_space'\<close> if the
  available space is less than the requested space and \<^verbatim>\<open>'provider_failure'\<close> if not, and
  the contracts and the available space are unchanged.
\<close>

theorem admission_decision:
  assumes body: "env_body msg = Allocation_request request_id c"
    and capacity: "p_total_space_gb p \<noteq> 0"
    and sender: "map_of (mailboxes bus) (env_from msg) = Some queue"
  shows "\<exists>r. map_of (mailboxes (fst (snd (process_allocation_request p bus m msg draw lat now))))
                (env_from msg)
              = Some (queue @ [\<lparr> env_from = p_agent_id p, env_to = env_from msg,
                                  env_body = Allocation_response r, env_timestamp = now,
                                  env_latency = lat, env_id = message_count bus \<rparr>])
           \<and> ar_request_id r = request_id
           \<and> (ar_status r = ''accepted'' \<longleftrightarrow>
                 p_available_space_gb p \<ge> con_space_gb c \<and> \<not> draw < p_failure_probability p)
           \<and> (ar_status r \<noteq> ''accepted'' \<longrightarrow>
                 ar_status r = ''rejected''
                 \<and> ar_reason r = Some (if p_available_space_gb p < con_space_gb c
                                       then ''insufficient_space'' else ''provider_failure''))
           \<and> (ar_status r = ''accepted'' \<longrightarrow>
                 p_active_contracts (fst (process_allocation_request p bus m msg draw lat now))
                   = AList.update (con_contract_id c) c (p_active_contracts p)
                 \<and> p_available_space_gb (fst (process_allocation_request p bus m msg draw lat now))
                   = p_available_space_gb p - con_space_gb c)
           \<and> (ar_status r \<noteq> ''accepted'' \<longrightarrow>
                 p_active_contracts (fst (process_allocation_request p bus m msg draw lat now))
                   = p_active_contracts p
                 \<and> p_available_space_gb (fst (process_allocation_request p bus m msg draw lat now))
                   = p_available_space_gb p)"
proof (cases "can_fulfill_request p (con_space_gb c) draw")
  case True
  let ?r = "\<lparr> ar_request_id = request_id, ar_contract_id = Some (con_contract_id c),
              ar_status = ''accepted'', ar_reason = None, ar_provider_id = p_agent_id p \<rparr>"
  have reply: "map_of (mailboxes (fst (snd (process_allocation_request p bus m msg draw lat now))))
                (env_from msg)
              = Some (queue @ [\<lparr> env_from = p_agent_id p, env_to = env_from msg,
                                  env_body = Allocation_response ?r, env_timestamp = now,
                                  env_latency = lat, env_id = message_count bus \<rparr>])"
    using admission_reply [OF body capacity sender, of m draw lat now] True by simp
  have test: "p_available_space_gb p \<ge> con_space_gb c \<and> \<not> draw < p_failure_probability p"
    using True by (simp add: can_fulfill_request_iff)
  show ?thesis
    by (rule exI [of _ ?r])
       (simp add: reply test admission_accept(1,2) [OF body True, of bus m lat now])
next
  case False
  let ?r = "\<lparr> ar_request_id = request_id, ar_contract_id = None, ar_status = ''rejected'',
              ar_reason = Some (if p_available_space_gb p < con_space_gb c
                                then ''insufficient_space'' else ''provider_failure''),
              ar_provider_id = p_agent_id p \<rparr>"
  have reply: "map_of (mailboxes (fst (snd (process_allocation_request p bus m msg draw lat now))))
                (env_from msg)
              = Some (queue @ [\<lparr> env_from = p_agent_id p, env_to = env_from msg,
                                  env_body = Allocation_response ?r, env_timestamp = now,
                                  env_latency = lat, env_id = message_count bus \<rparr>])"
    using admission_reply [OF body capacity sender, of m draw lat now] False by simp
  have test: "\<not> (p_available_space_gb p \<ge> con_space_gb c \<and> \<not> draw < p_failure_probability p)"
    using False by (simp add: can_fulfill_request_iff)
  show ?thesis
    by (rule exI [of _ ?r])
       (simp add: reply test admission_reject(1,2) [OF body False, of bus m lat now])
qed

lemma scenario_provider_fields:
  "p_total_space_gb (fst scenario_provider) = 100"
  "p_available_space_gb (fst scenario_provider) = 100"
  "p_failure_probability (fst scenario_provider) = 0"
  "p_active_contracts (fst scenario_provider) = []"
  "p_agent_id (fst scenario_provider) = ''provider0''"
  by (simp_all add: scenario_defs)

theorem admission_decision_witness:
  "env_body (allocation_envelope ''REQ-buyer0-1700000001-417''
               (pending_contract ''CONT-1700000002-4242'' 50))
     = Allocation_request ''REQ-buyer0-1700000001-417''
         (pending_contract ''CONT-1700000002-4242'' 50)
   \<and> p_total_space_gb (fst scenario_provider) \<noteq> 0
   \<and> map_of (mailboxes scenario_bus) ''network'' = Some []
   \<and> map_of (mailboxes (fst (snd (process_allocation_request (fst scenario_provider)
         scenario_bus (reset 0)
         (allocation_envelope ''REQ-buyer0-1700000001-417''
            (pending_contract ''CONT-1700000002-4242'' 50)) (1/2) (1/10) 3)))) ''network''
       = Some [\<lparr> env_from = ''provider0'', env_to = ''network'',
                  env_body = Allocation_response
                    \<lparr> ar_request_id = ''REQ-buyer0-1700000001-417'',
                      ar_contract_id = Some ''CONT-1700000002-4242'',
                      ar_status = ''accepted'', ar_reason = None,
                      ar_provider_id = ''provider0'' \<rparr>,
                  env_timestamp = 3, env_latency = 1/10, env_id = 0 \<rparr>]
   \<and> p_available_space_gb (fst (process_allocation_request (fst scenario_provider)
         scenario_bus (reset 0)
         (allocation_envelope ''REQ-buyer0-1700000001-417''
            (pending_contract ''CONT-1700000002-4242'' 50)) (1/2) (1/10) 3)) = 50"
proof -
  let ?c = "pending_contract ''CONT-1700000002-4242'' 50"
  let ?msg = "allocation_envelope ''REQ-buyer0-1700000001-417'' ?c"
  have body: "env_body ?msg = Allocation_request ''REQ-buyer0-1700000001-417'' ?c"
    by (simp add: allocation_envelope_def)
  have capacity: "p_total_space_gb (fst scenario_provider) \<noteq> 0"
    by (simp add: scenario_provider_fields)
  have sender: "map_of (mailboxes scenario_bus) (env_from ?msg) = Some []"
    by (simp add: scenario_bus_value allocation_envelope_def)
  from admission_decision [OF body capacity sender, of "reset 0" "1/2" "1/10" 3]
  obtain r where r:
    "map_of (mailboxes (fst (snd (process_allocation_request (fst scenario_provider)
         scenario_bus (reset 0) ?msg (1/2) (1/10) 3)))) (env_from ?msg)
       = Some ([] @ [\<lparr> env_from = p_agent_id (fst scenario_provider), env_to = env_from ?msg,
                        env_body = Allocation_response r, env_timestamp = 3,
                        env_latency = 1/10, env_id = message_count scenario_bus \<rparr>])"
    "ar_request_id r = ''REQ-buyer0-1700000001-417''"
    "ar_status r = ''accepted'' \<longleftrightarrow>
       p_available_space_gb (fst scenario_provider) \<ge> con_space_gb ?c
       \<and> \<not> 1/2 < p_failure_probability (fst scenario_provider)"
    "ar_status r = ''accepted'' \<longrightarrow>
       p_active_contracts (fst (process_allocation_request (fst scenario_provider)
         scenario_bus (reset 0) ?msg (1/2) (1/10) 3))
         = AList.update (con_contract_id ?c) ?c (p_active_contracts (fst scenario_provider))
       \<and> p_available_space_gb (fst (process_allocation_request (fst scenario_provider)
         scenario_bus (reset 0) ?msg (1/2) (1/10) 3))
         = p_available_space_gb (fst scenario_provider) - con_space_gb ?c"
    by blast
  have acc: "ar_status r = ''accepted''"
    using r(3) by (simp add: scenario_provider_fields pending_contract_def)
  have avail: "p_available_space_gb (fst (process_allocation_request (fst scenario_provider)
         scenario_bus (reset 0) ?msg (1/2) (1/10) 3)) = 50"
    using r(4) acc by (simp add: scenario_provider_fields pending_contract_def)
  have reply: "map_of (mailboxes (fst (snd (process_allocation_request (fst scenario_provider)
         scenario_bus (reset 0) ?msg (1/2) (1/10) 3)))) ''network''
       = Some [\<lparr> env_from = ''provider0'', env_to = ''network'',
                  env_body = Allocation_response
                    \<lparr> ar_request_id = ''REQ-buyer0-1700000001-417'',
                      ar_contract_id = Some ''CONT-1700000002-4242'',
                      ar_status = ''accepted'', ar_reason = None,
                      ar_provider_id = ''provider0'' \<rparr>,
                  env_timestamp = 3, env_latency = 1/10, env_id = 0 \<rparr>]"
    using admission_reply [OF body capacity sender, of "reset 0" "1/2" "1/10" 3]
    by (simp add: scenario_provider_fields allocation_envelope_def pending_contract_def
        can_fulfill_request_iff scenario_bus_def scenario_buyer_def scenario_provider_def
        scenario_network_def IntermediaryNetworkAgent_init_def StorageProviderAgent_init_def
        BuyerAgent_init_def MessageBus_init_def register_agent_def)
  show ?thesis using body capacity sender reply avail
    by (simp add: allocation_envelope_def)
qed


text \<open>
  The two provisos hold of every allocation request that the broker sends. It sends them
  under its own id, which has a mailbox from the broker's creation on
  (\<open>storage_request_forwarded\<close>), and only to a provider it has selected, whose registered
  total space is not zero (\<open>selected_provider_has_capacity\<close>); the providers of the
  simulation are created with 100 to 300 GB. Were a provider created with a total space
  of zero, \<^verbatim>\<open>get_utilization\<close> would raise in \<^verbatim>\<open>update_reputation\<close>, before the reply is
  built, and no reply would be sent:
\<close>

lemma no_reply_from_zero_capacity:
  "p_total_space_gb zero_capacity_provider = 0
   \<and> \<not> can_fulfill_request zero_capacity_provider 10 (1/2)
   \<and> map_of (mailboxes scenario_bus) ''network'' = Some []
   \<and> fst (snd (process_allocation_request zero_capacity_provider scenario_bus (reset 0)
        (allocation_envelope ''REQ-buyer0-1700000001-417''
           (pending_contract ''CONT-1700000002-4242'' 10)) (1/2) (1/10) 3)) = scenario_bus"
proof -
  have capacity: "p_total_space_gb zero_capacity_provider = 0"
    by (simp add: zero_capacity_provider_def StorageProviderAgent_init_def)
  have test: "\<not> can_fulfill_request zero_capacity_provider 10 (1/2)"
    by (simp add: zero_capacity_provider_def StorageProviderAgent_init_def
        can_fulfill_request_def)
  have body: "env_body (allocation_envelope ''REQ-buyer0-1700000001-417''
                 (pending_contract ''CONT-1700000002-4242'' 10))
      = Allocation_request ''REQ-buyer0-1700000001-417''
          (pending_contract ''CONT-1700000002-4242'' 10)"
    by (simp add: allocation_envelope_def)
  show ?thesis
    using capacity test admission_no_reply [OF body capacity]
    by (simp add: scenario_bus_value)
qed

section \<open>Rounding to the nearest double\<close>

text \<open>
  The exponent found by \<open>ilog2\<close> is the right one, rounding is monotone and odd, and a
  number with a significand of at most 53 bits and an exponent in range is its own
  rounding.
\<close>

lemma bit_length_bounds:
  "0 < n \<Longrightarrow> 2 ^ (bit_length n - 1) \<le> n \<and> n < 2 ^ bit_length n \<and> 0 < bit_length n"
proof (induction n rule: bit_length.induct)
  case (1 n)
  have b: "bit_length n = Suc (bit_length (n div 2))"
    using "1.prems" by (subst bit_length.simps) simp
  show ?case
  proof (cases "n div 2 = 0")
    case True
    then have "n = 1" using "1.prems" by presburger
    then show ?thesis by (simp add: bit_length.simps [of 1] bit_length.simps [of 0])
  next
    case False
    then have pos: "0 < n div 2" using "1.prems" by presburger
    have ih: "2 ^ (bit_length (n div 2) - 1) \<le> n div 2" "n div 2 < 2 ^ bit_length (n div 2)"
      "0 < bit_length (n div 2)"
      using "1.IH" [OF _ pos] "1.prems" by simp_all
    obtain c where c: "bit_length (n div 2) = Suc c" using ih(3) by (cases "bit_length (n div 2)") auto
    have "2 * (n div 2) \<le> n" "n < 2 * (n div 2) + 2" by presburger+
    then show ?thesis using ih(1,2) by (simp add: b c)
  qed
qed

lemma ilog2_bounds:
  assumes "0 < x"
  shows "power_int 2 (ilog2 x) \<le> x" and "x < power_int 2 (ilog2 x + 1)"
proof -
  have "power_int 2 (ilog2 x) \<le> x \<and> x < power_int 2 (ilog2 x + 1)"
  proof (cases "1 \<le> x")
    case True
    then have m: "0 < \<lfloor>x\<rfloor>" by simp
    note bl = bit_length_bounds [OF m]
    obtain c where c: "bit_length \<lfloor>x\<rfloor> = Suc c" using bl by (cases "bit_length \<lfloor>x\<rfloor>") auto
    have i: "ilog2 x = int c" using True by (simp add: ilog2_def c)
    have "real_of_int (2 ^ c) \<le> real_of_int \<lfloor>x\<rfloor>" using bl by (simp add: c)
    then have lo: "2 ^ c \<le> x" by (simp add: le_floor_iff)
    have "\<lfloor>x\<rfloor> + 1 \<le> 2 ^ Suc c" using bl by (simp add: c)
    then have "real_of_int (\<lfloor>x\<rfloor> + 1) \<le> real_of_int (2 ^ Suc c)" by (rule of_int_le_iff [THEN iffD2])
    moreover have "x < real_of_int (\<lfloor>x\<rfloor> + 1)" by linarith
    ultimately have hi: "x < 2 ^ Suc c" by (simp del: of_int_add)
    have "power_int (2::real) (int c) = 2 ^ c" by simp
    moreover have "power_int (2::real) (int c + 1) = 2 ^ Suc c"
      by (metis of_nat_Suc power_int_of_nat add.commute)
    ultimately show ?thesis using lo hi by (simp add: i)
  next
    case False
    then have x1: "x < 1" by simp
    then have inv: "1 < 1 / x" using assms by simp
    then have ce: "2 \<le> \<lceil>1 / x\<rceil>" by (simp add: le_ceiling_iff)
    then have m: "0 < \<lceil>1 / x\<rceil> - 1" by simp
    note bl = bit_length_bounds [OF m]
    obtain c where c: "bit_length (\<lceil>1 / x\<rceil> - 1) = Suc c"
      using bl by (cases "bit_length (\<lceil>1 / x\<rceil> - 1)") auto
    have i: "ilog2 x = - int (Suc c)" using False by (simp add: ilog2_def c)
    have "\<lceil>1 / x\<rceil> \<le> 2 ^ Suc c" using bl by (simp add: c)
    then have "real_of_int \<lceil>1 / x\<rceil> \<le> real_of_int (2 ^ Suc c)" by (rule of_int_le_iff [THEN iffD2])
    then have "1 / x \<le> real_of_int (2 ^ Suc c)" by (rule order_trans [OF le_of_int_ceiling])
    then have "1 / x \<le> 2 ^ Suc c" by simp
    then have lo: "1 / 2 ^ Suc c \<le> x" using assms by (simp add: field_simps)
    have "2 ^ c \<le> \<lceil>1 / x\<rceil> - 1" using bl by (simp add: c)
    then have "real_of_int (2 ^ c) \<le> real_of_int (\<lceil>1 / x\<rceil> - 1)"
      by (rule of_int_le_iff [THEN iffD2])
    moreover have "real_of_int (\<lceil>1 / x\<rceil> - 1) < 1 / x" by linarith
    ultimately have "real_of_int (2 ^ c) < 1 / x" by (rule le_less_trans)
    then have "2 ^ c < 1 / x" by simp
    then have hi: "x < 1 / 2 ^ c" using assms by (simp add: field_simps)
    have p1: "power_int (2::real) (- int (Suc c)) = 1 / 2 ^ Suc c"
      unfolding power_int_minus power_int_of_nat by (simp add: field_simps)
    have "- int (Suc c) + 1 = - int c" by simp
    then have p2: "power_int (2::real) (- int (Suc c) + 1) = 1 / 2 ^ c"
      unfolding power_int_minus power_int_of_nat by (simp add: power_int_minus field_simps)
    show ?thesis using lo hi unfolding i p1 p2 by simp
  qed
  then show "power_int 2 (ilog2 x) \<le> x" and "x < power_int 2 (ilog2 x + 1)" by simp_all
qed

lemma ilog2_unique:
  assumes "power_int 2 e \<le> x" "x < power_int 2 (e + 1)"
  shows "ilog2 x = e"
proof -
  have "(0::real) < power_int 2 e" by simp
  then have pos: "0 < x" using assms(1) by linarith
  note b = ilog2_bounds [OF pos]
  have "\<not> ilog2 x < e"
  proof
    assume "ilog2 x < e"
    then have "power_int (2::real) (ilog2 x + 1) \<le> power_int 2 e"
      by (intro power_int_increasing) simp_all
    then show False using b(2) assms(1) by linarith
  qed
  moreover have "\<not> e < ilog2 x"
  proof
    assume "e < ilog2 x"
    then have "power_int (2::real) (e + 1) \<le> power_int 2 (ilog2 x)"
      by (intro power_int_increasing) simp_all
    then show False using b(1) assms(2) by linarith
  qed
  ultimately show ?thesis by simp
qed

lemma ilog2_mono: "0 < x \<Longrightarrow> x \<le> y \<Longrightarrow> ilog2 x \<le> ilog2 y"
proof (rule ccontr)
  assume a: "0 < x" "x \<le> y" "\<not> ilog2 x \<le> ilog2 y"
  then have "power_int (2::real) (ilog2 y + 1) \<le> power_int 2 (ilog2 x)"
    by (intro power_int_increasing) simp_all
  moreover have "y < power_int 2 (ilog2 y + 1)" using a by (intro ilog2_bounds) simp
  moreover have "power_int 2 (ilog2 x) \<le> x" using a by (intro ilog2_bounds)
  ultimately show False using a(2) by linarith
qed

lemma round_half_even_of_int [simp]: "round_half_even (real_of_int n) = n"
  by (simp add: round_half_even_def)

lemma round_half_even_range:
  "\<lfloor>q\<rfloor> \<le> round_half_even q" "round_half_even q \<le> \<lfloor>q\<rfloor> + 1"
  by (simp_all add: round_half_even_def Let_def)

lemma round_half_even_mono:
  assumes "q1 \<le> q2"
  shows "round_half_even q1 \<le> round_half_even q2"
proof (cases "\<lfloor>q1\<rfloor> = \<lfloor>q2\<rfloor>")
  case True
  then show ?thesis using assms by (auto simp: round_half_even_def Let_def)
next
  case False
  then have "\<lfloor>q1\<rfloor> < \<lfloor>q2\<rfloor>" using floor_mono [OF assms] by linarith
  then show ?thesis
    using round_half_even_range(2) [of q1] round_half_even_range(1) [of q2] by linarith
qed

lemma round_half_even_minus: "round_half_even (- q) = - round_half_even q"
proof (cases "q = real_of_int \<lfloor>q\<rfloor>")
  case True
  then have "round_half_even (- real_of_int \<lfloor>q\<rfloor>) = - round_half_even (real_of_int \<lfloor>q\<rfloor>)"
    by (metis of_int_minus round_half_even_of_int)
  then show ?thesis using True by simp
next
  case False
  then have f: "\<lfloor>- q\<rfloor> = - \<lfloor>q\<rfloor> - 1" by linarith
  show ?thesis
    unfolding round_half_even_def Let_def f
    by (auto simp: algebra_simps)
qed

lemma double_ulp_pos [simp]: "0 < double_ulp x"
  by (simp add: double_ulp_def)

lemma double_ulp_nonneg [simp]: "0 \<le> double_ulp x"
  by (simp add: double_ulp_def)

lemma pow2_add: "power_int (2::real) (a + b) = power_int 2 a * power_int 2 b"
  by (rule power_int_add) simp

lemma pow2_53: "2 ^ 53 * power_int (2::real) (e - 52) = power_int 2 (e + 1)"
proof -
  have "power_int (2::real) (e + 1) = power_int 2 (53 + (e - 52))"
    by (rule arg_cong [where f = "power_int 2"]) simp
  also have "\<dots> = power_int 2 53 * power_int 2 (e - 52)" by (rule pow2_add)
  finally show ?thesis by simp
qed

lemma pow2_52: "2 ^ 52 * power_int (2::real) (e - 52) = power_int 2 e"
proof -
  have "power_int (2::real) e = power_int 2 (52 + (e - 52))"
    by (rule arg_cong [where f = "power_int 2"]) simp
  also have "\<dots> = power_int 2 52 * power_int 2 (e - 52)" by (rule pow2_add)
  finally show ?thesis by simp
qed

lemma pow2_less_cancel:
  assumes "power_int (2::real) a < power_int 2 b"
  shows "a < b"
proof (rule ccontr)
  assume "\<not> a < b"
  then have "power_int (2::real) b \<le> power_int 2 a"
    by (intro power_int_increasing) simp_all
  then show False using assms by linarith
qed

lemma double_ulp_minus [simp]: "double_ulp (- x) = double_ulp x"
  by (simp add: double_ulp_def)

lemma double_round_zero [simp]: "double_round 0 = 0"
  by (simp add: double_round_def)

lemma double_round_minus: "double_round (- x) = - double_round x"
  by (simp add: double_round_def round_half_even_minus)

lemma double_round_nonneg: "0 \<le> x \<Longrightarrow> 0 \<le> double_round x"
proof -
  assume "0 \<le> x"
  then have "0 \<le> x / double_ulp x" by simp
  then have "0 \<le> \<lfloor>x / double_ulp x\<rfloor>" by simp
  then have "0 \<le> round_half_even (x / double_ulp x)"
    using round_half_even_range(1) [of "x / double_ulp x"] by linarith
  then show ?thesis by (simp add: double_round_def)
qed

text \<open>A positive number lies in the binade of its rounding step.\<close>

lemma double_ulp_bounds:
  assumes "0 < x"
  shows "x < power_int 2 53 * double_ulp x"
    and "power_int 2 (- 1022) \<le> x \<Longrightarrow> power_int 2 52 * double_ulp x \<le> x"
proof -
  let ?e = "ilog2 x"
  have u: "double_ulp x = power_int 2 (max ?e (- 1022) - 52)"
    using assms by (simp add: double_ulp_def)
  have "x < power_int 2 (?e + 1)" using assms by (rule ilog2_bounds)
  also have "\<dots> \<le> power_int 2 (max ?e (- 1022) + 1)"
    by (intro power_int_increasing) simp_all
  also have "\<dots> = 2 ^ 53 * power_int 2 (max ?e (- 1022) - 52)" by (rule pow2_53 [symmetric])
  finally show "x < power_int 2 53 * double_ulp x" by (simp add: u)
  show "power_int 2 52 * double_ulp x \<le> x" if "power_int 2 (- 1022) \<le> x"
  proof -
    have "- 1022 \<le> ?e"
    proof (rule ccontr)
      assume "\<not> - 1022 \<le> ?e"
      then have "power_int (2::real) (?e + 1) \<le> power_int 2 (- 1022)"
        by (intro power_int_increasing) simp_all
      then show False using ilog2_bounds(2) [OF assms] that by linarith
    qed
    then have "max ?e (- 1022) = ?e" by simp
    then have "power_int 2 52 * double_ulp x = power_int 2 ?e"
      unfolding u using pow2_52 [of ?e] by simp
    then show ?thesis using ilog2_bounds(1) [OF assms] by simp
  qed
qed

lemma double_round_exact_pos:
  assumes n: "0 < n" "n < 2 ^ 53" and k: "- 1074 \<le> k"
  shows "double_round (real_of_int n * power_int 2 k) = real_of_int n * power_int 2 k"
proof -
  define x where "x = real_of_int n * power_int 2 k"
  define j where "j = max (ilog2 x) (- 1022) - 52"
  have pos: "0 < x" using n by (simp add: x_def)
  have u: "double_ulp x = power_int 2 j" using pos by (simp add: double_ulp_def j_def)
  have "real_of_int n < real_of_int (2 ^ 53)" using n(2) by (rule of_int_less_iff [THEN iffD2])
  then have "x < 2 ^ 53 * power_int 2 k" by (simp add: x_def)
  moreover have "2 ^ 53 * power_int 2 k = power_int (2::real) (53 + k)"
    using pow2_add [of 53 k] by simp
  moreover have "power_int 2 (ilog2 x) \<le> x" using pos by (rule ilog2_bounds)
  ultimately have "power_int (2::real) (ilog2 x) < power_int 2 (53 + k)" by linarith
  then have "ilog2 x < 53 + k" by (rule pow2_less_cancel)
  then have jk: "j \<le> k" using k by (simp add: j_def)
  define d where "d = nat (k - j)"
  have "k = int d + j" using jk by (simp add: d_def)
  then have pk: "power_int (2::real) k = 2 ^ d * power_int 2 j"
    using pow2_add [of "int d" j] by simp
  have xe: "x = real_of_int (n * 2 ^ d) * power_int 2 j" by (simp add: x_def pk)
  have q: "x / double_ulp x = real_of_int (n * 2 ^ d)"
    unfolding u by (subst xe) simp
  have "double_round x = real_of_int (n * 2 ^ d) * double_ulp x"
    using pos unfolding double_round_def q round_half_even_of_int by simp
  also have "\<dots> = x" unfolding u by (rule xe [symmetric])
  finally show ?thesis unfolding x_def .
qed

lemma double_round_exact:
  assumes n: "\<bar>n\<bar> \<le> 2 ^ 53" and k: "- 1074 \<le> k"
  shows "double_round (real_of_int n * power_int 2 k) = real_of_int n * power_int 2 k"
proof -
  have top: "double_round (real_of_int m * power_int 2 k) = real_of_int m * power_int 2 k"
    if "0 < m" "m \<le> 2 ^ 53" for m
  proof (cases "m = 2 ^ 53")
    case False
    then show ?thesis using that k by (intro double_round_exact_pos) simp_all
  next
    case True
    have "real_of_int m * power_int 2 k = real_of_int (2 ^ 52) * power_int 2 (k + 1)"
      unfolding True using pow2_add [of k 1] by simp
    moreover have "double_round (real_of_int (2 ^ 52) * power_int 2 (k + 1))
                     = real_of_int (2 ^ 52) * power_int 2 (k + 1)"
      using k by (intro double_round_exact_pos) simp_all
    ultimately show ?thesis by simp
  qed
  consider "n = 0" | "0 < n" | "n < 0" by linarith
  then show ?thesis
  proof cases
    case 1
    then show ?thesis by simp
  next
    case 2
    then show ?thesis using n by (intro top) simp_all
  next
    case 3
    then have "double_round (real_of_int (- n) * power_int 2 k)
                 = real_of_int (- n) * power_int 2 k"
      using n by (intro top) simp_all
    then show ?thesis using double_round_minus [of "real_of_int n * power_int 2 k"] by simp
  qed
qed

lemma double_round_of_int:
  "\<bar>n\<bar> \<le> 2 ^ 53 \<Longrightarrow> double_round (real_of_int n) = real_of_int n"
  using double_round_exact [of n 0] by simp

lemma double_round_mono_pos:
  assumes "0 < x" "x \<le> y"
  shows "double_round x \<le> double_round y"
proof -
  have ypos: "0 < y" using assms by simp
  let ?ex = "max (ilog2 x) (- 1022)" and ?ey = "max (ilog2 y) (- 1022)"
  have ux: "double_ulp x = power_int 2 (?ex - 52)" using assms by (simp add: double_ulp_def)
  have uy: "double_ulp y = power_int 2 (?ey - 52)" using ypos by (simp add: double_ulp_def)
  have le: "?ex \<le> ?ey" using ilog2_mono [OF assms] by (auto simp: max_def)
  show ?thesis
  proof (cases "?ex = ?ey")
    case True
    then have same: "double_ulp x = double_ulp y" by (simp add: ux uy)
    have "x / double_ulp y \<le> y / double_ulp y" using assms by (simp add: divide_right_mono)
    then have "round_half_even (x / double_ulp y) \<le> round_half_even (y / double_ulp y)"
      by (rule round_half_even_mono)
    then have "real_of_int (round_half_even (x / double_ulp y)) * double_ulp y
                 \<le> real_of_int (round_half_even (y / double_ulp y)) * double_ulp y"
      by (intro mult_right_mono) simp_all
    then show ?thesis using assms ypos by (simp add: double_round_def same)
  next
    case False
    with le have lt: "?ex < ?ey" by (rule le_neq_trans)
    then have ey: "?ey = ilog2 y" by (auto simp: max_def split: if_splits)
    have "x / double_ulp x < 2 ^ 53"
      using double_ulp_bounds(1) [OF assms(1)] by (simp add: field_simps)
    then have "x / double_ulp x \<le> real_of_int (2 ^ 53)" by simp
    then have "round_half_even (x / double_ulp x) \<le> round_half_even (real_of_int (2 ^ 53))"
      by (rule round_half_even_mono)
    then have "round_half_even (x / double_ulp x) \<le> 2 ^ 53"
      unfolding round_half_even_of_int .
    then have r: "real_of_int (round_half_even (x / double_ulp x)) \<le> real_of_int (2 ^ 53)"
      by (rule of_int_le_iff [THEN iffD2])
    have "double_round x = real_of_int (round_half_even (x / double_ulp x)) * double_ulp x"
      using assms by (simp add: double_round_def)
    also have "\<dots> \<le> real_of_int (2 ^ 53) * double_ulp x"
      by (rule mult_right_mono [OF r]) simp
    also have "\<dots> = power_int 2 (?ex + 1)"
      unfolding ux using pow2_53 [of ?ex] by simp
    also have "\<dots> \<le> power_int 2 ?ey"
    proof (rule power_int_increasing)
      show "?ex + 1 \<le> ?ey" using lt by linarith
    qed simp
    finally have x_le: "double_round x \<le> power_int 2 ?ey" .
    have "power_int 2 ?ey \<le> y" unfolding ey using ypos by (rule ilog2_bounds)
    moreover have "power_int 2 ?ey = 2 ^ 52 * double_ulp y"
      unfolding uy by (rule pow2_52 [symmetric])
    ultimately have "2 ^ 52 * double_ulp y \<le> y" by simp
    then have "real_of_int (2 ^ 52) \<le> y / double_ulp y"
      by (simp add: pos_le_divide_eq)
    then have "round_half_even (real_of_int (2 ^ 52)) \<le> round_half_even (y / double_ulp y)"
      by (rule round_half_even_mono)
    then have "2 ^ 52 \<le> round_half_even (y / double_ulp y)"
      unfolding round_half_even_of_int .
    then have r: "real_of_int (2 ^ 52) \<le> real_of_int (round_half_even (y / double_ulp y))"
      by (rule of_int_le_iff [THEN iffD2])
    have "power_int 2 ?ey = real_of_int (2 ^ 52) * double_ulp y"
      unfolding uy using pow2_52 [of ?ey] by simp
    also have "\<dots> \<le> real_of_int (round_half_even (y / double_ulp y)) * double_ulp y"
      by (rule mult_right_mono [OF r]) simp
    also have "\<dots> = double_round y" using ypos by (simp add: double_round_def)
    finally have "power_int 2 ?ey \<le> double_round y" .
    then show ?thesis using x_le by linarith
  qed
qed

lemma double_round_mono:
  assumes "x \<le> y"
  shows "double_round x \<le> double_round y"
proof -
  consider "0 < x" | "x \<le> 0" "0 \<le> y" | "y < 0" by linarith
  then show ?thesis
  proof cases
    case 1
    then show ?thesis using assms by (rule double_round_mono_pos)
  next
    case 2
    have "0 \<le> double_round (- x)" using 2 by (intro double_round_nonneg) simp
    then have "double_round x \<le> 0" by (simp add: double_round_minus)
    then show ?thesis using double_round_nonneg [OF 2(2)] by linarith
  next
    case 3
    then have "double_round (- y) \<le> double_round (- x)"
      using assms by (intro double_round_mono_pos) simp_all
    then show ?thesis by (simp add: double_round_minus)
  qed
qed

lemma round_half_even_error: "\<bar>real_of_int (round_half_even q) - q\<bar> \<le> 1/2"
  by (simp add: round_half_even_def Let_def)

lemma round_half_even_near:
  "\<bar>q - real_of_int m\<bar> < 1/2 \<Longrightarrow> round_half_even q = m"
  using round_half_even_error [of q] by linarith

text \<open>
  The rounding error is at most half the spacing of the doubles.
\<close>

lemma double_round_error: "\<bar>double_round x - x\<bar> \<le> double_ulp x / 2"
proof (cases "x = 0")
  case True
  then show ?thesis by simp
next
  case False
  let ?u = "double_ulp x"
  have u: "0 < ?u" by simp
  have u0: "?u \<noteq> 0" using double_ulp_pos [of x] by linarith
  have "double_round x - x = (real_of_int (round_half_even (x / ?u)) - x / ?u) * ?u"
    using False u0 by (simp add: double_round_def left_diff_distrib)
  then have "\<bar>double_round x - x\<bar> = \<bar>real_of_int (round_half_even (x / ?u)) - x / ?u\<bar> * ?u"
    using u by (simp add: abs_mult)
  also have "\<dots> \<le> 1/2 * ?u"
    by (intro mult_right_mono round_half_even_error) simp
  finally show ?thesis by simp
qed

lemma double_round_one [simp]: "double_round 1 = 1"
  using double_round_of_int [of 1] by simp

lemma double_round_numeral:
  "(numeral w :: int) \<le> 2 ^ 53 \<Longrightarrow> double_round (numeral w) = numeral w"
  using double_round_of_int [of "numeral w"] by simp

lemma double_round_dyadic:
  assumes "\<bar>n\<bar> \<le> 2 ^ 53" "j \<le> 1074"
  shows "double_round (real_of_int n / 2 ^ j) = real_of_int n / 2 ^ j"
proof -
  have "power_int (2::real) (- int j) = 1 / 2 ^ j"
    by (simp add: power_int_minus field_simps)
  then show ?thesis
    using double_round_exact [of n "- int j"] assms by simp
qed

lemma double_round_half:
  "(numeral w :: int) \<le> 2 ^ 53 \<Longrightarrow> double_round (numeral w / 2) = numeral w / 2"
  using double_round_dyadic [of "numeral w" 1] by simp

lemma double_round_quarter:
  "(numeral w :: int) \<le> 2 ^ 53 \<Longrightarrow> double_round (numeral w / 4) = numeral w / 4"
  using double_round_dyadic [of "numeral w" 2] by simp

lemma double_ulp_binade:
  assumes "power_int 2 e \<le> \<bar>x\<bar>" "\<bar>x\<bar> < power_int 2 (e + 1)" "- 1022 \<le> e"
  shows "double_ulp x = power_int 2 (e - 52)"
  using ilog2_unique [OF assms(1,2)] assms(3) by (simp add: double_ulp_def)

text \<open>
  The rounding of a number between \<open>2 ^ 52 / 2 ^ j\<close> and \<open>2 ^ 53 / 2 ^ j\<close> is the multiple of
  \<open>1 / 2 ^ j\<close> nearest to it.
\<close>

lemma round_half_even_tie:
  assumes "\<bar>q - real_of_int m\<bar> \<le> 1/2" "even m"
  shows "round_half_even q = m"
proof -
  consider "\<bar>q - real_of_int m\<bar> < 1/2" | "q = real_of_int m + 1/2" | "q = real_of_int m - 1/2"
    using assms(1) by linarith
  then show ?thesis
  proof cases
    case 1
    then show ?thesis by (rule round_half_even_near)
  next
    case 2
    have "\<lfloor>q\<rfloor> = m" unfolding 2 by linarith
    then show ?thesis using 2 assms(2) by (simp add: round_half_even_def Let_def)
  next
    case 3
    have "\<lfloor>q\<rfloor> = m - 1" unfolding 3 by linarith
    then show ?thesis using 3 assms(2) by (simp add: round_half_even_def Let_def)
  qed
qed

lemma double_round_scaled_raw:
  fixes j :: nat
  assumes j: "j \<le> 1074"
    and lo: "2 ^ 52 \<le> x * 2 ^ j" and hi: "x * 2 ^ j < 2 ^ 53"
  shows "double_round x = real_of_int (round_half_even (x * 2 ^ j)) / 2 ^ j"
proof -
  have p: "power_int (2::real) (- int j) = 1 / 2 ^ j"
    by (simp add: power_int_minus field_simps)
  have pos: "0 < x"
  proof (rule ccontr)
    assume "\<not> 0 < x"
    then have "x * 2 ^ j \<le> 0" by (simp add: mult_le_0_iff)
    with lo show False by (smt (verit) zero_less_power)
  qed
  let ?e = "52 - int j"
  have e1: "power_int (2::real) ?e = 2 ^ 52 / 2 ^ j"
    using power_int_add [of "2::real" 52 "- int j"] p by simp
  have e2: "power_int (2::real) (?e + 1) = 2 ^ 53 / 2 ^ j"
    using power_int_add [of "2::real" 53 "- int j"] p by (simp add: algebra_simps)
  have "power_int 2 ?e \<le> \<bar>x\<bar>" using lo pos unfolding e1 by (simp add: field_simps)
  moreover have "\<bar>x\<bar> < power_int 2 (?e + 1)" using hi pos unfolding e2 by (simp add: field_simps)
  moreover have "- 1022 \<le> ?e" using j by simp
  ultimately have "double_ulp x = power_int 2 (?e - 52)" by (rule double_ulp_binade)
  then have u: "double_ulp x = 1 / 2 ^ j" using p by simp
  show ?thesis using pos by (simp add: double_round_def u)
qed

lemma double_round_scaled:
  fixes j :: nat
  assumes "j \<le> 1074" "2 ^ 52 \<le> x * 2 ^ j" "x * 2 ^ j < 2 ^ 53"
    and near: "\<bar>x * 2 ^ j - real_of_int m\<bar> < 1/2"
  shows "double_round x = real_of_int m / 2 ^ j"
  unfolding double_round_scaled_raw [OF assms(1-3)] round_half_even_near [OF near] by (rule refl)

lemma double_round_scaled_even:
  fixes j :: nat
  assumes "j \<le> 1074" "2 ^ 52 \<le> x * 2 ^ j" "x * 2 ^ j < 2 ^ 53"
    and near: "\<bar>x * 2 ^ j - real_of_int m\<bar> \<le> 1/2" and even: "even m"
  shows "double_round x = real_of_int m / 2 ^ j"
  unfolding double_round_scaled_raw [OF assms(1-3)] round_half_even_tie [OF near even]
  by (rule refl)

text \<open>
  The conversions: an integer of at most 53 bits is converted exactly, and the quotient of
  two integers is a float when it is at most 1 in size.
\<close>

lemma py_float_exact: "\<bar>i\<bar> \<le> 2 ^ 53 \<Longrightarrow> py_float i = Inr (real_of_int i)"
proof -
  assume a: "\<bar>i\<bar> \<le> 2 ^ 53"
  then have "\<bar>real_of_int i\<bar> \<le> 2 ^ 53"
    by (metis of_int_abs of_int_le_iff of_int_numeral of_int_power)
  also have "(2::real) ^ 53 < 2 ^ 1024" by simp
  finally show ?thesis using a by (simp add: py_float_def double_round_of_int)
qed

lemma py_float_numeral:
  "(numeral w :: int) \<le> 2 ^ 53 \<Longrightarrow> py_float (numeral w) = Inr (numeral w)"
  using py_float_exact [of "numeral w"] by simp

lemma double_round_unit: "\<bar>x\<bar> \<le> 1 \<Longrightarrow> \<bar>double_round x\<bar> \<le> 1"
  using double_round_mono [of x 1] double_round_mono [of "- 1" x] double_round_minus [of 1]
  by (simp add: abs_le_iff)

lemma int_truediv_ratio:
  assumes "b \<noteq> 0" "\<bar>a\<bar> \<le> \<bar>b\<bar>"
  shows "int_truediv a b = Inr (double_round (real_of_int a / real_of_int b))"
proof -
  have "\<bar>real_of_int a\<bar> \<le> \<bar>real_of_int b\<bar>"
    using assms(2) by (metis of_int_abs of_int_le_iff)
  then have "\<bar>real_of_int a / real_of_int b\<bar> \<le> 1" using assms(1) by simp
  then have "\<bar>double_round (real_of_int a / real_of_int b)\<bar> \<le> 1" by (rule double_round_unit)
  also have "(1::real) < 2 ^ 1024" by simp
  finally show ?thesis using assms(1) by (simp add: int_truediv_def)
qed

text \<open>
  A sum is above the first summand when the second is more than half the spacing of the
  doubles at the sum, and not below a first summand that is a double when the second is
  not negative.
\<close>

lemma double_add_after: "double_ulp (t + d) / 2 < d \<Longrightarrow> t < double_add t d"
  unfolding double_add_def using double_round_error [of "t + d"] by linarith

lemma double_add_ge: "0 \<le> d \<Longrightarrow> double_round t = t \<Longrightarrow> t \<le> double_add t d"
  using double_round_mono [of t "t + d"] by (simp add: double_add_def)

lemma double_mul_nonneg: "0 \<le> x \<Longrightarrow> 0 \<le> y \<Longrightarrow> 0 \<le> double_mul x y"
  by (simp add: double_mul_def double_round_nonneg)

lemma double_ulp_le: "power_int 2 (- 1022) \<le> x \<Longrightarrow> double_ulp x \<le> x / 2 ^ 52"
proof -
  assume a: "power_int 2 (- 1022) \<le> x"
  have "(0::real) < power_int 2 (- 1022)" by simp
  with a have "0 < x" by linarith
  from double_ulp_bounds(2) [OF this a] show ?thesis by (simp add: field_simps)
qed


lemmas double_exact =
  double_add_def double_mul_def double_sub_def double_round_numeral double_round_half
  double_round_quarter py_float_numeral


section \<open>The selection of a provider\<close>

text \<open>
  The score is a float when the maximal price and the total space are not zero and the
  ratios of the integers are at most 1; it raises \<^verbatim>\<open>ZeroDivisionError\<close> when one of the
  two divisors is zero.
\<close>

lemma calculate_score_defined:
  assumes price: "req_max_price_per_gb_hour request \<noteq> 0"
    and total: "pi_total_space_gb provider \<noteq> 0"
    and avail: "\<bar>pi_available_space_gb provider\<bar> \<le> \<bar>pi_total_space_gb provider\<bar>"
    and counts: "0 \<le> pi_success_count provider" "0 \<le> pi_failure_count provider"
  shows "\<exists>v. calculate_score request provider = Inr v"
proof -
  have p: "double_truediv (pi_price_per_gb_hour provider) (req_max_price_per_gb_hour request)
      = Inr (double_round (pi_price_per_gb_hour provider / req_max_price_per_gb_hour request))"
    using price by (simp add: double_truediv_def)
  have s: "int_truediv (pi_available_space_gb provider) (pi_total_space_gb provider)
      = Inr (double_round (real_of_int (pi_available_space_gb provider)
                             / real_of_int (pi_total_space_gb provider)))"
    using total avail by (rule int_truediv_ratio)
  have r: "int_truediv (pi_success_count provider)
             (max (pi_success_count provider + pi_failure_count provider) 1)
      = Inr (double_round (real_of_int (pi_success_count provider)
               / real_of_int (max (pi_success_count provider + pi_failure_count provider) 1)))"
    using counts by (intro int_truediv_ratio) simp_all
  show ?thesis
    unfolding calculate_score_def Let_def p s r bind_err_Inr by blast
qed

lemma calculate_score_raises:
  assumes "req_max_price_per_gb_hour request = 0 \<or> pi_total_space_gb provider = 0"
  shows "calculate_score request provider = Inl ZeroDivisionError"
  using assms
  by (auto simp: calculate_score_def double_truediv_def int_truediv_def bind_err_def Let_def)

lemma sort_keys_defined:
  "(\<forall>x \<in> set xs. f x = Inr (g x)) \<Longrightarrow> sort_keys f xs = Inr (map (\<lambda>x. (g x, x)) xs)"
  by (induction xs) auto

lemma sort_keys_raises:
  "x \<in> set xs \<Longrightarrow> f x = Inl e \<Longrightarrow> \<exists>e'. sort_keys f xs = Inl e'"
  by (induction xs) (auto split: sum.splits)

lemma sort_keys_cong:
  "(\<forall>x \<in> set xs. f x = f' x) \<Longrightarrow> sort_keys f xs = sort_keys f' xs"
  by (induction xs) (auto split: sum.splits)

lemma insort_key_map:
  "insort_key h (\<phi> x) (map \<phi> ys) = map \<phi> (insort_key (\<lambda>y. h (\<phi> y)) x ys)"
  by (induction ys) auto

lemma sort_key_map: "sort_key h (map \<phi> xs) = map \<phi> (sort_key (\<lambda>y. h (\<phi> y)) xs)"
  by (induction xs) (simp_all add: insort_key_map)

lemma sort_reverse_defined:
  assumes "\<forall>x \<in> set xs. f x = Inr (g x)"
  shows "sort_reverse f xs = Inr (sort_key (\<lambda>x. - g x) xs)"
proof -
  have "map snd (sort_key (\<lambda>(k, x). - k) (map (\<lambda>x. (g x, x)) xs))
          = sort_key (\<lambda>x. - g x) xs"
    by (simp add: sort_key_map comp_def)
  then show ?thesis
    by (simp add: sort_reverse_def sort_keys_defined [OF assms])
qed

lemma sort_reverse_raises:
  "x \<in> set xs \<Longrightarrow> f x = Inl e \<Longrightarrow> \<exists>e'. sort_reverse f xs = Inl e'"
  using sort_keys_raises [of x xs f e] by (auto simp: sort_reverse_def)

lemma hd_insort_key:
  "hd (insort_key h x ys) = (if ys = [] \<or> h x \<le> h (hd ys) then x else hd ys)"
  by (cases ys) auto

text \<open>
  The head of a stably sorted list is the first element of the list with the least key.
\<close>

lemma hd_sort_key_first:
  assumes "xs \<noteq> []"
  shows "\<exists>pre post. xs = pre @ hd (sort_key h xs) # post
           \<and> (\<forall>b \<in> set pre. h (hd (sort_key h xs)) < h b)
           \<and> (\<forall>b \<in> set post. h (hd (sort_key h xs)) \<le> h b)"
  using assms
proof (induction xs)
  case Nil
  then show ?case by simp
next
  case (Cons x xs)
  show ?case
  proof (cases "xs = []")
    case True
    then show ?thesis by (intro exI [of _ "[]"]) simp
  next
    case False
    let ?m = "hd (sort_key h xs)"
    from Cons.IH [OF False] obtain pre post where
      xs: "xs = pre @ ?m # post"
      and pre: "\<forall>b \<in> set pre. h ?m < h b"
      and post: "\<forall>b \<in> set post. h ?m \<le> h b"
      by blast
    have ne: "sort_key h xs \<noteq> []" using False by (metis length_0_conv length_sort)
    have least: "\<forall>b \<in> set xs. h ?m \<le> h b"
    proof
      fix b assume "b \<in> set xs"
      then have "b \<in> set pre \<or> b = ?m \<or> b \<in> set post" by (subst (asm) xs) auto
      then show "h ?m \<le> h b" using pre post by auto
    qed
    show ?thesis
    proof (cases "h x \<le> h ?m")
      case True
      then have hd: "hd (sort_key h (x # xs)) = x" using ne by (simp add: hd_insort_key)
      have "\<forall>b \<in> set xs. h x \<le> h b" using True least by auto
      then show ?thesis unfolding hd by (intro exI [of _ "[]"] exI [of _ xs]) simp
    next
      case gt: False
      then have hd: "hd (sort_key h (x # xs)) = ?m" using ne by (simp add: hd_insort_key)
      have "x # xs = (x # pre) @ ?m # post" using xs by simp
      moreover have "\<forall>b \<in> set (x # pre). h ?m < h b" using pre gt by auto
      ultimately show ?thesis unfolding hd using post by blast
    qed
  qed
qed

lemma suitable_providers_iff:
  "a \<in> set (suitable_providers n request t) \<longleftrightarrow>
     a \<in> snd ` set (n_providers n)
     \<and> pi_available_space_gb (n_objects n a) \<ge> req_space_gb request
     \<and> pi_price_per_gb_hour (n_objects n a) \<le> req_max_price_per_gb_hour request
     \<and> pi_reputation (n_objects n a) \<ge> 1
     \<and> t - (case map_of (n_provider_last_seen n) (pi_agent_id (n_objects n a)) of
               None \<Rightarrow> 0 | Some seen \<Rightarrow> seen) < 30"
  by (auto simp: suitable_providers_def meets_requirements_def)

lemma select_provider_none:
  "suitable_providers n request t = [] \<Longrightarrow> select_provider n request t = None"
  by (simp add: select_provider_def)

text \<open>
  When every candidate has a score, the selection returns the head of the candidates
  sorted stably by descending score.
\<close>

lemma select_provider_defined:
  assumes ne: "suitable_providers n request t \<noteq> []"
    and keys: "\<forall>b \<in> set (suitable_providers n request t).
                 calculate_score request (n_objects n b) = Inr (g b)"
  shows "select_provider n request t
           = Some (hd (sort_key (\<lambda>a. - g a) (suitable_providers n request t)))"
proof -
  let ?xs = "suitable_providers n request t"
  from keys have s: "sort_reverse (\<lambda>a. calculate_score request (n_objects n a)) ?xs
                  = Inr (sort_key (\<lambda>a. - g a) ?xs)"
    by (rule sort_reverse_defined)
  have "sort_key (\<lambda>a. - g a) ?xs \<noteq> []" using ne by (metis length_0_conv length_sort)
  then show ?thesis
    using ne by (simp add: select_provider_def s Let_def split: list.split)
qed

lemma select_provider_single:
  assumes "suitable_providers n request t = [a]"
    and "calculate_score request (n_objects n a) = Inr v"
  shows "select_provider n request t = Some a"
  using select_provider_defined [of n request t "\<lambda>b. v"] assms by simp

lemma select_provider_raises:
  assumes "b \<in> set (suitable_providers n request t)"
    and "calculate_score request (n_objects n b) = Inl e"
  shows "select_provider n request t = None"
proof -
  from sort_reverse_raises [OF assms(1), of "\<lambda>a. calculate_score request (n_objects n a)",
      OF assms(2)]
  obtain e' where "sort_reverse (\<lambda>a. calculate_score request (n_objects n a))
                     (suitable_providers n request t) = Inl e'"
    by blast
  then show ?thesis by (simp add: select_provider_def Let_def)
qed

lemma select_provider_undefined:
  assumes "b \<in> set (suitable_providers n request t)"
    and "req_max_price_per_gb_hour request = 0 \<or> pi_total_space_gb (n_objects n b) = 0"
  shows "select_provider n request t = None"
  using assms(1) calculate_score_raises [OF assms(2)] by (rule select_provider_raises)

lemma select_provider_some:
  assumes "select_provider n request t = Some a"
  shows "suitable_providers n request t \<noteq> []"
    and "req_max_price_per_gb_hour request \<noteq> 0"
    and "\<forall>b \<in> set (suitable_providers n request t). pi_total_space_gb (n_objects n b) \<noteq> 0"
    and "\<exists>g. (\<forall>b \<in> set (suitable_providers n request t).
                 calculate_score request (n_objects n b) = Inr (g b))
             \<and> a = hd (sort_key (\<lambda>a. - g a) (suitable_providers n request t))"
proof -
  show ne: "suitable_providers n request t \<noteq> []"
    using assms by (auto simp: select_provider_def)
  then obtain b where b: "b \<in> set (suitable_providers n request t)"
    by (cases "suitable_providers n request t") auto
  show price: "req_max_price_per_gb_hour request \<noteq> 0"
    using select_provider_undefined [OF b] assms by auto
  show space: "\<forall>b \<in> set (suitable_providers n request t).
                 pi_total_space_gb (n_objects n b) \<noteq> 0"
    using select_provider_undefined assms by fastforce
  define g where
    "g = (\<lambda>b. case calculate_score request (n_objects n b) of Inl e \<Rightarrow> 0 | Inr v \<Rightarrow> v)"
  have keys: "\<forall>b \<in> set (suitable_providers n request t).
                calculate_score request (n_objects n b) = Inr (g b)"
  proof
    fix b assume "b \<in> set (suitable_providers n request t)"
    then show "calculate_score request (n_objects n b) = Inr (g b)"
      using select_provider_raises [of b n request t] assms
      by (cases "calculate_score request (n_objects n b)") (auto simp: g_def)
  qed
  have "a = hd (sort_key (\<lambda>a. - g a) (suitable_providers n request t))"
    using select_provider_defined [OF ne keys] assms by simp
  with keys show "\<exists>g. (\<forall>b \<in> set (suitable_providers n request t).
                 calculate_score request (n_objects n b) = Inr (g b))
             \<and> a = hd (sort_key (\<lambda>a. - g a) (suitable_providers n request t))"
    by (intro exI [of _ g]) simp
qed

text \<open>
  The selected provider is the first candidate among those with the highest score.
\<close>

lemma select_provider_first_maximal:
  assumes "select_provider n request t = Some a"
  shows "\<exists>pre post g. suitable_providers n request t = pre @ a # post
           \<and> (\<forall>b \<in> set (suitable_providers n request t).
                 calculate_score request (n_objects n b) = Inr (g b))
           \<and> (\<forall>b \<in> set pre. g b < g a)
           \<and> (\<forall>b \<in> set post. g b \<le> g a)"
proof -
  from select_provider_some(4) [OF assms] obtain g where
    keys: "\<forall>b \<in> set (suitable_providers n request t).
             calculate_score request (n_objects n b) = Inr (g b)"
    and a: "a = hd (sort_key (\<lambda>a. - g a) (suitable_providers n request t))"
    by blast
  from hd_sort_key_first [OF select_provider_some(1) [OF assms], of "\<lambda>a. - g a"]
  obtain pre post where
    "suitable_providers n request t = pre @ a # post"
    "\<forall>b \<in> set pre. g b < g a" "\<forall>b \<in> set post. g b \<le> g a"
    unfolding a [symmetric] by auto
  with keys show ?thesis by blast
qed

text \<open>
  A provider that is selected is a candidate, and its registered total space is not zero.
\<close>

lemma selected_provider_has_capacity:
  assumes "select_provider n request t = Some a"
  shows "a \<in> set (suitable_providers n request t)"
    and "pi_total_space_gb (n_objects n a) \<noteq> 0"
    and "req_space_gb request \<le> pi_available_space_gb (n_objects n a)"
proof -
  from select_provider_first_maximal [OF assms]
  show a: "a \<in> set (suitable_providers n request t)" by auto
  with select_provider_some(3) [OF assms]
  show "pi_total_space_gb (n_objects n a) \<noteq> 0" by blast
  from a show "req_space_gb request \<le> pi_available_space_gb (n_objects n a)"
    by (simp add: suitable_providers_iff)
qed

lemma select_provider_cong:
  assumes "n_providers n = n_providers n'"
    and "n_provider_last_seen n = n_provider_last_seen n'"
    and "\<forall>a \<in> snd ` set (n_providers n). n_objects n a = n_objects n' a"
  shows "select_provider n request t = select_provider n' request t"
proof -
  have s: "suitable_providers n request t = suitable_providers n' request t"
    unfolding suitable_providers_def assms(1) [symmetric]
    using assms(2,3) by (intro filter_cong) (auto simp: meets_requirements_def)
  have "\<forall>a \<in> set (suitable_providers n request t).
          calculate_score request (n_objects n a) = calculate_score request (n_objects n' a)"
    using assms(3) by (auto simp: suitable_providers_def)
  then have "sort_keys (\<lambda>a. calculate_score request (n_objects n a))
               (suitable_providers n request t)
             = sort_keys (\<lambda>a. calculate_score request (n_objects n' a))
               (suitable_providers n request t)"
    by (rule sort_keys_cong)
  then show ?thesis
    by (simp add: select_provider_def sort_reverse_def s Let_def)
qed


section \<open>The broker forwards a request\<close>

lemma select_provider_stats [simp]:
  "select_provider (n\<lparr>n_stats := st\<rparr>) request t = select_provider n request t"
  by (simp add: select_provider_def suitable_providers_def meets_requirements_def Let_def
      cong del: if_weak_cong)

lemma storage_request_forwarded:
  assumes body: "env_body msg = Storage_request request"
    and sel: "select_provider n request t_select = Some a"
    and box: "map_of (mailboxes bus) (pi_agent_id (n_objects n a)) = Some queue"
    and space: "py_float (req_space_gb request) = Inr space"
  shows "handle_storage_request n bus m msg t_select t_id rand_id t_start t_end lat now =
     (n\<lparr>n_stats := (n_stats n)\<lparr>ns_requests_processed := ns_requests_processed (n_stats n) + 1\<rparr>,
        n_pending_allocations :=
          AList.update (req_request_id request) (env_from msg, request, a)
            (n_pending_allocations n)\<rparr>,
      bus\<lparr>message_count := message_count bus + 1,
          mailboxes := AList.update (pi_agent_id (n_objects n a))
            (queue @ [\<lparr> env_from = n_agent_id n, env_to = pi_agent_id (n_objects n a),
                        env_body = Allocation_request (req_request_id request)
                          \<lparr> con_contract_id =
                              ''CONT-'' @ str_int (py_int t_id) @ ''-'' @ str_int rand_id,
                            con_buyer_id = req_buyer_id request,
                            con_provider_id = pi_agent_id (n_objects n a),
                            con_space_gb = req_space_gb request,
                            con_duration_hours = req_duration_hours request,
                            con_price_per_gb_hour = pi_price_per_gb_hour (n_objects n a),
                            con_total_cost =
                              double_mul (double_mul space (req_duration_hours request))
                                (pi_price_per_gb_hour (n_objects n a)),
                            con_start_time = t_start,
                            con_end_time =
                              double_add t_end (double_mul (req_duration_hours request) 3600),
                            con_status = ''pending'' \<rparr>,
                        env_timestamp = now, env_latency = lat,
                        env_id = message_count bus \<rparr>]) (mailboxes bus)\<rparr>,
      record_network_event m ''latency'' lat)"
  using assms
  by (simp add: handle_storage_request_def send_registered Let_def)

text \<open>
  A space too large for a float: the request is counted and nothing is sent.
\<close>

lemma storage_request_overflow:
  assumes body: "env_body msg = Storage_request request"
    and sel: "select_provider n request t_select = Some a"
    and space: "py_float (req_space_gb request) = Inl e"
  shows "handle_storage_request n bus m msg t_select t_id rand_id t_start t_end lat now =
     (n\<lparr>n_stats := (n_stats n)\<lparr>ns_requests_processed := ns_requests_processed (n_stats n) + 1\<rparr>\<rparr>,
      bus, m)"
  using assms
  by (simp add: handle_storage_request_def Let_def)

lemma storage_request_failed:
  assumes body: "env_body msg = Storage_request request"
    and sel: "select_provider n request t_select = None"
    and box: "map_of (mailboxes bus) (env_from msg) = Some queue"
  shows "handle_storage_request n bus m msg t_select t_id rand_id t_start t_end lat now =
     (n\<lparr>n_stats := (n_stats n)\<lparr>ns_requests_processed := ns_requests_processed (n_stats n) + 1,
                                 ns_failed_allocations := ns_failed_allocations (n_stats n) + 1\<rparr>\<rparr>,
      bus\<lparr>message_count := message_count bus + 1,
          mailboxes := AList.update (env_from msg)
            (queue @ [\<lparr> env_from = n_agent_id n, env_to = env_from msg,
                        env_body = Storage_response
                          \<lparr> sr_request_id = req_request_id request, sr_status = ''failure'',
                            sr_reason = Some ''no_suitable_provider'', sr_contract = None \<rparr>,
                        env_timestamp = now, env_latency = lat,
                        env_id = message_count bus \<rparr>]) (mailboxes bus)\<rparr>,
      record_network_event m ''latency'' lat)"
  using assms
  by (simp add: handle_storage_request_def send_failure_response_def send_registered Let_def)

lemma str_1700000002: "str_int (py_int (3400000005 / 2)) = ''1700000002''"
  and str_1700000002': "str_int (py_int (6800000011 / 4)) = ''1700000002''"
  and str_4242: "str_int 4242 = ''4242''"
  by (simp_all add: str_int_def py_int_def str_nat.simps digit_char_def)

lemma scenario_registered_fields:
  "n_providers scenario_registered = [(''provider0'', 0)]"
  "n_provider_last_seen scenario_registered = [(''provider0'', 1700000000)]"
  "n_objects scenario_registered 0 =
     \<lparr> pi_agent_id = ''provider0'', pi_total_space_gb = 100,
       pi_available_space_gb = 100, pi_reputation = 5, pi_price_per_gb_hour = 0.5,
       pi_last_seen = 1700000000, pi_success_count = 0, pi_failure_count = 0,
       pi_response_time_avg = 0.1 \<rparr>"
  "n_agent_id scenario_registered = ''network''"
  "n_pending_allocations scenario_registered = []"
  by (simp_all add: scenario_registered_def handle_provider_registration_def scenario_defs Let_def)

lemma select_scenario:
  assumes "space \<le> 100" "t < 1700000030"
  shows "select_provider scenario_registered
     \<lparr> req_buyer_id = b, req_space_gb = space, req_duration_hours = d,
       req_max_price_per_gb_hour = 1, req_timestamp = 1700000001, req_request_id = r \<rparr> t
     = Some 0"
proof -
  let ?req = "\<lparr> req_buyer_id = b, req_space_gb = space, req_duration_hours = d,
       req_max_price_per_gb_hour = 1, req_timestamp = 1700000001, req_request_id = r \<rparr>"
  have suitable: "suitable_providers scenario_registered ?req t = [0]"
    using assms
    by (simp add: suitable_providers_def meets_requirements_def scenario_registered_fields)
  obtain v where "calculate_score ?req (n_objects scenario_registered 0) = Inr v"
    using calculate_score_defined [of ?req "n_objects scenario_registered 0"]
    by (auto simp: scenario_registered_fields)
  with suitable show ?thesis by (rule select_provider_single)
qed

lemma select_provider_pending [simp]:
  "select_provider (n\<lparr>n_pending_allocations := pa\<rparr>) request t = select_provider n request t"
  by (simp add: select_provider_def suitable_providers_def meets_requirements_def Let_def
      cong del: if_weak_cong)


section \<open>A contract id issued twice\<close>

lemma collision_match1_value:
  "fst collision_match1 =
     scenario_registered\<lparr>n_stats := (n_stats scenario_registered)\<lparr>ns_requests_processed :=
                             ns_requests_processed (n_stats scenario_registered) + 1\<rparr>,
        n_pending_allocations :=
          [(''REQ-buyer0-1700000001-417'', ''buyer0'',
            \<lparr> req_buyer_id = ''buyer0'', req_space_gb = 10, req_duration_hours = 2,
              req_max_price_per_gb_hour = 1, req_timestamp = 1700000001,
              req_request_id = ''REQ-buyer0-1700000001-417'' \<rparr>, 0)]\<rparr>"
  "map_of (mailboxes (fst (snd collision_match1))) ''provider0'' =
     Some [\<lparr> env_from = ''network'', env_to = ''provider0'',
              env_body = Allocation_request ''REQ-buyer0-1700000001-417''
                \<lparr> con_contract_id = ''CONT-1700000002-4242'', con_buyer_id = ''buyer0'',
                  con_provider_id = ''provider0'', con_space_gb = 10, con_duration_hours = 2,
                  con_price_per_gb_hour = 0.5, con_total_cost = 10,
                  con_start_time = 3400000005 / 2, con_end_time = 3400014405 / 2,
                  con_status = ''pending'' \<rparr>,
              env_timestamp = 3400000005 / 2, env_latency = 1/10, env_id = 0 \<rparr>]"
proof -
  let ?msg = "request_envelope ''buyer0'' ''REQ-buyer0-1700000001-417'' 10"
  let ?req = "\<lparr> req_buyer_id = ''buyer0'', req_space_gb = 10, req_duration_hours = 2,
              req_max_price_per_gb_hour = 1, req_timestamp = 1700000001,
              req_request_id = ''REQ-buyer0-1700000001-417'' \<rparr>"
  have body: "env_body ?msg = Storage_request ?req" by (simp add: request_envelope_def)
  have box: "map_of (mailboxes scenario_bus) (pi_agent_id (n_objects scenario_registered 0))
               = Some []"
    by (simp add: scenario_registered_fields scenario_bus_value)
  have sel: "select_provider scenario_registered ?req 1700000002 = Some 0"
    by (rule select_scenario) simp_all
  have fl: "py_float (req_space_gb ?req) = Inr 10" by (simp add: double_exact)
  note v = storage_request_forwarded [OF body sel box fl, where m = "reset 1700000000"
      and t_id = "3400000005 / 2" and rand_id = 4242 and t_start = "3400000005 / 2"
      and t_end = "3400000005 / 2" and lat = "1/10" and now = "3400000005 / 2"]
  show "fst collision_match1 =
     scenario_registered\<lparr>n_stats := (n_stats scenario_registered)\<lparr>ns_requests_processed :=
                             ns_requests_processed (n_stats scenario_registered) + 1\<rparr>,
        n_pending_allocations :=
          [(''REQ-buyer0-1700000001-417'', ''buyer0'', ?req, 0)]\<rparr>"
    unfolding collision_match1_def v
    by (simp add: scenario_registered_fields request_envelope_def)
  show "map_of (mailboxes (fst (snd collision_match1))) ''provider0'' =
     Some [\<lparr> env_from = ''network'', env_to = ''provider0'',
              env_body = Allocation_request ''REQ-buyer0-1700000001-417''
                \<lparr> con_contract_id = ''CONT-1700000002-4242'', con_buyer_id = ''buyer0'',
                  con_provider_id = ''provider0'', con_space_gb = 10, con_duration_hours = 2,
                  con_price_per_gb_hour = 0.5, con_total_cost = 10,
                  con_start_time = 3400000005 / 2, con_end_time = 3400014405 / 2,
                  con_status = ''pending'' \<rparr>,
              env_timestamp = 3400000005 / 2, env_latency = 1/10, env_id = 0 \<rparr>]"
    unfolding collision_match1_def v
    by (simp add: scenario_registered_fields scenario_bus_value AList.update_conv'
        str_1700000002 str_4242 scenario_bus_def scenario_buyer_def scenario_provider_def
        scenario_network_def IntermediaryNetworkAgent_init_def StorageProviderAgent_init_def
        BuyerAgent_init_def MessageBus_init_def register_agent_def double_exact)
qed


lemma collision_match2_value:
  "map_of (mailboxes (fst (snd collision_match2))) ''provider0'' =
     Some [\<lparr> env_from = ''network'', env_to = ''provider0'',
              env_body = Allocation_request ''REQ-buyer0-1700000001-417''
                \<lparr> con_contract_id = ''CONT-1700000002-4242'', con_buyer_id = ''buyer0'',
                  con_provider_id = ''provider0'', con_space_gb = 10, con_duration_hours = 2,
                  con_price_per_gb_hour = 0.5, con_total_cost = 10,
                  con_start_time = 3400000005 / 2, con_end_time = 3400014405 / 2,
                  con_status = ''pending'' \<rparr>,
              env_timestamp = 3400000005 / 2, env_latency = 1/10, env_id = 0 \<rparr>,
           \<lparr> env_from = ''network'', env_to = ''provider0'',
              env_body = Allocation_request ''REQ-buyer1-1700000001-880''
                \<lparr> con_contract_id = ''CONT-1700000002-4242'', con_buyer_id = ''buyer1'',
                  con_provider_id = ''provider0'', con_space_gb = 20, con_duration_hours = 2,
                  con_price_per_gb_hour = 0.5, con_total_cost = 20,
                  con_start_time = 6800000011 / 4, con_end_time = 6800028811 / 4,
                  con_status = ''pending'' \<rparr>,
              env_timestamp = 6800000011 / 4, env_latency = 1/10, env_id = 1 \<rparr>]"
proof -
  let ?msg = "request_envelope ''buyer1'' ''REQ-buyer1-1700000001-880'' 20"
  let ?req = "\<lparr> req_buyer_id = ''buyer1'', req_space_gb = 20, req_duration_hours = 2,
              req_max_price_per_gb_hour = 1, req_timestamp = 1700000001,
              req_request_id = ''REQ-buyer1-1700000001-880'' \<rparr>"
  have body: "env_body ?msg = Storage_request ?req" by (simp add: request_envelope_def)
  have sel: "select_provider (fst collision_match1) ?req (6800000011 / 4) = Some 0"
    unfolding collision_match1_value(1) select_provider_pending select_provider_stats
    by (rule select_scenario) simp_all
  have obj: "n_objects (fst collision_match1) 0 = n_objects scenario_registered 0"
    "n_agent_id (fst collision_match1) = ''network''"
    by (simp_all add: collision_match1_value(1) scenario_registered_fields)
  have box: "map_of (mailboxes (fst (snd collision_match1)))
               (pi_agent_id (n_objects (fst collision_match1) 0))
               = Some [\<lparr> env_from = ''network'', env_to = ''provider0'',
              env_body = Allocation_request ''REQ-buyer0-1700000001-417''
                \<lparr> con_contract_id = ''CONT-1700000002-4242'', con_buyer_id = ''buyer0'',
                  con_provider_id = ''provider0'', con_space_gb = 10, con_duration_hours = 2,
                  con_price_per_gb_hour = 0.5, con_total_cost = 10,
                  con_start_time = 3400000005 / 2, con_end_time = 3400014405 / 2,
                  con_status = ''pending'' \<rparr>,
              env_timestamp = 3400000005 / 2, env_latency = 1/10, env_id = 0 \<rparr>]"
    by (simp add: obj scenario_registered_fields collision_match1_value(2))
  have count: "message_count (fst (snd collision_match1)) = 1"
  proof -
    let ?msg1 = "request_envelope ''buyer0'' ''REQ-buyer0-1700000001-417'' 10"
    let ?req1 = "\<lparr> req_buyer_id = ''buyer0'', req_space_gb = 10, req_duration_hours = 2,
              req_max_price_per_gb_hour = 1, req_timestamp = 1700000001,
              req_request_id = ''REQ-buyer0-1700000001-417'' \<rparr>"
    have body1: "env_body ?msg1 = Storage_request ?req1" by (simp add: request_envelope_def)
    have sel1: "select_provider scenario_registered ?req1 1700000002 = Some 0"
      by (rule select_scenario) simp_all
    have box1: "map_of (mailboxes scenario_bus) (pi_agent_id (n_objects scenario_registered 0))
               = Some []"
      by (simp add: scenario_registered_fields scenario_bus_value)
    have fl1: "py_float (req_space_gb ?req1) = Inr 10" by (simp add: double_exact)
    show ?thesis
      unfolding collision_match1_def
        storage_request_forwarded [OF body1 sel1 box1 fl1]
      by (simp add: scenario_defs)
  qed
  have fl: "py_float (req_space_gb ?req) = Inr 20" by (simp add: double_exact)
  show ?thesis
    unfolding collision_match2_def
      storage_request_forwarded [OF body sel box fl]
    by (simp add: obj count scenario_registered_fields AList.update_conv' str_1700000002'
        str_4242 double_exact)
qed


lemma scenario_provider_state:
  "p_agent_id (fst scenario_provider) = ''provider0''"
  "p_total_space_gb (fst scenario_provider) = 100"
  "p_available_space_gb (fst scenario_provider) = 100"
  "p_failure_probability (fst scenario_provider) = 0"
  "p_active_contracts (fst scenario_provider) = []"
  by (simp_all add: scenario_provider_def StorageProviderAgent_init_def)

lemma collision_admit1_value:
  "p_agent_id (fst collision_admit1) = ''provider0''"
  "p_total_space_gb (fst collision_admit1) = 100"
  "p_failure_probability (fst collision_admit1) = 0"
  "p_available_space_gb (fst collision_admit1) = 90"
  "p_active_contracts (fst collision_admit1) =
     [(''CONT-1700000002-4242'',
       \<lparr> con_contract_id = ''CONT-1700000002-4242'', con_buyer_id = ''buyer0'',
         con_provider_id = ''provider0'', con_space_gb = 10, con_duration_hours = 2,
         con_price_per_gb_hour = 1/2, con_total_cost = 10,
         con_start_time = 3400000005 / 2, con_end_time = 3400014405 / 2,
         con_status = ''pending'' \<rparr>)]"
  "map_of (mailboxes (fst (snd collision_admit1))) ''provider0'' =
     Some [\<lparr> env_from = ''network'', env_to = ''provider0'',
              env_body = Allocation_request ''REQ-buyer1-1700000001-880''
                \<lparr> con_contract_id = ''CONT-1700000002-4242'', con_buyer_id = ''buyer1'',
                  con_provider_id = ''provider0'', con_space_gb = 20, con_duration_hours = 2,
                  con_price_per_gb_hour = 1/2, con_total_cost = 20,
                  con_start_time = 6800000011 / 4, con_end_time = 6800028811 / 4,
                  con_status = ''pending'' \<rparr>,
              env_timestamp = 6800000011 / 4, env_latency = 1/10, env_id = 1 \<rparr>]"
proof -
  let ?c1 = "\<lparr> con_contract_id = ''CONT-1700000002-4242'', con_buyer_id = ''buyer0'',
         con_provider_id = ''provider0'', con_space_gb = 10, con_duration_hours = 2,
         con_price_per_gb_hour = 1/2, con_total_cost = 10,
         con_start_time = 3400000005 / 2, con_end_time = 3400014405 / 2,
         con_status = ''pending'' \<rparr>"
  let ?e1 = "\<lparr> env_from = ''network'', env_to = ''provider0'',
              env_body = Allocation_request ''REQ-buyer0-1700000001-417'' ?c1,
              env_timestamp = 3400000005 / 2, env_latency = 1/10, env_id = 0 \<rparr>"
  let ?e2 = "\<lparr> env_from = ''network'', env_to = ''provider0'',
              env_body = Allocation_request ''REQ-buyer1-1700000001-880''
                \<lparr> con_contract_id = ''CONT-1700000002-4242'', con_buyer_id = ''buyer1'',
                  con_provider_id = ''provider0'', con_space_gb = 20, con_duration_hours = 2,
                  con_price_per_gb_hour = 1/2, con_total_cost = 20,
                  con_start_time = 6800000011 / 4, con_end_time = 6800028811 / 4,
                  con_status = ''pending'' \<rparr>,
              env_timestamp = 6800000011 / 4, env_latency = 1/10, env_id = 1 \<rparr>"
  have box: "map_of (mailboxes (fst (snd collision_match2))) (p_agent_id (fst scenario_provider))
               = Some (?e1 # [?e2])"
    by (simp add: scenario_provider_state collision_match2_value)
  have body: "env_body ?e1 = Allocation_request ''REQ-buyer0-1700000001-417'' ?c1" by simp
  have can: "can_fulfill_request (fst scenario_provider) (con_space_gb ?c1) (1/2)"
    by (simp add: can_fulfill_request_iff scenario_provider_state)
  note step = request_handler_next [OF box, of "snd (snd collision_match2)" "1/2" "1/10" 1700000003]
  show "p_agent_id (fst collision_admit1) = ''provider0''"
    "p_total_space_gb (fst collision_admit1) = 100"
    "p_failure_probability (fst collision_admit1) = 0"
    unfolding collision_admit1_def step
    by (simp_all add: admission_static scenario_provider_state)
  show "p_available_space_gb (fst collision_admit1) = 90"
    unfolding collision_admit1_def step
    by (simp add: admission_accept(2) [OF body can] scenario_provider_state)
  show "p_active_contracts (fst collision_admit1) = [(''CONT-1700000002-4242'', ?c1)]"
    unfolding collision_admit1_def step
    by (simp add: admission_accept(1) [OF body can] scenario_provider_state)
  have other: "''provider0'' \<noteq> env_from ?e1" by simp
  show "map_of (mailboxes (fst (snd collision_admit1))) ''provider0'' = Some [?e2]"
    unfolding collision_admit1_def step
    by (simp add: admission_other_mailbox [OF other] scenario_provider_state
        AList.update_conv')
qed

lemma collision_admit2_value:
  "p_total_space_gb (fst collision_admit2) = 100"
  "p_available_space_gb (fst collision_admit2) = 70"
  "p_active_contracts (fst collision_admit2) =
     [(''CONT-1700000002-4242'',
       \<lparr> con_contract_id = ''CONT-1700000002-4242'', con_buyer_id = ''buyer1'',
         con_provider_id = ''provider0'', con_space_gb = 20, con_duration_hours = 2,
         con_price_per_gb_hour = 1/2, con_total_cost = 20,
         con_start_time = 6800000011 / 4, con_end_time = 6800028811 / 4,
         con_status = ''pending'' \<rparr>)]"
proof -
  let ?c2 = "\<lparr> con_contract_id = ''CONT-1700000002-4242'', con_buyer_id = ''buyer1'',
         con_provider_id = ''provider0'', con_space_gb = 20, con_duration_hours = 2,
         con_price_per_gb_hour = 1/2, con_total_cost = 20,
         con_start_time = 6800000011 / 4, con_end_time = 6800028811 / 4,
         con_status = ''pending'' \<rparr>"
  let ?e2 = "\<lparr> env_from = ''network'', env_to = ''provider0'',
              env_body = Allocation_request ''REQ-buyer1-1700000001-880'' ?c2,
              env_timestamp = 6800000011 / 4, env_latency = 1/10, env_id = 1 \<rparr>"
  have box: "map_of (mailboxes (fst (snd collision_admit1))) (p_agent_id (fst collision_admit1))
               = Some (?e2 # [])"
    by (simp add: collision_admit1_value)
  have body: "env_body ?e2 = Allocation_request ''REQ-buyer1-1700000001-880'' ?c2" by simp
  have can: "can_fulfill_request (fst collision_admit1) (con_space_gb ?c2) (1/2)"
    by (simp add: can_fulfill_request_iff collision_admit1_value)
  note step = request_handler_next [OF box, of "snd (snd collision_admit1)" "1/2" "1/10" 1700000004]
  show "p_total_space_gb (fst collision_admit2) = 100"
    unfolding collision_admit2_def step
    by (simp add: admission_static collision_admit1_value)
  show "p_available_space_gb (fst collision_admit2) = 70"
    unfolding collision_admit2_def step
    by (simp add: admission_accept(2) [OF body can] collision_admit1_value)
  show "p_active_contracts (fst collision_admit2) = [(''CONT-1700000002-4242'', ?c2)]"
    unfolding collision_admit2_def step
    by (simp add: admission_accept(1) [OF body can] collision_admit1_value)
qed

text \<open>
  \<^bold>\<open>C1.\<close> The ledger invariant holds for a new provider, is kept by the sweep
  (\<open>contract_manager_ledger\<close>) and by the admission of a contract whose id is not among the
  active ones (\<open>admission_ledger\<close>). It is not kept by every admission. The broker forms a
  contract id from the second of the clock and a number drawn from 1000 to 9999. Here it
  handles two requests in the same second and draws 4242 twice: both allocation requests
  carry the id \<^verbatim>\<open>CONT-1700000002-4242\<close>. The provider accepts both; the second assignment
  to \<^verbatim>\<open>active_contracts\<close> replaces the first contract, and the space of both has been
  taken from the available space. The provider then has 70 GB available of 100 GB and
  active contracts of 20 GB, and after every contract has expired and been swept it has
  90 GB available and no active contract.
\<close>

theorem ledger_broken_by_reused_contract_id:
  "map_of (mailboxes (fst (snd collision_match2))) ''provider0'' =
     Some [\<lparr> env_from = ''network'', env_to = ''provider0'',
              env_body = Allocation_request ''REQ-buyer0-1700000001-417''
                \<lparr> con_contract_id = ''CONT-1700000002-4242'', con_buyer_id = ''buyer0'',
                  con_provider_id = ''provider0'', con_space_gb = 10, con_duration_hours = 2,
                  con_price_per_gb_hour = 1/2, con_total_cost = 10,
                  con_start_time = 3400000005 / 2, con_end_time = 3400014405 / 2,
                  con_status = ''pending'' \<rparr>,
              env_timestamp = 3400000005 / 2, env_latency = 1/10, env_id = 0 \<rparr>,
           \<lparr> env_from = ''network'', env_to = ''provider0'',
              env_body = Allocation_request ''REQ-buyer1-1700000001-880''
                \<lparr> con_contract_id = ''CONT-1700000002-4242'', con_buyer_id = ''buyer1'',
                  con_provider_id = ''provider0'', con_space_gb = 20, con_duration_hours = 2,
                  con_price_per_gb_hour = 1/2, con_total_cost = 20,
                  con_start_time = 6800000011 / 4, con_end_time = 6800028811 / 4,
                  con_status = ''pending'' \<rparr>,
              env_timestamp = 6800000011 / 4, env_latency = 1/10, env_id = 1 \<rparr>]
   \<and> ledger_invariant (fst scenario_provider)
   \<and> ledger_invariant (fst collision_admit1)
   \<and> p_total_space_gb (fst collision_admit2) = 100
   \<and> p_available_space_gb (fst collision_admit2) = 70
   \<and> active_space (fst collision_admit2) = 20
   \<and> \<not> ledger_invariant (fst collision_admit2)
   \<and> p_active_contracts collision_sweep = []
   \<and> p_available_space_gb collision_sweep = 90
   \<and> p_total_space_gb collision_sweep = 100"
proof -
  have d: "distinct (map fst (p_active_contracts (fst collision_admit2)))"
    by (simp add: collision_admit2_value)
  have i0: "ledger_invariant (fst scenario_provider)"
    by (simp add: ledger_invariant_def active_space_def scenario_provider_state)
  have i1: "ledger_invariant (fst collision_admit1)"
    by (simp add: ledger_invariant_def active_space_def collision_admit1_value)
  have a2: "active_space (fst collision_admit2) = 20"
    by (simp add: active_space_def collision_admit2_value)
  have i2: "\<not> ledger_invariant (fst collision_admit2)"
    by (simp add: ledger_invariant_def a2 collision_admit2_value)
  have s: "p_active_contracts collision_sweep = []"
    "p_available_space_gb collision_sweep = 90"
    "p_total_space_gb collision_sweep = 100"
    unfolding collision_sweep_def
    by (simp_all add: contract_manager_fields [OF d] collision_admit2_value expired_def)
  show ?thesis
    using i0 i1 a2 i2 s
    by (simp add: collision_match2_value collision_admit2_value)
qed

section \<open>The broker relays a response\<close>

lemma nudge_provider_fields [simp]:
  "n_agent_id (nudge_provider n provider_id accepted) = n_agent_id n"
  "n_corruption_probability (nudge_provider n provider_id accepted) = n_corruption_probability n"
  "n_pending_allocations (nudge_provider n provider_id accepted) = n_pending_allocations n"
  "n_providers (nudge_provider n provider_id accepted) = n_providers n"
  "n_stats (nudge_provider n provider_id accepted) = n_stats n"
  by (simp_all add: nudge_provider_def Let_def split: option.split)

lemma relay_response_bus:
  "fst (snd (relay_response n bus m buyer_id request_id final_response response_time lat now))
     = fst (snd (send_message bus m (n_agent_id n) buyer_id final_response True lat now))"
  by (simp add: relay_response_def Let_def split_beta)

lemma allocation_response_corrupted:
  assumes body: "env_body msg = Allocation_response response"
    and pending: "map_of (n_pending_allocations n) (ar_request_id response)
                    = Some (buyer_id, original_request, sp)"
    and accepted: "ar_status response = ''accepted''"
    and corrupted: "draw < n_corruption_probability n"
  shows "fst (snd (handle_allocation_response n bus m msg t_response draw t_start t_end lat now))
     = fst (snd (send_message bus (record_network_event m ''corruption'' 0) (n_agent_id n)
                   buyer_id
                   (Storage_response
                      \<lparr> sr_request_id = ar_request_id response, sr_status = ''failure'',
                        sr_reason = Some ''network_corruption'', sr_contract = None \<rparr>)
                   True lat now))"
  using corrupted
  by (simp add: handle_allocation_response_def body pending accepted Let_def relay_response_bus)

lemma allocation_response_success:
  assumes body: "env_body msg = Allocation_response response"
    and pending: "map_of (n_pending_allocations n) (ar_request_id response)
                    = Some (buyer_id, original_request, sp)"
    and accepted: "ar_status response = ''accepted''"
    and intact: "\<not> draw < n_corruption_probability n"
    and cid: "ar_contract_id response = Some contract_id"
    and space: "py_float (req_space_gb original_request) = Inr space"
  shows "fst (snd (handle_allocation_response n bus m msg t_response draw t_start t_end lat now))
     = fst (snd (send_message bus m (n_agent_id n) buyer_id
                   (Storage_response
                      \<lparr> sr_request_id = ar_request_id response, sr_status = ''success'',
                        sr_reason = None,
                        sr_contract = Some
                          \<lparr> con_contract_id = contract_id,
                            con_buyer_id = req_buyer_id original_request,
                            con_provider_id = pi_agent_id
                              (n_objects (nudge_provider n (pi_agent_id (n_objects n sp)) True) sp),
                            con_space_gb = req_space_gb original_request,
                            con_duration_hours = req_duration_hours original_request,
                            con_price_per_gb_hour = pi_price_per_gb_hour
                              (n_objects (nudge_provider n (pi_agent_id (n_objects n sp)) True) sp),
                            con_total_cost =
                              double_mul
                                (double_mul space (req_duration_hours original_request))
                                (pi_price_per_gb_hour
                                   (n_objects (nudge_provider n (pi_agent_id (n_objects n sp)) True)
                                      sp)),
                            con_start_time = t_start,
                            con_end_time =
                              double_add t_end
                                (double_mul (req_duration_hours original_request) 3600),
                            con_status = ''active'' \<rparr> \<rparr>)
                   True lat now))"
  using intact
  by (simp add: handle_allocation_response_def body pending accepted cid space Let_def
      relay_response_bus)

text \<open>
  A space too large for a float, in an accepted and uncorrupted response: nothing is sent.
\<close>

lemma allocation_response_overflow:
  assumes body: "env_body msg = Allocation_response response"
    and pending: "map_of (n_pending_allocations n) (ar_request_id response)
                    = Some (buyer_id, original_request, sp)"
    and accepted: "ar_status response = ''accepted''"
    and intact: "\<not> draw < n_corruption_probability n"
    and cid: "ar_contract_id response = Some contract_id"
    and space: "py_float (req_space_gb original_request) = Inl e"
  shows "fst (snd (handle_allocation_response n bus m msg t_response draw t_start t_end lat now))
     = bus"
  using intact
  by (simp add: handle_allocation_response_def body pending accepted cid space Let_def)

lemma allocation_response_rejected:
  assumes body: "env_body msg = Allocation_response response"
    and pending: "map_of (n_pending_allocations n) (ar_request_id response)
                    = Some (buyer_id, original_request, sp)"
    and rejected: "ar_status response \<noteq> ''accepted''"
  shows "fst (snd (handle_allocation_response n bus m msg t_response draw t_start t_end lat now))
     = fst (snd (send_message bus m (n_agent_id n) buyer_id
                   (Storage_response
                      \<lparr> sr_request_id = ar_request_id response, sr_status = ''failure'',
                        sr_reason = Some (case ar_reason response of
                                            None \<Rightarrow> ''provider_rejected'' | Some r \<Rightarrow> r),
                        sr_contract = None \<rparr>)
                   True lat now))"
  using rejected
  by (simp add: handle_allocation_response_def body pending Let_def relay_response_bus)

lemma send_registered_mailbox:
  "map_of (mailboxes bus) to_agent = Some queue \<Longrightarrow>
   map_of (mailboxes (fst (snd (send_message bus m from_agent to_agent msg True lat now))))
     to_agent
     = Some (queue @ [\<lparr> env_from = from_agent, env_to = to_agent, env_body = msg,
                         env_timestamp = now, env_latency = lat,
                         env_id = message_count bus \<rparr>])"
  by (simp add: send_registered AList.update_conv')

lemma sweep_keeps_unexpired:
  assumes "distinct (map fst (p_active_contracts p))"
    and "(contract_id, c) \<in> set (p_active_contracts p)"
  shows "(contract_id, c) \<in> set (p_active_contracts (contract_manager p t))
           \<longleftrightarrow> t < con_end_time c"
  using assms(2) by (auto simp: contract_manager_fields(1) [OF assms(1)] expired_def)

text \<open>
  When the provider's response is \<^verbatim>\<open>'accepted'\<close> and the broker's draw is below the
  corruption probability, the broker appends one storage response, with status
  \<^verbatim>\<open>'failure'\<close> and reason \<^verbatim>\<open>'network_corruption'\<close>, to the buyer's mailbox and changes no
  other mailbox: nothing is sent to the provider.
\<close>

lemma corrupted_reply:
  assumes "env_body msg = Allocation_response response"
    and "map_of (n_pending_allocations n) (ar_request_id response)
           = Some (buyer_id, original_request, sp)"
    and "ar_status response = ''accepted''"
    and "draw < n_corruption_probability n"
    and "map_of (mailboxes bus) buyer_id = Some queue"
  shows "map_of (mailboxes (fst (snd (handle_allocation_response n bus m msg t_response draw
                                        t_start t_end lat now)))) buyer_id
        = Some (queue @ [\<lparr> env_from = n_agent_id n, env_to = buyer_id,
                            env_body = Storage_response
                              \<lparr> sr_request_id = ar_request_id response,
                                sr_status = ''failure'',
                                sr_reason = Some ''network_corruption'',
                                sr_contract = None \<rparr>,
                            env_timestamp = now, env_latency = lat,
                            env_id = message_count bus \<rparr>])"
    and "other \<noteq> buyer_id \<Longrightarrow>
         map_of (mailboxes (fst (snd (handle_allocation_response n bus m msg t_response draw
                                        t_start t_end lat now)))) other
           = map_of (mailboxes bus) other"
  by (simp_all add: allocation_response_corrupted [OF assms(1-4)]
      send_registered_mailbox [OF assms(5)] send_other_mailbox)

text \<open>
  The provider's side: an accepted allocation request stores the contract and takes its
  space; a message that is not an allocation request leaves the provider unchanged; the
  sweep keeps a contract while the clock is before its end time. None of this keeps the
  contract when a later allocation request carries the same contract id.
\<close>

lemma admission_count:
  assumes body: "env_body msg = Allocation_request request_id c"
    and capacity: "p_total_space_gb p \<noteq> 0"
    and sender: "map_of (mailboxes bus) (env_from msg) = Some queue"
  shows "message_count (fst (snd (process_allocation_request p bus m msg draw lat now)))
           = message_count bus + 1"
  by (simp add: admission_unfold [OF body] capacity Let_def send_registered [OF sender])

lemma collision_match1_bus:
  "map_of (mailboxes (fst (snd collision_match1))) ''network'' = Some []"
  "map_of (mailboxes (fst (snd collision_match1))) ''buyer0'' = Some []"
  "message_count (fst (snd collision_match1)) = 1"
proof -
  let ?msg = "request_envelope ''buyer0'' ''REQ-buyer0-1700000001-417'' 10"
  let ?req = "\<lparr> req_buyer_id = ''buyer0'', req_space_gb = 10, req_duration_hours = 2,
              req_max_price_per_gb_hour = 1, req_timestamp = 1700000001,
              req_request_id = ''REQ-buyer0-1700000001-417'' \<rparr>"
  have body: "env_body ?msg = Storage_request ?req" by (simp add: request_envelope_def)
  have box: "map_of (mailboxes scenario_bus) (pi_agent_id (n_objects scenario_registered 0))
               = Some []"
    by (simp add: scenario_registered_fields scenario_bus_value)
  have sel: "select_provider scenario_registered ?req 1700000002 = Some 0"
    by (rule select_scenario) simp_all
  have fl: "py_float (req_space_gb ?req) = Inr 10" by (simp add: double_exact)
  note v = storage_request_forwarded [OF body sel box fl]
  show "map_of (mailboxes (fst (snd collision_match1))) ''network'' = Some []"
    "map_of (mailboxes (fst (snd collision_match1))) ''buyer0'' = Some []"
    "message_count (fst (snd collision_match1)) = 1"
    unfolding collision_match1_def v
    by (simp_all add: scenario_registered_fields scenario_bus_value AList.update_conv'
        scenario_defs)
qed

lemma collision_match2_state:
  "map_of (n_pending_allocations (fst collision_match2)) ''REQ-buyer0-1700000001-417''
     = Some (''buyer0'',
         \<lparr> req_buyer_id = ''buyer0'', req_space_gb = 10, req_duration_hours = 2,
           req_max_price_per_gb_hour = 1, req_timestamp = 1700000001,
           req_request_id = ''REQ-buyer0-1700000001-417'' \<rparr>, 0)"
  "n_corruption_probability (fst collision_match2) = 3/100"
  "n_agent_id (fst collision_match2) = ''network''"
  "map_of (mailboxes (fst (snd collision_match2))) ''network'' = Some []"
  "map_of (mailboxes (fst (snd collision_match2))) ''buyer0'' = Some []"
  "message_count (fst (snd collision_match2)) = 2"
proof -
  let ?msg = "request_envelope ''buyer1'' ''REQ-buyer1-1700000001-880'' 20"
  let ?req = "\<lparr> req_buyer_id = ''buyer1'', req_space_gb = 20, req_duration_hours = 2,
              req_max_price_per_gb_hour = 1, req_timestamp = 1700000001,
              req_request_id = ''REQ-buyer1-1700000001-880'' \<rparr>"
  have body: "env_body ?msg = Storage_request ?req" by (simp add: request_envelope_def)
  have sel: "select_provider (fst collision_match1) ?req (6800000011 / 4) = Some 0"
    unfolding collision_match1_value(1) select_provider_pending select_provider_stats
    by (rule select_scenario) simp_all
  have obj: "n_objects (fst collision_match1) 0 = n_objects scenario_registered 0"
    "n_agent_id (fst collision_match1) = ''network''"
    "n_corruption_probability (fst collision_match1) = 3/100"
    by (simp_all add: collision_match1_value(1) scenario_registered_fields
        scenario_registered_def handle_provider_registration_def scenario_network_def
        IntermediaryNetworkAgent_init_def Let_def)
  have box: "map_of (mailboxes (fst (snd collision_match1)))
               (pi_agent_id (n_objects (fst collision_match1) 0))
               = Some [\<lparr> env_from = ''network'', env_to = ''provider0'',
              env_body = Allocation_request ''REQ-buyer0-1700000001-417''
                \<lparr> con_contract_id = ''CONT-1700000002-4242'', con_buyer_id = ''buyer0'',
                  con_provider_id = ''provider0'', con_space_gb = 10, con_duration_hours = 2,
                  con_price_per_gb_hour = 0.5, con_total_cost = 10,
                  con_start_time = 3400000005 / 2, con_end_time = 3400014405 / 2,
                  con_status = ''pending'' \<rparr>,
              env_timestamp = 3400000005 / 2, env_latency = 1/10, env_id = 0 \<rparr>]"
    by (simp add: obj scenario_registered_fields collision_match1_value(2))
  have fl: "py_float (req_space_gb ?req) = Inr 20" by (simp add: double_exact)
  note v = storage_request_forwarded [OF body sel box fl]
  have pend: "n_pending_allocations (fst collision_match1)
      = [(''REQ-buyer0-1700000001-417'', ''buyer0'',
            \<lparr> req_buyer_id = ''buyer0'', req_space_gb = 10, req_duration_hours = 2,
              req_max_price_per_gb_hour = 1, req_timestamp = 1700000001,
              req_request_id = ''REQ-buyer0-1700000001-417'' \<rparr>, 0)]"
    by (simp add: collision_match1_value(1))
  show "map_of (n_pending_allocations (fst collision_match2)) ''REQ-buyer0-1700000001-417''
     = Some (''buyer0'',
         \<lparr> req_buyer_id = ''buyer0'', req_space_gb = 10, req_duration_hours = 2,
           req_max_price_per_gb_hour = 1, req_timestamp = 1700000001,
           req_request_id = ''REQ-buyer0-1700000001-417'' \<rparr>, 0)"
    unfolding collision_match2_def v
    by (simp add: pend AList.update_conv')
  show "n_corruption_probability (fst collision_match2) = 3/100"
    "n_agent_id (fst collision_match2) = ''network''"
    unfolding collision_match2_def v by (simp_all add: obj)
  show "map_of (mailboxes (fst (snd collision_match2))) ''network'' = Some []"
    "map_of (mailboxes (fst (snd collision_match2))) ''buyer0'' = Some []"
    "message_count (fst (snd collision_match2)) = 2"
    unfolding collision_match2_def v
    by (simp_all add: obj scenario_registered_fields AList.update_conv' collision_match1_bus)
qed

lemma collision_admit1_bus:
  "map_of (mailboxes (fst (snd collision_admit1))) ''network'' = Some [accepted_envelope]"
  "map_of (mailboxes (fst (snd collision_admit1))) ''buyer0'' = Some []"
  "message_count (fst (snd collision_admit1)) = 3"
proof -
  let ?c1 = "\<lparr> con_contract_id = ''CONT-1700000002-4242'', con_buyer_id = ''buyer0'',
         con_provider_id = ''provider0'', con_space_gb = 10, con_duration_hours = 2,
         con_price_per_gb_hour = 1/2, con_total_cost = 10,
         con_start_time = 3400000005 / 2, con_end_time = 3400014405 / 2,
         con_status = ''pending'' \<rparr>"
  let ?e1 = "\<lparr> env_from = ''network'', env_to = ''provider0'',
              env_body = Allocation_request ''REQ-buyer0-1700000001-417'' ?c1,
              env_timestamp = 3400000005 / 2, env_latency = 1/10, env_id = 0 \<rparr>"
  let ?e2 = "\<lparr> env_from = ''network'', env_to = ''provider0'',
              env_body = Allocation_request ''REQ-buyer1-1700000001-880''
                \<lparr> con_contract_id = ''CONT-1700000002-4242'', con_buyer_id = ''buyer1'',
                  con_provider_id = ''provider0'', con_space_gb = 20, con_duration_hours = 2,
                  con_price_per_gb_hour = 1/2, con_total_cost = 20,
                  con_start_time = 6800000011 / 4, con_end_time = 6800028811 / 4,
                  con_status = ''pending'' \<rparr>,
              env_timestamp = 6800000011 / 4, env_latency = 1/10, env_id = 1 \<rparr>"
  let ?bus = "(fst (snd collision_match2))\<lparr>mailboxes :=
                AList.update (p_agent_id (fst scenario_provider)) [?e2]
                  (mailboxes (fst (snd collision_match2)))\<rparr>"
  have box: "map_of (mailboxes (fst (snd collision_match2))) (p_agent_id (fst scenario_provider))
               = Some (?e1 # [?e2])"
    by (simp add: scenario_provider_state collision_match2_value)
  have body: "env_body ?e1 = Allocation_request ''REQ-buyer0-1700000001-417'' ?c1" by simp
  have can: "can_fulfill_request (fst scenario_provider) (con_space_gb ?c1) (1/2)"
    by (simp add: can_fulfill_request_iff scenario_provider_state)
  have capacity: "p_total_space_gb (fst scenario_provider) \<noteq> 0"
    by (simp add: scenario_provider_state)
  have sender: "map_of (mailboxes ?bus) (env_from ?e1) = Some []"
    by (simp add: AList.update_conv' scenario_provider_state collision_match2_state)
  note step = request_handler_next [OF box, of "snd (snd collision_match2)" "1/2" "1/10" 1700000003]
  show "map_of (mailboxes (fst (snd collision_admit1))) ''network'' = Some [accepted_envelope]"
    unfolding collision_admit1_def step
    using admission_reply [OF body capacity sender, of "snd (snd collision_match2)" "1/2" "1/10"
        1700000003] can
    by (simp add: accepted_envelope_def scenario_provider_state collision_match2_state)
  have other: "''buyer0'' \<noteq> env_from ?e1" by simp
  show "map_of (mailboxes (fst (snd collision_admit1))) ''buyer0'' = Some []"
    unfolding collision_admit1_def step
    by (simp add: admission_other_mailbox [OF other] scenario_provider_state
        AList.update_conv' collision_match2_state)
  show "message_count (fst (snd collision_admit1)) = 3"
    unfolding collision_admit1_def step
    by (simp add: admission_count [OF body capacity sender] collision_match2_state)
qed

lemma corrupted_relay_bus:
  "map_of (mailboxes (fst (snd corrupted_relay))) ''buyer0'' =
     Some [\<lparr> env_from = ''network'', env_to = ''buyer0'',
              env_body = Storage_response
                \<lparr> sr_request_id = ''REQ-buyer0-1700000001-417'', sr_status = ''failure'',
                  sr_reason = Some ''network_corruption'', sr_contract = None \<rparr>,
              env_timestamp = 3400000007 / 2, env_latency = 1/10, env_id = 3 \<rparr>]"
  "map_of (mailboxes (fst (snd corrupted_relay))) ''provider0'' =
     Some [\<lparr> env_from = ''network'', env_to = ''provider0'',
              env_body = Allocation_request ''REQ-buyer1-1700000001-880''
                \<lparr> con_contract_id = ''CONT-1700000002-4242'', con_buyer_id = ''buyer1'',
                  con_provider_id = ''provider0'', con_space_gb = 20, con_duration_hours = 2,
                  con_price_per_gb_hour = 1/2, con_total_cost = 20,
                  con_start_time = 6800000011 / 4, con_end_time = 6800028811 / 4,
                  con_status = ''pending'' \<rparr>,
              env_timestamp = 6800000011 / 4, env_latency = 1/10, env_id = 1 \<rparr>]"
  "map_of (mailboxes (fst (snd corrupted_relay))) ''network'' = Some []"
proof -
  let ?resp = "\<lparr> ar_request_id = ''REQ-buyer0-1700000001-417'',
           ar_contract_id = Some ''CONT-1700000002-4242'', ar_status = ''accepted'',
           ar_reason = None, ar_provider_id = ''provider0'' \<rparr>"
  let ?req = "\<lparr> req_buyer_id = ''buyer0'', req_space_gb = 10, req_duration_hours = 2,
           req_max_price_per_gb_hour = 1, req_timestamp = 1700000001,
           req_request_id = ''REQ-buyer0-1700000001-417'' \<rparr>"
  let ?bus = "(fst (snd collision_admit1))\<lparr>mailboxes :=
                AList.update ''network'' [] (mailboxes (fst (snd collision_admit1)))\<rparr>"
  have taken: "receive_message (fst (snd collision_admit1)) ''network''
                 = Inr (Some accepted_envelope, ?bus)"
    by (simp add: receive_message_def collision_admit1_bus)
  have body: "env_body accepted_envelope = Allocation_response ?resp"
    by (simp add: accepted_envelope_def)
  have pending: "map_of (n_pending_allocations (fst collision_match2)) (ar_request_id ?resp)
                   = Some (''buyer0'', ?req, 0)"
    by (simp add: collision_match2_state)
  have accepted: "ar_status ?resp = ''accepted''" by simp
  have corrupted: "(1/100 :: real) < n_corruption_probability (fst collision_match2)"
    by (simp add: collision_match2_state)
  have box: "map_of (mailboxes ?bus) ''buyer0'' = Some []"
    by (simp add: AList.update_conv' collision_admit1_bus)
  have relay: "corrupted_relay =
      handle_allocation_response (fst collision_match2) ?bus (snd (snd collision_admit1))
        accepted_envelope (3400000007 / 2) (1/100) (3400000007 / 2) (3400000007 / 2) (1/10)
        (3400000007 / 2)"
    by (simp add: corrupted_relay_def taken)
  show "map_of (mailboxes (fst (snd corrupted_relay))) ''buyer0'' =
     Some [\<lparr> env_from = ''network'', env_to = ''buyer0'',
              env_body = Storage_response
                \<lparr> sr_request_id = ''REQ-buyer0-1700000001-417'', sr_status = ''failure'',
                  sr_reason = Some ''network_corruption'', sr_contract = None \<rparr>,
              env_timestamp = 3400000007 / 2, env_latency = 1/10, env_id = 3 \<rparr>]"
    unfolding relay corrupted_reply(1) [OF body pending accepted corrupted box]
    by (simp add: collision_match2_state collision_admit1_bus)
  have p: "''provider0'' \<noteq> ''buyer0''" and n: "''network'' \<noteq> ''buyer0''" by simp_all
  show "map_of (mailboxes (fst (snd corrupted_relay))) ''provider0'' =
     Some [\<lparr> env_from = ''network'', env_to = ''provider0'',
              env_body = Allocation_request ''REQ-buyer1-1700000001-880''
                \<lparr> con_contract_id = ''CONT-1700000002-4242'', con_buyer_id = ''buyer1'',
                  con_provider_id = ''provider0'', con_space_gb = 20, con_duration_hours = 2,
                  con_price_per_gb_hour = 1/2, con_total_cost = 20,
                  con_start_time = 6800000011 / 4, con_end_time = 6800028811 / 4,
                  con_status = ''pending'' \<rparr>,
              env_timestamp = 6800000011 / 4, env_latency = 1/10, env_id = 1 \<rparr>]"
    unfolding relay corrupted_reply(2) [OF body pending accepted corrupted box p]
    by (simp add: AList.update_conv' collision_admit1_value)
  show "map_of (mailboxes (fst (snd corrupted_relay))) ''network'' = Some []"
    unfolding relay corrupted_reply(2) [OF body pending accepted corrupted box n]
    by (simp add: AList.update_conv')
qed

lemma corrupted_admit2_value:
  "p_total_space_gb (fst corrupted_admit2) = 100"
  "p_available_space_gb (fst corrupted_admit2) = 70"
  "p_active_contracts (fst corrupted_admit2) =
     [(''CONT-1700000002-4242'',
       \<lparr> con_contract_id = ''CONT-1700000002-4242'', con_buyer_id = ''buyer1'',
         con_provider_id = ''provider0'', con_space_gb = 20, con_duration_hours = 2,
         con_price_per_gb_hour = 1/2, con_total_cost = 20,
         con_start_time = 6800000011 / 4, con_end_time = 6800028811 / 4,
         con_status = ''pending'' \<rparr>)]"
proof -
  let ?c2 = "\<lparr> con_contract_id = ''CONT-1700000002-4242'', con_buyer_id = ''buyer1'',
         con_provider_id = ''provider0'', con_space_gb = 20, con_duration_hours = 2,
         con_price_per_gb_hour = 1/2, con_total_cost = 20,
         con_start_time = 6800000011 / 4, con_end_time = 6800028811 / 4,
         con_status = ''pending'' \<rparr>"
  let ?e2 = "\<lparr> env_from = ''network'', env_to = ''provider0'',
              env_body = Allocation_request ''REQ-buyer1-1700000001-880'' ?c2,
              env_timestamp = 6800000011 / 4, env_latency = 1/10, env_id = 1 \<rparr>"
  have box: "map_of (mailboxes (fst (snd corrupted_relay))) (p_agent_id (fst collision_admit1))
               = Some (?e2 # [])"
    by (simp add: collision_admit1_value corrupted_relay_bus)
  have body: "env_body ?e2 = Allocation_request ''REQ-buyer1-1700000001-880'' ?c2" by simp
  have can: "can_fulfill_request (fst collision_admit1) (con_space_gb ?c2) (1/2)"
    by (simp add: can_fulfill_request_iff collision_admit1_value)
  note step = request_handler_next [OF box, of "snd (snd corrupted_relay)" "1/2" "1/10" 1700000004]
  show "p_total_space_gb (fst corrupted_admit2) = 100"
    unfolding corrupted_admit2_def step
    by (simp add: admission_static collision_admit1_value)
  show "p_available_space_gb (fst corrupted_admit2) = 70"
    unfolding corrupted_admit2_def step
    by (simp add: admission_accept(2) [OF body can] collision_admit1_value)
  show "p_active_contracts (fst corrupted_admit2) = [(''CONT-1700000002-4242'', ?c2)]"
    unfolding corrupted_admit2_def step
    by (simp add: admission_accept(1) [OF body can] collision_admit1_value)
qed

text \<open>
  \<^bold>\<open>C5.\<close> The buyer is told of the failure and nothing is sent to the provider, but the
  contract does not always stay in the provider's active set until its end time. In the
  run of section ``A contract id issued twice'' the provider has accepted the contract of
  \<^verbatim>\<open>buyer0\<close>, 10 GB that end at 1700007202.5, and has 90 GB available. The broker takes the
  provider's reply, which reports \<^verbatim>\<open>'accepted'\<close>, and draws 0.01, below its corruption
  probability of 0.03: it appends the response with status \<^verbatim>\<open>'failure'\<close> and reason
  \<^verbatim>\<open>'network_corruption'\<close> to the mailbox of \<^verbatim>\<open>buyer0\<close> and sends nothing else. At
  1700000004 the provider accepts the allocation request for \<^verbatim>\<open>buyer1\<close>, which carries
  the same contract id: the contract of \<^verbatim>\<open>buyer0\<close> is no longer in the active set, two
  hours before its end time, and its 10 GB stay taken. The sweep at 1700010000 releases
  the 20 GB of the remaining contract only.
\<close>

theorem corrupted_contract_replaced:
  "p_active_contracts (fst collision_admit1) =
     [(''CONT-1700000002-4242'',
       \<lparr> con_contract_id = ''CONT-1700000002-4242'', con_buyer_id = ''buyer0'',
         con_provider_id = ''provider0'', con_space_gb = 10, con_duration_hours = 2,
         con_price_per_gb_hour = 1/2, con_total_cost = 10,
         con_start_time = 3400000005 / 2, con_end_time = 3400014405 / 2,
         con_status = ''pending'' \<rparr>)]
   \<and> p_available_space_gb (fst collision_admit1) = 90
   \<and> receive_message (fst (snd collision_admit1)) ''network'' =
       Inr (Some \<lparr> env_from = ''provider0'', env_to = ''network'',
                    env_body = Allocation_response
                      \<lparr> ar_request_id = ''REQ-buyer0-1700000001-417'',
                        ar_contract_id = Some ''CONT-1700000002-4242'',
                        ar_status = ''accepted'', ar_reason = None,
                        ar_provider_id = ''provider0'' \<rparr>,
                    env_timestamp = 1700000003, env_latency = 1/10, env_id = 2 \<rparr>,
            (fst (snd collision_admit1))\<lparr>mailboxes :=
               AList.update ''network'' [] (mailboxes (fst (snd collision_admit1)))\<rparr>)
   \<and> n_corruption_probability (fst collision_match2) = 3/100
   \<and> map_of (mailboxes (fst (snd corrupted_relay))) ''buyer0'' =
       Some [\<lparr> env_from = ''network'', env_to = ''buyer0'',
                env_body = Storage_response
                  \<lparr> sr_request_id = ''REQ-buyer0-1700000001-417'', sr_status = ''failure'',
                    sr_reason = Some ''network_corruption'', sr_contract = None \<rparr>,
                env_timestamp = 3400000007 / 2, env_latency = 1/10, env_id = 3 \<rparr>]
   \<and> map_of (mailboxes (fst (snd corrupted_relay))) ''provider0'' =
       Some [\<lparr> env_from = ''network'', env_to = ''provider0'',
                env_body = Allocation_request ''REQ-buyer1-1700000001-880''
                  \<lparr> con_contract_id = ''CONT-1700000002-4242'', con_buyer_id = ''buyer1'',
                    con_provider_id = ''provider0'', con_space_gb = 20,
                    con_duration_hours = 2, con_price_per_gb_hour = 1/2, con_total_cost = 20,
                    con_start_time = 6800000011 / 4, con_end_time = 6800028811 / 4,
                    con_status = ''pending'' \<rparr>,
                env_timestamp = 6800000011 / 4, env_latency = 1/10, env_id = 1 \<rparr>]
   \<and> p_active_contracts (fst corrupted_admit2) =
       [(''CONT-1700000002-4242'',
         \<lparr> con_contract_id = ''CONT-1700000002-4242'', con_buyer_id = ''buyer1'',
           con_provider_id = ''provider0'', con_space_gb = 20, con_duration_hours = 2,
           con_price_per_gb_hour = 1/2, con_total_cost = 20,
           con_start_time = 6800000011 / 4, con_end_time = 6800028811 / 4,
           con_status = ''pending'' \<rparr>)]
   \<and> p_available_space_gb (fst corrupted_admit2) = 70
   \<and> p_active_contracts corrupted_sweep = []
   \<and> p_available_space_gb corrupted_sweep = 90
   \<and> p_total_space_gb corrupted_sweep = 100"
proof -
  have taken: "receive_message (fst (snd collision_admit1)) ''network''
      = Inr (Some accepted_envelope,
             (fst (snd collision_admit1))\<lparr>mailboxes :=
                AList.update ''network'' [] (mailboxes (fst (snd collision_admit1)))\<rparr>)"
    by (simp add: receive_message_def collision_admit1_bus)
  have d: "distinct (map fst (p_active_contracts (fst corrupted_admit2)))"
    by (simp add: corrupted_admit2_value)
  have s: "p_active_contracts corrupted_sweep = []"
    "p_available_space_gb corrupted_sweep = 90"
    "p_total_space_gb corrupted_sweep = 100"
    unfolding corrupted_sweep_def
    by (simp_all add: contract_manager_fields [OF d] corrupted_admit2_value expired_def)
  show ?thesis
    using s taken
    by (simp add: collision_admit1_value collision_match2_state corrupted_relay_bus
        corrupted_admit2_value accepted_envelope_def)
qed


section \<open>A request with a maximal price of zero\<close>

lemma free_registered_fields:
  "n_providers free_registered = [(''provider0'', 0)]"
  "n_provider_last_seen free_registered = [(''provider0'', 1700000000)]"
  "n_objects free_registered 0 =
     \<lparr> pi_agent_id = ''provider0'', pi_total_space_gb = 100, pi_available_space_gb = 100,
       pi_reputation = 5, pi_price_per_gb_hour = 0, pi_last_seen = 1700000000,
       pi_success_count = 0, pi_failure_count = 0, pi_response_time_avg = 1/10 \<rparr>"
  "n_agent_id free_registered = ''network''"
  by (simp_all add: free_registered_def registration_envelope_def
      handle_provider_registration_def scenario_network_def IntermediaryNetworkAgent_init_def
      Let_def)

lemma free_suitable: "suitable_providers free_registered free_request 1700000002 = [0]"
  by (simp add: suitable_providers_def meets_requirements_def free_registered_fields
      free_request_def)

text \<open>
  \<^bold>\<open>C4.\<close> The candidates are the registered providers that pass the four tests
  (\<open>suitable_providers_iff\<close>), without a candidate the buyer is sent the failure with
  reason \<^verbatim>\<open>'no_suitable_provider'\<close> (\<open>select_provider_none\<close>, \<open>storage_request_failed\<close>), and
  a provider that is selected has the highest score among the candidates
  (\<open>select_provider_first_maximal\<close>). But with a candidate the broker does not always
  select one. The score divides the provider's price by the request's maximal price.
  Here the maximal price is zero and the registered provider offers its 100 GB for a
  price of zero: the provider passes the filter, the division raises
  \<^verbatim>\<open>ZeroDivisionError\<close>, the \<^verbatim>\<open>except\<close> clause of \<^verbatim>\<open>select_provider\<close> returns \<^verbatim>\<open>None\<close>, and the
  buyer is told that no provider is suitable.
\<close>

theorem no_selection_at_zero_max_price:
  "suitable_providers free_registered free_request 1700000002 = [0]
   \<and> calculate_score free_request (n_objects free_registered 0) = Inl ZeroDivisionError
   \<and> select_provider free_registered free_request 1700000002 = None
   \<and> map_of (mailboxes (fst (snd (handle_storage_request free_registered scenario_bus
        (reset 0) free_request_envelope 1700000002 1700000002 4242 1700000002 1700000002
        (1/10) 1700000003)))) ''buyer0''
      = Some [\<lparr> env_from = ''network'', env_to = ''buyer0'',
                 env_body = Storage_response
                   \<lparr> sr_request_id = ''REQ-buyer0-1700000001-417'', sr_status = ''failure'',
                     sr_reason = Some ''no_suitable_provider'', sr_contract = None \<rparr>,
                 env_timestamp = 1700000003, env_latency = 1/10, env_id = 0 \<rparr>]
   \<and> map_of (mailboxes (fst (snd (handle_storage_request free_registered scenario_bus
        (reset 0) free_request_envelope 1700000002 1700000002 4242 1700000002 1700000002
        (1/10) 1700000003)))) ''provider0'' = Some []"
proof -
  have member: "0 \<in> set (suitable_providers free_registered free_request 1700000002)"
    by (simp add: free_suitable)
  have price: "req_max_price_per_gb_hour free_request = 0
                 \<or> pi_total_space_gb (n_objects free_registered 0) = 0"
    by (simp add: free_request_def)
  have raises: "calculate_score free_request (n_objects free_registered 0)
                  = Inl ZeroDivisionError"
    using price by (rule calculate_score_raises)
  have none: "select_provider free_registered free_request 1700000002 = None"
    using member raises by (rule select_provider_raises)
  have body: "env_body free_request_envelope = Storage_request free_request"
    by (simp add: free_request_envelope_def)
  have box: "map_of (mailboxes scenario_bus) (env_from free_request_envelope) = Some []"
    by (simp add: free_request_envelope_def scenario_bus_value)
  have count: "message_count scenario_bus = 0" by (simp add: scenario_defs)
  have reply: "map_of (mailboxes (fst (snd (handle_storage_request free_registered scenario_bus
        (reset 0) free_request_envelope 1700000002 1700000002 4242 1700000002 1700000002
        (1/10) 1700000003)))) ''buyer0''
      = Some [\<lparr> env_from = ''network'', env_to = ''buyer0'',
                 env_body = Storage_response
                   \<lparr> sr_request_id = ''REQ-buyer0-1700000001-417'', sr_status = ''failure'',
                     sr_reason = Some ''no_suitable_provider'', sr_contract = None \<rparr>,
                 env_timestamp = 1700000003, env_latency = 1/10, env_id = 0 \<rparr>]"
    unfolding storage_request_failed [OF body none box]
    by (simp add: AList.update_conv' free_request_envelope_def free_registered_fields
        free_request_def count)
  have silent: "map_of (mailboxes (fst (snd (handle_storage_request free_registered
        scenario_bus (reset 0) free_request_envelope 1700000002 1700000002 4242 1700000002
        1700000002 (1/10) 1700000003)))) ''provider0'' = Some []"
    unfolding storage_request_failed [OF body none box]
    by (simp add: AList.update_conv' free_request_envelope_def scenario_bus_value)
  show ?thesis
    using free_suitable raises none reply silent by simp
qed


section \<open>Determinism of the selection\<close>

text \<open>
  The four weights as doubles, and the scores of two providers for a request with a
  maximal price of 1. Both providers have reputation 5, a price of 0.5 and 100 GB. One
  has all its space available and no allocation counted: its score is the double 0.55.
  The other has 50 GB available and one success counted: the exact value of the formula
  is again 11/20, and its score is the double below, 0.5499999999999999.
\<close>

lemma double_weights:
  "double_round (2/5) = 7205759403792794 / 2 ^ 54"
  "double_round (3/10) = 5404319552844595 / 2 ^ 54"
  "double_round (1/5) = 7205759403792794 / 2 ^ 55"
  "double_round (1/10) = 7205759403792794 / 2 ^ 56"
proof -
  show "double_round (2/5) = 7205759403792794 / 2 ^ 54"
    using double_round_scaled [where m = 7205759403792794 and j = 54 and x = "2/5"] by simp
  show "double_round (3/10) = 5404319552844595 / 2 ^ 54"
    using double_round_scaled [where m = 5404319552844595 and j = 54 and x = "3/10"] by simp
  show "double_round (1/5) = 7205759403792794 / 2 ^ 55"
    using double_round_scaled [where m = 7205759403792794 and j = 55 and x = "1/5"] by simp
  show "double_round (1/10) = 7205759403792794 / 2 ^ 56"
    using double_round_scaled [where m = 7205759403792794 and j = 56 and x = "1/10"] by simp
qed

lemma double_round_one_half: "double_round (1/2) = 1/2"
  using double_round_dyadic [of 1 1] by simp

text \<open>
  The products \<open>0.5 * 0.4\<close> and \<open>1.0 * 0.2\<close>, \<open>0.5 * 0.3\<close>, and \<open>0.5 * 0.2\<close> and
  \<open>1.0 * 0.1\<close> are exact.
\<close>

lemma score_terms:
  "double_round (3602879701896397 / 18014398509481984) = 7205759403792794 / 2 ^ 55"
  "double_round (5404319552844595 / 36028797018963968) = 5404319552844595 / 2 ^ 55"
  "double_round (3602879701896397 / 36028797018963968) = 7205759403792794 / 2 ^ 56"
proof -
  show "double_round (3602879701896397 / 18014398509481984) = 7205759403792794 / 2 ^ 55"
    using double_round_dyadic [of 7205759403792794 55] by simp
  show "double_round (5404319552844595 / 36028797018963968) = 5404319552844595 / 2 ^ 55"
    using double_round_dyadic [of 5404319552844595 55] by simp
  show "double_round (3602879701896397 / 36028797018963968) = 7205759403792794 / 2 ^ 56"
    using double_round_dyadic [of 7205759403792794 56] by simp
qed

text \<open>
  The sums, in the order of the code: \<open>0.2 + 0.15\<close> is halfway between two doubles and
  rounds to the even one, 0.35; so do \<open>0.35 + 0.2\<close>, to 0.55, and \<open>0.35 + 0.1\<close>, to
  0.44999999999999996; \<open>0.44999999999999996 + 0.1\<close> rounds down to 0.5499999999999999;
  \<open>0.55 + 0.0\<close> is exact.
\<close>

lemma score_sums:
  "double_round (12610078956637389 / 36028797018963968) = 6305039478318694 / 2 ^ 54"
  "double_round (9907919180215091 / 18014398509481984) = 4953959590107546 / 2 ^ 53"
  "double_round (16212958658533785 / 36028797018963968) = 8106479329266892 / 2 ^ 54"
  "double_round (19815838360430181 / 36028797018963968) = 4953959590107545 / 2 ^ 53"
  "double_round (2476979795053773 / 4503599627370496) = 4953959590107546 / 2 ^ 53"
proof -
  show "double_round (12610078956637389 / 36028797018963968) = 6305039478318694 / 2 ^ 54"
    using double_round_scaled_even [where m = 6305039478318694 and j = 54
        and x = "12610078956637389 / 36028797018963968"]
    by simp
  show "double_round (9907919180215091 / 18014398509481984) = 4953959590107546 / 2 ^ 53"
    using double_round_scaled_even [where m = 4953959590107546 and j = 53
        and x = "9907919180215091 / 18014398509481984"]
    by simp
  show "double_round (16212958658533785 / 36028797018963968) = 8106479329266892 / 2 ^ 54"
    using double_round_scaled_even [where m = 8106479329266892 and j = 54
        and x = "16212958658533785 / 36028797018963968"]
    by simp
  show "double_round (19815838360430181 / 36028797018963968) = 4953959590107545 / 2 ^ 53"
    using double_round_scaled [where m = 4953959590107545 and j = 53
        and x = "19815838360430181 / 36028797018963968"]
    by simp
  show "double_round (2476979795053773 / 4503599627370496) = 4953959590107546 / 2 ^ 53"
    using double_round_dyadic [of 4953959590107546 53] by simp
qed

lemma score_unused:
  assumes "req_max_price_per_gb_hour request = 1"
    and "pi_reputation p = 5" "pi_price_per_gb_hour p = 1/2"
    and "pi_available_space_gb p = 100" "pi_total_space_gb p = 100"
    and "pi_success_count p = 0" "pi_failure_count p = 0"
  shows "calculate_score request p = Inr (4953959590107546 / 2 ^ 53)"
proof -
  have space: "int_truediv 100 100 = Inr 1"
    using int_truediv_ratio [of 100 100] by simp
  have rate: "int_truediv 0 1 = Inr 0"
    using int_truediv_ratio [of 1 0] by simp
  show ?thesis
    by (simp add: calculate_score_def assms double_truediv_def space rate bind_err_Inr
        Let_def double_mul_def double_add_def double_sub_def double_weights
        double_round_one_half score_terms score_sums)
qed

lemma score_used:
  assumes "req_max_price_per_gb_hour request = 1"
    and "pi_reputation p = 5" "pi_price_per_gb_hour p = 1/2"
    and "pi_available_space_gb p = 50" "pi_total_space_gb p = 100"
    and "pi_success_count p = 1" "pi_failure_count p = 0"
  shows "calculate_score request p = Inr (4953959590107545 / 2 ^ 53)"
proof -
  have space: "int_truediv 50 100 = Inr (1/2)"
    using int_truediv_ratio [of 100 50] double_round_one_half by simp
  have rate: "int_truediv 1 1 = Inr 1"
    using int_truediv_ratio [of 1 1] by simp
  show ?thesis
    by (simp add: calculate_score_def assms double_truediv_def space rate bind_err_Inr
        Let_def double_mul_def double_add_def double_sub_def double_weights
        double_round_one_half score_terms score_sums)
qed

lemma registry_ab_fields:
  "n_providers registry_ab = [(''a'', 0), (''b'', Suc 0)]"
  "n_provider_last_seen registry_ab = [(''a'', 1700000000), (''b'', 1700000000)]"
  "n_objects registry_ab 0 =
     \<lparr> pi_agent_id = ''a'', pi_total_space_gb = 100, pi_available_space_gb = 100,
       pi_reputation = 5, pi_price_per_gb_hour = 1/2, pi_last_seen = 1700000000,
       pi_success_count = 0, pi_failure_count = 0, pi_response_time_avg = 1/10 \<rparr>"
  "n_objects registry_ab (Suc 0) =
     \<lparr> pi_agent_id = ''b'', pi_total_space_gb = 100, pi_available_space_gb = 100,
       pi_reputation = 5, pi_price_per_gb_hour = 1/2, pi_last_seen = 1700000000,
       pi_success_count = 0, pi_failure_count = 0, pi_response_time_avg = 1/10 \<rparr>"
  by (simp_all add: registry_ab_def registration_envelope_def
      handle_provider_registration_def scenario_network_def IntermediaryNetworkAgent_init_def
      Let_def)

lemma registry_ba_fields:
  "n_providers registry_ba = [(''b'', 0), (''a'', Suc 0)]"
  "n_provider_last_seen registry_ba = [(''b'', 1700000000), (''a'', 1700000000)]"
  "n_objects registry_ba 0 =
     \<lparr> pi_agent_id = ''b'', pi_total_space_gb = 100, pi_available_space_gb = 100,
       pi_reputation = 5, pi_price_per_gb_hour = 1/2, pi_last_seen = 1700000000,
       pi_success_count = 0, pi_failure_count = 0, pi_response_time_avg = 1/10 \<rparr>"
  "n_objects registry_ba (Suc 0) =
     \<lparr> pi_agent_id = ''a'', pi_total_space_gb = 100, pi_available_space_gb = 100,
       pi_reputation = 5, pi_price_per_gb_hour = 1/2, pi_last_seen = 1700000000,
       pi_success_count = 0, pi_failure_count = 0, pi_response_time_avg = 1/10 \<rparr>"
  by (simp_all add: registry_ba_def registration_envelope_def
      handle_provider_registration_def scenario_network_def IntermediaryNetworkAgent_init_def
      Let_def)

lemma registry_used_fields:
  "n_providers registry_used = [(''a'', 0), (''b'', Suc 0)]"
  "n_provider_last_seen registry_used = [(''a'', 1700000000), (''b'', 1700000000)]"
  "n_objects registry_used 0 =
     \<lparr> pi_agent_id = ''a'', pi_total_space_gb = 100, pi_available_space_gb = 50,
       pi_reputation = 5, pi_price_per_gb_hour = 1/2, pi_last_seen = 1700000000,
       pi_success_count = 1, pi_failure_count = 0, pi_response_time_avg = 1/10 \<rparr>"
  "n_objects registry_used (Suc 0) =
     \<lparr> pi_agent_id = ''b'', pi_total_space_gb = 100, pi_available_space_gb = 100,
       pi_reputation = 5, pi_price_per_gb_hour = 1/2, pi_last_seen = 1700000000,
       pi_success_count = 0, pi_failure_count = 0, pi_response_time_avg = 1/10 \<rparr>"
  by (simp_all add: registry_used_def registration_envelope_def used_registration_def
      handle_provider_registration_def scenario_network_def IntermediaryNetworkAgent_init_def
      Let_def)

lemma registry_suitable:
  "suitable_providers registry_ab tie_request 1700000002 = [0, Suc 0]"
  "suitable_providers registry_ba tie_request 1700000002 = [0, Suc 0]"
  "suitable_providers registry_used tie_request 1700000002 = [0, Suc 0]"
  by (simp_all add: suitable_providers_def meets_requirements_def registry_ab_fields
      registry_ba_fields registry_used_fields tie_request_def)

lemma registry_scores:
  "calculate_score tie_request (n_objects registry_ab 0) = Inr (4953959590107546 / 2 ^ 53)"
  "calculate_score tie_request (n_objects registry_ab (Suc 0))
     = Inr (4953959590107546 / 2 ^ 53)"
  "calculate_score tie_request (n_objects registry_ba 0) = Inr (4953959590107546 / 2 ^ 53)"
  "calculate_score tie_request (n_objects registry_ba (Suc 0))
     = Inr (4953959590107546 / 2 ^ 53)"
  "calculate_score tie_request (n_objects registry_used 0) = Inr (4953959590107545 / 2 ^ 53)"
  "calculate_score tie_request (n_objects registry_used (Suc 0))
     = Inr (4953959590107546 / 2 ^ 53)"
proof -
  show "calculate_score tie_request (n_objects registry_ab 0)
          = Inr (4953959590107546 / 2 ^ 53)"
    by (rule score_unused) (simp_all add: tie_request_def registry_ab_fields)
  show "calculate_score tie_request (n_objects registry_ab (Suc 0))
          = Inr (4953959590107546 / 2 ^ 53)"
    by (rule score_unused) (simp_all add: tie_request_def registry_ab_fields)
  show "calculate_score tie_request (n_objects registry_ba 0)
          = Inr (4953959590107546 / 2 ^ 53)"
    by (rule score_unused) (simp_all add: tie_request_def registry_ba_fields)
  show "calculate_score tie_request (n_objects registry_ba (Suc 0))
          = Inr (4953959590107546 / 2 ^ 53)"
    by (rule score_unused) (simp_all add: tie_request_def registry_ba_fields)
  show "calculate_score tie_request (n_objects registry_used 0)
          = Inr (4953959590107545 / 2 ^ 53)"
    by (rule score_used) (simp_all add: tie_request_def registry_used_fields)
  show "calculate_score tie_request (n_objects registry_used (Suc 0))
          = Inr (4953959590107546 / 2 ^ 53)"
    by (rule score_unused) (simp_all add: tie_request_def registry_used_fields)
qed

lemma registry_selection:
  "select_provider registry_ab tie_request 1700000002 = Some 0"
  "select_provider registry_ba tie_request 1700000002 = Some 0"
  "select_provider registry_used tie_request 1700000002 = Some (Suc 0)"
proof -
  let ?g = "\<lambda>b::nat. 4953959590107546 / 2 ^ 53 :: real"
  let ?h = "\<lambda>b::nat. (if b = 0 then 4953959590107545 / 2 ^ 53
                       else 4953959590107546 / 2 ^ 53) :: real"
  have ab: "suitable_providers registry_ab tie_request 1700000002 \<noteq> []"
    "\<forall>b \<in> set (suitable_providers registry_ab tie_request 1700000002).
       calculate_score tie_request (n_objects registry_ab b) = Inr (?g b)"
    by (simp_all add: registry_suitable registry_scores)
  show "select_provider registry_ab tie_request 1700000002 = Some 0"
    unfolding select_provider_defined [OF ab] registry_suitable by simp
  have ba: "suitable_providers registry_ba tie_request 1700000002 \<noteq> []"
    "\<forall>b \<in> set (suitable_providers registry_ba tie_request 1700000002).
       calculate_score tie_request (n_objects registry_ba b) = Inr (?g b)"
    by (simp_all add: registry_suitable registry_scores)
  show "select_provider registry_ba tie_request 1700000002 = Some 0"
    unfolding select_provider_defined [OF ba] registry_suitable by simp
  have used: "suitable_providers registry_used tie_request 1700000002 \<noteq> []"
    "\<forall>b \<in> set (suitable_providers registry_used tie_request 1700000002).
       calculate_score tie_request (n_objects registry_used b) = Inr (?h b)"
    by (simp_all add: registry_suitable registry_scores)
  show "select_provider registry_used tie_request 1700000002 = Some (Suc 0)"
    unfolding select_provider_defined [OF used] registry_suitable by simp
qed

text \<open>
  \<^bold>\<open>C7.\<close> The selection reads the registry (the providers in registration order, their
  cached information and when they were last seen), the request and one clock value, and
  nothing else: two brokers that agree on these select the same provider. The selected
  provider is the first candidate, in the registry's order, among those with the highest
  score, the score being the float that \<^verbatim>\<open>calculate_score\<close> returns: every candidate
  before it has a lower score and every candidate after it has a score that is not higher.
\<close>

theorem select_provider_first_of_best:
  "(n_providers n = n_providers n'
      \<and> n_provider_last_seen n = n_provider_last_seen n'
      \<and> (\<forall>a \<in> snd ` set (n_providers n). n_objects n a = n_objects n' a)
    \<longrightarrow> select_provider n request t = select_provider n' request t)
   \<and> (select_provider n request t = Some s
      \<longrightarrow> (\<exists>pre post score. suitable_providers n request t = pre @ s # post
             \<and> (\<forall>b \<in> set (suitable_providers n request t).
                   calculate_score request (n_objects n b) = Inr (score b))
             \<and> (\<forall>b \<in> set pre. score b < score s)
             \<and> (\<forall>b \<in> set post. score b \<le> score s)))"
  using select_provider_cong [of n n' request t]
    select_provider_first_maximal [of n request t s]
  by blast

text \<open>
  The same two providers with the same score: registered as a, b the selection returns a;
  registered as b, a it returns b.
\<close>

theorem ties_follow_registration_order:
  "n_providers registry_ab = [(''a'', 0), (''b'', Suc 0)]
   \<and> n_providers registry_ba = [(''b'', 0), (''a'', Suc 0)]
   \<and> n_objects registry_ab 0 = n_objects registry_ba (Suc 0)
   \<and> n_objects registry_ab (Suc 0) = n_objects registry_ba 0
   \<and> calculate_score tie_request (n_objects registry_ab 0) = Inr (4953959590107546 / 2 ^ 53)
   \<and> calculate_score tie_request (n_objects registry_ab (Suc 0))
       = Inr (4953959590107546 / 2 ^ 53)
   \<and> select_provider registry_ab tie_request 1700000002 = Some 0
   \<and> pi_agent_id (n_objects registry_ab 0) = ''a''
   \<and> select_provider registry_ba tie_request 1700000002 = Some 0
   \<and> pi_agent_id (n_objects registry_ba 0) = ''b''"
  using registry_scores(1,2)
  by (simp add: registry_selection registry_ab_fields registry_ba_fields)

text \<open>
  The theorem at two providers whose scores differ in the last bit: the second one
  registered is selected, and the first one has the lower score.
\<close>

theorem select_provider_first_of_best_witness:
  "select_provider (registry_used\<lparr>n_corruption_probability := 1\<rparr>) tie_request 1700000002
     = select_provider registry_used tie_request 1700000002
   \<and> select_provider registry_used tie_request 1700000002 = Some (Suc 0)
   \<and> calculate_score tie_request (n_objects registry_used 0)
       = Inr (4953959590107545 / 2 ^ 53)
   \<and> calculate_score tie_request (n_objects registry_used (Suc 0))
       = Inr (4953959590107546 / 2 ^ 53)
   \<and> (\<exists>pre post score.
         suitable_providers registry_used tie_request 1700000002 = pre @ Suc 0 # post
         \<and> (\<forall>b \<in> set (suitable_providers registry_used tie_request 1700000002).
               calculate_score tie_request (n_objects registry_used b) = Inr (score b))
         \<and> (\<forall>b \<in> set pre. score b < score (Suc 0))
         \<and> (\<forall>b \<in> set post. score b \<le> score (Suc 0)))"
  using select_provider_first_of_best [where n = "registry_used\<lparr>n_corruption_probability := 1\<rparr>"
      and n' = registry_used and request = tie_request and t = 1700000002]
    select_provider_first_of_best [where n = registry_used and n' = registry_used
      and request = tie_request and t = 1700000002 and s = "Suc 0"]
    registry_scores(5,6)
  by (simp add: registry_selection)


section \<open>The contracts the broker builds\<close>

lemma nudge_provider_price [simp]:
  "pi_price_per_gb_hour (n_objects (nudge_provider n provider_id accepted) a)
     = pi_price_per_gb_hour (n_objects n a)"
  "pi_agent_id (n_objects (nudge_provider n provider_id accepted) a)
     = pi_agent_id (n_objects n a)"
  by (simp_all add: nudge_provider_def Let_def split: option.split)

text \<open>
  Between \<open>2 ^ 30\<close> and \<open>2 ^ 31\<close>, where the clock is from 2004 to 2038, the doubles are
  \<open>2 ^ (-22)\<close> apart, about 0.24 microseconds.
\<close>

lemma double_ulp_clock:
  assumes "2 ^ 30 \<le> x" "x < 2 ^ 31"
  shows "double_ulp x = 1 / 2 ^ 22"
proof -
  have "power_int 2 30 \<le> \<bar>x\<bar>" "\<bar>x\<bar> < power_int 2 (30 + 1)" using assms by simp_all
  then have "double_ulp x = power_int 2 (30 - 52)" by (rule double_ulp_binade) simp
  then show ?thesis by (simp add: power_int_minus field_simps)
qed

lemma brief_selected:
  "select_provider scenario_registered
     \<lparr> req_buyer_id = ''buyer0'', req_space_gb = 10, req_duration_hours = d,
       req_max_price_per_gb_hour = 1, req_timestamp = 1700000001,
       req_request_id = ''REQ-buyer0-1700000001-417'' \<rparr> 1700000002 = Some 0"
  by (rule select_scenario) simp_all

lemma brief_forwarded:
  "map_of (mailboxes (fst (snd (handle_storage_request scenario_registered scenario_bus
       (reset 1700000000) (brief_envelope d) 1700000002 t_id 4242 t_start t_end (1/10) now))))
     ''provider0''
   = Some [\<lparr> env_from = ''network'', env_to = ''provider0'',
              env_body = Allocation_request ''REQ-buyer0-1700000001-417''
                \<lparr> con_contract_id = ''CONT-'' @ str_int (py_int t_id) @ ''-4242'',
                  con_buyer_id = ''buyer0'', con_provider_id = ''provider0'',
                  con_space_gb = 10, con_duration_hours = d, con_price_per_gb_hour = 1/2,
                  con_total_cost = double_mul (double_mul 10 d) (1/2),
                  con_start_time = t_start,
                  con_end_time = double_add t_end (double_mul d 3600),
                  con_status = ''pending'' \<rparr>,
              env_timestamp = now, env_latency = 1/10, env_id = 0 \<rparr>]"
proof -
  let ?req = "\<lparr> req_buyer_id = ''buyer0'', req_space_gb = 10, req_duration_hours = d,
       req_max_price_per_gb_hour = 1, req_timestamp = 1700000001,
       req_request_id = ''REQ-buyer0-1700000001-417'' \<rparr>"
  have body: "env_body (brief_envelope d) = Storage_request ?req"
    by (simp add: brief_envelope_def)
  have box: "map_of (mailboxes scenario_bus) (pi_agent_id (n_objects scenario_registered 0))
               = Some []"
    by (simp add: scenario_registered_fields scenario_bus_value)
  have fl: "py_float (req_space_gb ?req) = Inr 10" by (simp add: double_exact)
  have count: "message_count scenario_bus = 0" by (simp add: scenario_defs)
  show ?thesis
    unfolding storage_request_forwarded [OF body brief_selected box fl]
    by (simp add: scenario_registered_fields AList.update_conv' str_4242 count)
qed





section \<open>The buyers' requests in the metrics\<close>

lemma request_behavior_split:
  "request_behavior b bus m space_needed duration price_draw t_id rand_id t_stamp lat now
     = (case request_behavior_begin b bus space_needed duration price_draw t_id rand_id t_stamp of
          (b1, None) \<Rightarrow> (b1, bus, m)
        | (b1, Some request) \<Rightarrow> request_behavior_resume b1 bus m request lat now)"
proof (cases "space_needed = 0")
  case True
  then show ?thesis
    by (simp add: request_behavior_def request_behavior_begin_def py_truediv_def)
next
  case nonzero: False
  show ?thesis
  proof (cases "map_of (mailboxes bus) (b_broker_id b)")
    case None
    then show ?thesis
      using nonzero
      by (simp add: request_behavior_def request_behavior_begin_def py_truediv_def
          send_unregistered Let_def)
  next
    case (Some queue)
    then show ?thesis
      using nonzero
      by (simp add: request_behavior_def request_behavior_begin_def request_behavior_resume_def
          py_truediv_def send_registered Let_def)
  qed
qed

lemma record_request_counters:
  "m_total_requests (record_request m successful rt) = m_total_requests m + 1"
  "m_successful_requests (record_request m successful rt)
     = m_successful_requests m + (if successful then 1 else 0)"
  "m_failed_requests (record_request m successful rt)
     = m_failed_requests m + (if successful then 0 else 1)"
  by (cases successful; cases "rt > 0"; simp add: record_request_def)+

lemma record_network_event_counters [simp]:
  "m_total_requests (record_network_event m event_type latency) = m_total_requests m"
  "m_successful_requests (record_network_event m event_type latency) = m_successful_requests m"
  "m_failed_requests (record_network_event m event_type latency) = m_failed_requests m"
  by (simp_all add: record_network_event_def Let_def)

lemma record_contract_counters [simp]:
  "m_total_requests (record_contract m contract completed) = m_total_requests m"
  "m_successful_requests (record_contract m contract completed) = m_successful_requests m"
  "m_failed_requests (record_contract m contract completed) = m_failed_requests m"
  by (simp_all add: record_contract_def)

lemma record_provider_metrics_counters [simp]:
  "m_total_requests (record_provider_metrics m u r e) = m_total_requests m"
  "m_successful_requests (record_provider_metrics m u r e) = m_successful_requests m"
  "m_failed_requests (record_provider_metrics m u r e) = m_failed_requests m"
  by (simp_all add: record_provider_metrics_def Let_def)

lemma send_message_counters:
  "m_total_requests (fst (snd (snd (send_message bus m f t body sim lat now))))
     = m_total_requests m"
  "m_successful_requests (fst (snd (snd (send_message bus m f t body sim lat now))))
     = m_successful_requests m"
  "m_failed_requests (fst (snd (snd (send_message bus m f t body sim lat now))))
     = m_failed_requests m"
  by (cases "map_of (mailboxes bus) t"; simp add: send_unregistered send_registered)+

lemma send_message_keeps_mailboxes:
  "map_of (mailboxes bus) x \<noteq> None \<Longrightarrow>
   map_of (mailboxes (fst (snd (send_message bus m f t body sim lat now)))) x \<noteq> None"
  by (cases "map_of (mailboxes bus) t")
     (simp_all add: send_unregistered send_registered AList.update_conv')

lemma receive_message_keeps_mailboxes:
  "receive_message bus a = Inr (msg, bus1) \<Longrightarrow> map_of (mailboxes bus) x \<noteq> None \<Longrightarrow>
   map_of (mailboxes bus1) x \<noteq> None"
  by (auto simp: receive_message_def AList.update_conv' split: option.splits list.splits)

lemma register_agent_keeps_mailboxes:
  "map_of (mailboxes bus) x \<noteq> None \<Longrightarrow> map_of (mailboxes (register_agent bus a)) x \<noteq> None"
  by (simp add: register_agent_def AList.update_conv')

lemma request_behavior_begin_cases:
  "request_behavior_begin b bus space_needed duration price_draw t_id rand_id t_stamp
     = (if space_needed = 0 then (b, None)
        else let request_id = ''REQ-'' @ b_agent_id b @ ''-'' @ str_int (py_int t_id) @ ''-''
                                @ str_int rand_id;
                 request = \<lparr> req_buyer_id = b_agent_id b, req_space_gb = space_needed,
                             req_duration_hours = duration,
                             req_max_price_per_gb_hour =
                               min price_draw (b_budget_per_hour b / real_of_int space_needed),
                             req_timestamp = t_stamp, req_request_id = request_id \<rparr>
             in (b\<lparr>b_pending_requests :=
                      AList.update request_id request (b_pending_requests b)\<rparr>,
                 if map_of (mailboxes bus) (b_broker_id b) = None then None else Some request))"
  by (simp add: request_behavior_begin_def py_truediv_def Let_def)

lemma request_behavior_resume_sent:
  assumes "map_of (mailboxes bus) (b_broker_id b) = Some queue"
  shows "request_behavior_resume b bus m request lat now
     = (b\<lparr>b_stats := (b_stats b)\<lparr>bs_requests_sent := bs_requests_sent (b_stats b) + 1\<rparr>\<rparr>,
        bus\<lparr>message_count := message_count bus + 1,
            mailboxes := AList.update (b_broker_id b)
              (queue @ [\<lparr> env_from = b_agent_id b, env_to = b_broker_id b,
                          env_body = Storage_request request, env_timestamp = now,
                          env_latency = lat, env_id = message_count bus \<rparr>])
              (mailboxes bus)\<rparr>,
        record_request (record_network_event m ''latency'' lat) False 0)"
  using assms by (simp add: request_behavior_resume_def send_registered)

lemma process_response_answered:
  assumes "env_body msg = Storage_response response"
    and "map_of (b_pending_requests b) (sr_request_id response) = Some original_request"
    and "sr_status response = ''success'' \<longrightarrow> sr_contract response \<noteq> None"
  shows "m_total_requests (snd (process_response b m msg now)) = m_total_requests m + 1"
    and "m_successful_requests (snd (process_response b m msg now))
          = m_successful_requests m + (if sr_status response = ''success'' then 1 else 0)"
    and "m_failed_requests (snd (process_response b m msg now))
          = m_failed_requests m + (if sr_status response = ''success'' then 0 else 1)"
    and "b_pending_requests (fst (process_response b m msg now))
          = AList.delete (sr_request_id response) (b_pending_requests b)"
    and "b_broker_id (fst (process_response b m msg now)) = b_broker_id b"
proof -
  have "m_total_requests (snd (process_response b m msg now)) = m_total_requests m + 1
    \<and> m_successful_requests (snd (process_response b m msg now))
          = m_successful_requests m + (if sr_status response = ''success'' then 1 else 0)
    \<and> m_failed_requests (snd (process_response b m msg now))
          = m_failed_requests m + (if sr_status response = ''success'' then 0 else 1)
    \<and> b_pending_requests (fst (process_response b m msg now))
          = AList.delete (sr_request_id response) (b_pending_requests b)
    \<and> b_broker_id (fst (process_response b m msg now)) = b_broker_id b"
  proof (cases "sr_status response = ''success''")
    case True
    then obtain contract where c: "sr_contract response = Some contract"
      using assms(3) by auto
    show ?thesis
      by (simp add: process_response_def assms(1,2) True c Let_def record_request_counters)
  next
    case False
    show ?thesis
      by (simp add: process_response_def assms(1,2) False Let_def record_request_counters)
  qed
  then show "m_total_requests (snd (process_response b m msg now)) = m_total_requests m + 1"
    and "m_successful_requests (snd (process_response b m msg now))
          = m_successful_requests m + (if sr_status response = ''success'' then 1 else 0)"
    and "m_failed_requests (snd (process_response b m msg now))
          = m_failed_requests m + (if sr_status response = ''success'' then 0 else 1)"
    and "b_pending_requests (fst (process_response b m msg now))
          = AList.delete (sr_request_id response) (b_pending_requests b)"
    and "b_broker_id (fst (process_response b m msg now)) = b_broker_id b"
    by simp_all
qed

lemma process_response_dropped:
  assumes "\<not> (\<exists>response original_request. env_body msg = Storage_response response
              \<and> map_of (b_pending_requests b) (sr_request_id response) = Some original_request
              \<and> (sr_status response = ''success'' \<longrightarrow> sr_contract response \<noteq> None))"
  shows "process_response b m msg now = (b, m)"
proof (cases "env_body msg")
  case (Storage_response response)
  show ?thesis
  proof (cases "map_of (b_pending_requests b) (sr_request_id response)")
    case None
    then show ?thesis by (simp add: process_response_def Storage_response)
  next
    case (Some original_request)
    then have "sr_status response = ''success''" "sr_contract response = None"
      using assms Storage_response by auto
    then show ?thesis by (simp add: process_response_def Storage_response Some Let_def)
  qed
qed (simp_all add: process_response_def)

lemma length_update_le: "length (AList.update k v al) \<le> Suc (length al)"
  by (induction al) auto

lemma length_delete_less:
  "map_of al k = Some v \<Longrightarrow> length (AList.delete k al) < length al"
proof (induction al)
  case Nil
  then show ?case by simp
next
  case (Cons a al)
  have "length (AList.delete k al) \<le> length al" by (rule length_delete_le)
  then show ?case using Cons by (auto simp: less_Suc_eq_le)
qed

lemma awaiting_total_update:
  "i < length buyers \<Longrightarrow>
   awaiting_total (buyers[i := x]) = awaiting_total buyers - awaiting (buyers ! i) + awaiting x"
  unfolding awaiting_total_def
proof (induction buyers arbitrary: i)
  case Nil
  then show ?case by simp
next
  case (Cons a buyers)
  show ?case
  proof (cases i)
    case 0
    then show ?thesis by simp
  next
    case (Suc j)
    then show ?thesis using Cons.IH [of j] Cons.prems by simp
  qed
qed

lemma registered_update:
  assumes "list_all (broker_registered bus) buyers"
    and "\<And>a. map_of (mailboxes bus) a \<noteq> None \<Longrightarrow> map_of (mailboxes bus1) a \<noteq> None"
    and "i < length buyers" "b_broker_id (fst x) = b_broker_id (fst (buyers ! i))"
  shows "list_all (broker_registered bus1) (buyers[i := x])"
proof -
  have "broker_registered bus1 y" if "y \<in> set (buyers[i := x])" for y
  proof -
    from that have "y = x \<or> y \<in> set buyers"
      by (auto dest: set_update_subset_insert [THEN subsetD])
    moreover have "buyers ! i \<in> set buyers" using assms(3) by simp
    ultimately have "map_of (mailboxes bus) (b_broker_id (fst y)) \<noteq> None"
      using assms(1,4) by (auto simp: list_all_iff broker_registered_def)
    then show ?thesis unfolding broker_registered_def by (rule assms(2))
  qed
  then show ?thesis by (simp add: list_all_iff)
qed

lemma registered_frame:
  assumes "list_all (broker_registered bus) buyers"
    and "\<And>a. map_of (mailboxes bus) a \<noteq> None \<Longrightarrow> map_of (mailboxes bus1) a \<noteq> None"
  shows "list_all (broker_registered bus1) buyers"
  using assms by (auto simp: list_all_iff broker_registered_def)

lemma balanced_frame:
  assumes "requests_balanced (buyers, bus, m)"
    and "m_total_requests m1 = m_total_requests m"
    and "m_successful_requests m1 = m_successful_requests m"
    and "m_failed_requests m1 = m_failed_requests m"
    and "\<And>a. map_of (mailboxes bus) a \<noteq> None \<Longrightarrow> map_of (mailboxes bus1) a \<noteq> None"
  shows "requests_balanced (buyers, bus1, m1)"
  using assms(1-4) registered_frame [of bus buyers bus1, OF _ assms(5)]
  by (simp add: requests_balanced_def)


lemma market_step_balanced:
  assumes "requests_balanced state"
  shows "requests_balanced (market_step state event)"
proof -
  obtain buyers bus m where state: "state = (buyers, bus, m)" by (cases state) auto
  have inv: "requests_balanced (buyers, bus, m)" using assms by (simp add: state)
  have total: "m_total_requests m = m_successful_requests m + m_failed_requests m"
    and bal: "m_successful_requests m + awaiting_total buyers \<le> m_failed_requests m"
    and reg: "list_all (broker_registered bus) buyers"
    using assms by (simp_all add: requests_balanced_def state)
  show ?thesis
  proof (cases event)
    case (Requests i space_needed duration price_draw t_id rand_id t_stamp)
    show ?thesis
    proof (cases "i < length buyers \<and> snd (buyers ! i) = None")
      case False
      then show ?thesis using inv by (auto simp: state Requests)
    next
      case True
      then have i: "i < length buyers" and idle: "snd (buyers ! i) = None" by simp_all
      let ?x = "request_behavior_begin (fst (buyers ! i)) bus space_needed duration price_draw
                  t_id rand_id t_stamp"
      have step: "market_step state event = (buyers[i := ?x], bus, m)"
        by (simp add: state Requests True)
      have "buyers ! i \<in> set buyers" using i by simp
      then obtain queue where
        box: "map_of (mailboxes bus) (b_broker_id (fst (buyers ! i))) = Some queue"
        using reg by (auto simp: list_all_iff broker_registered_def)
      have id: "b_broker_id (fst ?x) = b_broker_id (fst (buyers ! i))"
        by (simp add: request_behavior_begin_cases Let_def)
      have aw: "awaiting ?x \<le> awaiting (buyers ! i)"
      proof (cases "space_needed = 0")
        case True
        then show ?thesis by (simp add: request_behavior_begin_cases awaiting_def idle)
      next
        case False
        have "int (length (AList.update k v (b_pending_requests (fst (buyers ! i))))) - 1
                \<le> int (length (b_pending_requests (fst (buyers ! i))))" for k v
          using length_update_le [of k v "b_pending_requests (fst (buyers ! i))"] by linarith
        then show ?thesis
          using False box by (simp add: request_behavior_begin_cases awaiting_def idle Let_def)
      qed
      have at: "awaiting_total (buyers[i := ?x]) \<le> awaiting_total buyers"
        using awaiting_total_update [OF i, of ?x] aw by linarith
      have reg': "list_all (broker_registered bus) (buyers[i := ?x])"
        by (rule registered_update [OF reg _ i id])
      show ?thesis
        unfolding step requests_balanced_def
        using total bal at reg' by simp
    qed
  next
    case (Resumes i lat now)
    show ?thesis
    proof (cases "i < length buyers")
      case False
      then show ?thesis using inv by (simp add: state Resumes)
    next
      case i: True
      show ?thesis
      proof (cases "snd (buyers ! i)")
        case None
        then show ?thesis using inv by (simp add: state Resumes)
      next
        case (Some request)
        have "buyers ! i \<in> set buyers" using i by simp
        then obtain queue where
          q: "map_of (mailboxes bus) (b_broker_id (fst (buyers ! i))) = Some queue"
          using reg by (auto simp: list_all_iff broker_registered_def)
        let ?b = "(fst (buyers ! i))\<lparr>b_stats := (b_stats (fst (buyers ! i)))\<lparr>bs_requests_sent :=
                      bs_requests_sent (b_stats (fst (buyers ! i))) + 1\<rparr>\<rparr>"
        let ?bus = "bus\<lparr>message_count := message_count bus + 1,
                mailboxes := AList.update (b_broker_id (fst (buyers ! i)))
                  (queue @ [\<lparr> env_from = b_agent_id (fst (buyers ! i)),
                              env_to = b_broker_id (fst (buyers ! i)),
                              env_body = Storage_request request, env_timestamp = now,
                              env_latency = lat, env_id = message_count bus \<rparr>])
                  (mailboxes bus)\<rparr>"
        let ?m = "record_request (record_network_event m ''latency'' lat) False 0"
        have step: "market_step state event = (buyers[i := (?b, None)], ?bus, ?m)"
          by (simp add: state Resumes i Some request_behavior_resume_sent [OF q])
        have aw: "awaiting (?b, None) = awaiting (buyers ! i) + 1"
          by (simp add: awaiting_def Some)
        have at: "awaiting_total (buyers[i := (?b, None)]) = awaiting_total buyers + 1"
          using awaiting_total_update [OF i, of "(?b, None)"] aw by linarith
        have reg': "list_all (broker_registered ?bus) (buyers[i := (?b, None)])"
          by (rule registered_update [OF reg _ i]) (simp_all add: AList.update_conv')
        show ?thesis
          unfolding step requests_balanced_def
          using total bal at reg' by (simp add: record_request_counters)
      qed
    qed
  next
    case (Receives i msg now)
    show ?thesis
    proof (cases "i < length buyers")
      case False
      then show ?thesis using inv by (simp add: state Receives)
    next
      case i: True
      let ?b = "fst (process_response (fst (buyers ! i)) m msg now)"
      let ?m = "snd (process_response (fst (buyers ! i)) m msg now)"
      have step: "market_step state event = (buyers[i := (?b, snd (buyers ! i))], bus, ?m)"
        by (simp add: state Receives i split_beta)
      show ?thesis
      proof (cases "\<exists>response original_request. env_body msg = Storage_response response
              \<and> map_of (b_pending_requests (fst (buyers ! i))) (sr_request_id response)
                   = Some original_request
              \<and> (sr_status response = ''success'' \<longrightarrow> sr_contract response \<noteq> None)")
        case False
        have "process_response (fst (buyers ! i)) m msg now = (fst (buyers ! i), m)"
          using False by (rule process_response_dropped)
        then show ?thesis using inv unfolding step by simp
      next
        case answered: True
        then obtain response original_request where
          r: "env_body msg = Storage_response response"
            "map_of (b_pending_requests (fst (buyers ! i))) (sr_request_id response)
               = Some original_request"
            "sr_status response = ''success'' \<longrightarrow> sr_contract response \<noteq> None"
          by blast
        note a = process_response_answered [OF r, of m now]
        have len: "length (b_pending_requests ?b) < length (b_pending_requests (fst (buyers ! i)))"
          unfolding a(4) by (rule length_delete_less [OF r(2)])
        have aw: "awaiting (?b, snd (buyers ! i)) + 1 \<le> awaiting (buyers ! i)"
          using len by (simp add: awaiting_def)
        have at: "awaiting_total (buyers[i := (?b, snd (buyers ! i))]) + 1 \<le> awaiting_total buyers"
          using awaiting_total_update [OF i, of "(?b, snd (buyers ! i))"] aw by linarith
        have reg': "list_all (broker_registered bus) (buyers[i := (?b, snd (buyers ! i))])"
          by (rule registered_update [OF reg _ i]) (simp_all add: a(5))
        show ?thesis
          unfolding step requests_balanced_def
          using total bal at reg' by (simp add: a(1,2,3))
      qed
    qed
  next
    case (Posts from_agent to_agent body sim lat now)
    have step: "market_step state event =
        (buyers, fst (snd (send_message bus m from_agent to_agent body sim lat now)),
         fst (snd (snd (send_message bus m from_agent to_agent body sim lat now))))"
      by (simp add: state Posts split_beta)
    show ?thesis
      unfolding step
      by (rule balanced_frame [OF inv send_message_counters send_message_keeps_mailboxes])
  next
    case (Takes agent_id)
    show ?thesis
    proof (cases "receive_message bus agent_id")
      case (Inl e)
      then show ?thesis using inv by (simp add: state Takes)
    next
      case (Inr r)
      obtain msg bus1 where r: "r = (msg, bus1)" by (cases r) auto
      have step: "market_step state event = (buyers, bus1, m)"
        by (simp add: state Takes Inr r)
      show ?thesis
        unfolding step
        by (rule balanced_frame [OF inv refl refl refl])
           (rule receive_message_keeps_mailboxes [OF Inr [unfolded r]])
    qed
  next
    case (Registers agent_id)
    show ?thesis
      unfolding state Registers market_step.simps
      by (rule balanced_frame [OF inv refl refl refl register_agent_keeps_mailboxes])
  next
    case (Network_event event_type latency)
    show ?thesis
      unfolding state Network_event market_step.simps
      by (rule balanced_frame [OF inv]) simp_all
  next
    case (Provider_metrics utilization reputation earnings)
    show ?thesis
      unfolding state Provider_metrics market_step.simps
      by (rule balanced_frame [OF inv]) simp_all
  next
    case (Contract_event contract completed)
    show ?thesis
      unfolding state Contract_event market_step.simps
      by (rule balanced_frame [OF inv]) simp_all
  qed
qed

lemma run_market_balanced:
  "requests_balanced state \<Longrightarrow> requests_balanced (run_market state events)"
  unfolding run_market_def
  by (induction events arbitrary: state) (simp_all add: market_step_balanced)

lemma awaiting_total_fresh:
  "list_all (fresh_buyer bus) bs \<Longrightarrow> awaiting_total (map (\<lambda>b. (b, None)) bs) = 0"
  by (induction bs) (simp_all add: awaiting_total_def awaiting_def fresh_buyer_def)

lemma balanced_initial:
  assumes "list_all (fresh_buyer bus) bs"
  shows "requests_balanced (map (\<lambda>b. (b, None)) bs, bus, reset t0)"
proof -
  have "list_all (broker_registered bus) (map (\<lambda>b. (b, None)) bs)"
    using assms by (auto simp: list_all_iff broker_registered_def fresh_buyer_def)
  then show ?thesis
    using awaiting_total_fresh [OF assms]
    by (simp add: requests_balanced_def reset_def)
qed

lemma awaiting_total_covered:
  "list_all send_covered buyers \<Longrightarrow> 0 \<le> awaiting_total buyers"
proof (induction buyers)
  case Nil
  then show ?case by (simp add: awaiting_total_def)
next
  case (Cons x buyers)
  have "0 \<le> awaiting x"
    using Cons.prems by (cases "b_pending_requests (fst x)") (auto simp: send_covered_def awaiting_def)
  then show ?case using Cons by (simp add: awaiting_total_def)
qed

lemma balanced_rate:
  assumes "m_total_requests m = m_successful_requests m + m_failed_requests m"
    and "m_successful_requests m \<le> m_failed_requests m"
  shows "real_of_int (m_successful_requests m) / real_of_int (max (m_total_requests m) 1) * 100
           \<le> 50"
proof -
  define S D where "S = real_of_int (m_successful_requests m)"
    and "D = real_of_int (max (m_total_requests m) 1)"
  have pos: "0 < D" by (simp add: D_def)
  have "2 * m_successful_requests m \<le> max (m_total_requests m) 1"
    using assms by linarith
  then have "real_of_int (2 * m_successful_requests m) \<le> D"
    unfolding D_def by (rule iffD2 [OF of_int_le_iff])
  then have "2 * S \<le> D" by (simp add: S_def)
  then have "S / D * 100 \<le> 50"
    using pos by (simp add: field_simps)
  then show ?thesis by (simp only: S_def D_def)
qed


lemma process_response_time:
  assumes "env_body msg = Storage_response response"
    and "map_of (b_pending_requests b) (sr_request_id response) = Some original_request"
    and "sr_status response = ''success'' \<longrightarrow> sr_contract response \<noteq> None"
  shows "m_response_times (snd (process_response b m msg now))
          = (if now - req_timestamp original_request > 0
             then m_response_times m @ [now - req_timestamp original_request]
             else m_response_times m)"
proof (cases "sr_status response = ''success''")
  case True
  then obtain contract where c: "sr_contract response = Some contract"
    using assms(3) by auto
  show ?thesis
    by (simp add: process_response_def assms(1,2) True c Let_def record_request_def
        record_contract_def)
next
  case False
  show ?thesis
    by (simp add: process_response_def assms(1,2) False Let_def record_request_def)
qed

lemma request_behavior_counters:
  assumes "map_of (mailboxes bus) (b_broker_id b) \<noteq> None" "space_needed \<noteq> 0"
  shows "m_total_requests (snd (snd (request_behavior b bus m space_needed duration price_draw
            t_id rand_id t_stamp lat now))) = m_total_requests m + 1"
    and "m_failed_requests (snd (snd (request_behavior b bus m space_needed duration price_draw
            t_id rand_id t_stamp lat now))) = m_failed_requests m + 1"
    and "m_successful_requests (snd (snd (request_behavior b bus m space_needed duration
            price_draw t_id rand_id t_stamp lat now))) = m_successful_requests m"
proof -
  obtain queue where q: "map_of (mailboxes bus) (b_broker_id b) = Some queue"
    using assms(1) by auto
  let ?b = "fst (request_behavior_begin b bus space_needed duration price_draw t_id rand_id
                   t_stamp)"
  have id: "b_broker_id ?b = b_broker_id b"
    by (simp add: request_behavior_begin_cases Let_def)
  have q': "map_of (mailboxes bus) (b_broker_id ?b) = Some queue"
    unfolding id by (rule q)
  have "snd (snd (request_behavior b bus m space_needed duration price_draw t_id rand_id
                    t_stamp lat now))
          = record_request (record_network_event m ''latency'' lat) False 0"
    unfolding request_behavior_split
    using assms(2) q request_behavior_resume_sent [OF q', of m _ lat now]
    by (simp add: request_behavior_begin_cases Let_def)
  then show "m_total_requests (snd (snd (request_behavior b bus m space_needed duration
            price_draw t_id rand_id t_stamp lat now))) = m_total_requests m + 1"
    and "m_failed_requests (snd (snd (request_behavior b bus m space_needed duration price_draw
            t_id rand_id t_stamp lat now))) = m_failed_requests m + 1"
    and "m_successful_requests (snd (snd (request_behavior b bus m space_needed duration
            price_draw t_id rand_id t_stamp lat now))) = m_successful_requests m"
    by (simp_all add: record_request_counters)
qed

lemma run_market_rate:
  assumes "list_all (fresh_buyer bus) bs"
    and "list_all send_covered (fst (run_market (map (\<lambda>b. (b, None)) bs, bus, reset t0) events))"
  shows "2 * m_successful_requests
               (snd (snd (run_market (map (\<lambda>b. (b, None)) bs, bus, reset t0) events)))
           \<le> m_total_requests
               (snd (snd (run_market (map (\<lambda>b. (b, None)) bs, bus, reset t0) events)))"
    and "real_of_int (m_successful_requests
               (snd (snd (run_market (map (\<lambda>b. (b, None)) bs, bus, reset t0) events))))
           / real_of_int (max (m_total_requests
               (snd (snd (run_market (map (\<lambda>b. (b, None)) bs, bus, reset t0) events)))) 1)
           * 100 \<le> 50"
proof -
  obtain buyers' bus' m' where
    run: "run_market (map (\<lambda>b. (b, None)) bs, bus, reset t0) events = (buyers', bus', m')"
    by (cases "run_market (map (\<lambda>b. (b, None)) bs, bus, reset t0) events") auto
  have "requests_balanced (buyers', bus', m')"
    using run_market_balanced [OF balanced_initial [OF assms(1)], of t0 events] run by simp
  then have total: "m_total_requests m' = m_successful_requests m' + m_failed_requests m'"
    and bal: "m_successful_requests m' + awaiting_total buyers' \<le> m_failed_requests m'"
    by (simp_all add: requests_balanced_def)
  have "0 \<le> awaiting_total buyers'"
    using assms(2) run by (simp add: awaiting_total_covered)
  then have le: "m_successful_requests m' \<le> m_failed_requests m'"
    using bal by linarith
  show "2 * m_successful_requests
               (snd (snd (run_market (map (\<lambda>b. (b, None)) bs, bus, reset t0) events)))
           \<le> m_total_requests
               (snd (snd (run_market (map (\<lambda>b. (b, None)) bs, bus, reset t0) events)))"
    using total le by (simp add: run)
  show "real_of_int (m_successful_requests
               (snd (snd (run_market (map (\<lambda>b. (b, None)) bs, bus, reset t0) events))))
           / real_of_int (max (m_total_requests
               (snd (snd (run_market (map (\<lambda>b. (b, None)) bs, bus, reset t0) events)))) 1)
           * 100 \<le> 50"
    unfolding run using balanced_rate [OF total le] by simp
qed

text \<open>
  \<^bold>\<open>C8.\<close> An iteration of \<^verbatim>\<open>request_behavior\<close> whose send succeeds (the broker has a
  mailbox, and the division by the requested space does not raise) adds one to
  \<^verbatim>\<open>total_requests\<close> and one to \<^verbatim>\<open>failed_requests\<close> and leaves \<^verbatim>\<open>successful_requests\<close>
  as it was. A storage response for a pending request (a success response carrying its
  contract) adds one more to \<^verbatim>\<open>total_requests\<close>, and one to \<^verbatim>\<open>successful_requests\<close> if
  its status is \<^verbatim>\<open>'success'\<close> and to \<^verbatim>\<open>failed_requests\<close> otherwise, and records the
  response time if it is positive. Therefore, from fresh buyers whose broker has a
  mailbox and from metrics just reset, after any sequence of steps of the market that
  leaves no buyer suspended in a send without a pending request, at most half of the
  counted requests are successful, and the summary reports a success rate of at most 50.
\<close>

theorem success_rate_at_most_half:
  "(map_of (mailboxes bus) (b_broker_id b) \<noteq> None \<and> space_needed \<noteq> 0 \<longrightarrow>
      m_total_requests (snd (snd (request_behavior b bus m space_needed duration price_draw
         t_id rand_id t_stamp lat now))) = m_total_requests m + 1
      \<and> m_failed_requests (snd (snd (request_behavior b bus m space_needed duration price_draw
           t_id rand_id t_stamp lat now))) = m_failed_requests m + 1
      \<and> m_successful_requests (snd (snd (request_behavior b bus m space_needed duration
           price_draw t_id rand_id t_stamp lat now))) = m_successful_requests m)
   \<and> (env_body msg = Storage_response response
        \<and> map_of (b_pending_requests b2) (sr_request_id response) = Some original_request
        \<and> (sr_status response = ''success'' \<longrightarrow> sr_contract response \<noteq> None) \<longrightarrow>
        m_total_requests (snd (process_response b2 m2 msg t2)) = m_total_requests m2 + 1
        \<and> m_successful_requests (snd (process_response b2 m2 msg t2))
            = m_successful_requests m2 + (if sr_status response = ''success'' then 1 else 0)
        \<and> m_failed_requests (snd (process_response b2 m2 msg t2))
            = m_failed_requests m2 + (if sr_status response = ''success'' then 0 else 1)
        \<and> m_response_times (snd (process_response b2 m2 msg t2))
            = (if t2 - req_timestamp original_request > 0
               then m_response_times m2 @ [t2 - req_timestamp original_request]
               else m_response_times m2))
   \<and> (list_all (fresh_buyer bus3) bs
        \<and> list_all send_covered
              (fst (run_market (map (\<lambda>b. (b, None)) bs, bus3, reset t0) events)) \<longrightarrow>
        2 * m_successful_requests
              (snd (snd (run_market (map (\<lambda>b. (b, None)) bs, bus3, reset t0) events)))
          \<le> m_total_requests
              (snd (snd (run_market (map (\<lambda>b. (b, None)) bs, bus3, reset t0) events)))
        \<and> (\<exists>s. get_summary
                   (snd (snd (run_market (map (\<lambda>b. (b, None)) bs, bus3, reset t0) events))) t3
                 = Inr s
               \<and> requests_success_rate s \<le> 50))"
proof (intro conjI impI)
  assume a: "list_all (fresh_buyer bus3) bs
        \<and> list_all send_covered
              (fst (run_market (map (\<lambda>b. (b, None)) bs, bus3, reset t0) events))"
  show "\<exists>s. get_summary
                   (snd (snd (run_market (map (\<lambda>b. (b, None)) bs, bus3, reset t0) events))) t3
                 = Inr s
               \<and> requests_success_rate s \<le> 50"
    using run_market_rate(2) [of bus3 bs t0 events] a
    by (simp add: get_summary_value)
qed (simp_all add: request_behavior_counters process_response_answered process_response_time
       run_market_rate(1))


lemma str_1700000001: "str_int (py_int 1700000001) = ''1700000001''"
  and str_417: "str_int 417 = ''417''"
  by (simp_all add: str_int_def py_int_def str_nat.simps digit_char_def)

lemma scenario_buyer_fields:
  "b_agent_id (fst scenario_buyer) = ''buyer0''"
  "b_broker_id (fst scenario_buyer) = ''network''"
  "b_budget_per_hour (fst scenario_buyer) = 25"
  "b_pending_requests (fst scenario_buyer) = []"
  by (simp_all add: scenario_buyer_def BuyerAgent_init_def)

lemma scenario_broker_mailbox: "map_of (mailboxes scenario_bus) ''network'' = Some []"
  by (simp add: scenario_bus_value)

lemma served_begin:
  "request_behavior_begin (fst scenario_buyer) scenario_bus 10 2 1 1700000001 417 1700000001
     = ((fst scenario_buyer)\<lparr>b_pending_requests :=
            [(''REQ-buyer0-1700000001-417'', served_request)]\<rparr>, Some served_request)"
  by (simp add: request_behavior_begin_cases scenario_buyer_fields scenario_broker_mailbox
      str_1700000001 str_417 served_request_def Let_def)

lemma served_iteration_split:
  "request_behavior_resume
     ((fst scenario_buyer)\<lparr>b_pending_requests :=
          [(''REQ-buyer0-1700000001-417'', served_request)]\<rparr>)
     scenario_bus (reset 1700000000) served_request (1/10) (17000000011 / 10)
   = served_iteration"
  unfolding served_iteration_def request_behavior_split served_begin by simp

lemma served_iteration_pending:
  "b_pending_requests (fst served_iteration) = [(''REQ-buyer0-1700000001-417'', served_request)]"
  unfolding served_iteration_split [symmetric]
  by (simp add: request_behavior_resume_sent [of _ _ "[]"] scenario_buyer_fields
      scenario_broker_mailbox)

lemma served_run:
  "run_market ([(fst scenario_buyer, None)], scenario_bus, reset 1700000000) served_events
     = ([(fst (process_response (fst served_iteration) (snd (snd served_iteration))
                 served_envelope 1700000004), None)],
        fst (snd served_iteration),
        snd (process_response (fst served_iteration) (snd (snd served_iteration))
               served_envelope 1700000004))"
proof -
  obtain b1 bus1 m1 where it: "served_iteration = (b1, bus1, m1)"
    by (cases served_iteration) auto
  have s1: "market_step ([(fst scenario_buyer, None)], scenario_bus, reset 1700000000)
              (Requests 0 10 2 1 1700000001 417 1700000001)
            = ([((fst scenario_buyer)\<lparr>b_pending_requests :=
                    [(''REQ-buyer0-1700000001-417'', served_request)]\<rparr>, Some served_request)],
               scenario_bus, reset 1700000000)"
    by (simp add: served_begin)
  have s2: "market_step ([((fst scenario_buyer)\<lparr>b_pending_requests :=
                    [(''REQ-buyer0-1700000001-417'', served_request)]\<rparr>, Some served_request)],
               scenario_bus, reset 1700000000) (Resumes 0 (1/10) (17000000011 / 10))
            = ([(b1, None)], bus1, m1)"
    by (simp add: served_iteration_split it)
  have s3: "market_step ([(b1, None)], bus1, m1) (Receives 0 served_envelope 1700000004)
            = ([(fst (process_response b1 m1 served_envelope 1700000004), None)], bus1,
               snd (process_response b1 m1 served_envelope 1700000004))"
    by (simp add: split_beta)
  show ?thesis
    unfolding it
    by (simp only: run_market_def served_events_def foldl_Cons foldl_Nil s1 s2 s3 fst_conv
        snd_conv)
qed

theorem success_rate_at_most_half_witness:
  "m_total_requests (snd (snd served_iteration)) = 1
   \<and> m_failed_requests (snd (snd served_iteration)) = 1
   \<and> m_successful_requests (snd (snd served_iteration)) = 0
   \<and> m_total_requests (snd (process_response (fst served_iteration) (snd (snd served_iteration))
        served_envelope 1700000004)) = 2
   \<and> m_successful_requests (snd (process_response (fst served_iteration)
        (snd (snd served_iteration)) served_envelope 1700000004)) = 1
   \<and> m_failed_requests (snd (process_response (fst served_iteration)
        (snd (snd served_iteration)) served_envelope 1700000004)) = 1
   \<and> m_response_times (snd (process_response (fst served_iteration)
        (snd (snd served_iteration)) served_envelope 1700000004)) = [3]
   \<and> m_total_requests (snd (snd (run_market
        ([(fst scenario_buyer, None)], scenario_bus, reset 1700000000) served_events))) = 2
   \<and> m_successful_requests (snd (snd (run_market
        ([(fst scenario_buyer, None)], scenario_bus, reset 1700000000) served_events))) = 1
   \<and> (\<exists>s. get_summary (snd (snd (run_market
               ([(fst scenario_buyer, None)], scenario_bus, reset 1700000000) served_events)))
             1700000060 = Inr s
          \<and> requests_success_rate s \<le> 50)"
proof -
  note claim = success_rate_at_most_half [where bus = scenario_bus and b = "fst scenario_buyer"
      and space_needed = 10 and m = "reset 1700000000" and duration = 2 and price_draw = 1
      and t_id = 1700000001 and rand_id = 417 and t_stamp = 1700000001 and lat = "1/10"
      and now = "17000000011 / 10" and msg = served_envelope
      and response = "\<lparr> sr_request_id = ''REQ-buyer0-1700000001-417'', sr_status = ''success'',
           sr_reason = None,
           sr_contract = Some ((pending_contract ''CONT-1700000002-4242'' 10)
                                 \<lparr>con_status := ''active''\<rparr>) \<rparr>"
      and ?b2.0 = "fst served_iteration" and original_request = served_request
      and ?m2.0 = "snd (snd served_iteration)" and ?t2.0 = 1700000004
      and bs = "[fst scenario_buyer]" and ?bus3.0 = scenario_bus and ?t0.0 = 1700000000
      and events = served_events and ?t3.0 = 1700000060]
  have sent: "map_of (mailboxes scenario_bus) (b_broker_id (fst scenario_buyer)) \<noteq> None
                \<and> (10::int) \<noteq> 0"
    by (simp add: scenario_buyer_fields scenario_broker_mailbox)
  have answered: "env_body served_envelope = Storage_response
        \<lparr> sr_request_id = ''REQ-buyer0-1700000001-417'', sr_status = ''success'',
          sr_reason = None,
          sr_contract = Some ((pending_contract ''CONT-1700000002-4242'' 10)
                                \<lparr>con_status := ''active''\<rparr>) \<rparr>
      \<and> map_of (b_pending_requests (fst served_iteration))
            (sr_request_id \<lparr> sr_request_id = ''REQ-buyer0-1700000001-417'',
               sr_status = ''success'', sr_reason = None,
               sr_contract = Some ((pending_contract ''CONT-1700000002-4242'' 10)
                                     \<lparr>con_status := ''active''\<rparr>) \<rparr>) = Some served_request
      \<and> (sr_status \<lparr> sr_request_id = ''REQ-buyer0-1700000001-417'',
               sr_status = ''success'', sr_reason = None,
               sr_contract = Some ((pending_contract ''CONT-1700000002-4242'' 10)
                                     \<lparr>con_status := ''active''\<rparr>) \<rparr> = ''success'' \<longrightarrow>
          sr_contract \<lparr> sr_request_id = ''REQ-buyer0-1700000001-417'',
               sr_status = ''success'', sr_reason = None,
               sr_contract = Some ((pending_contract ''CONT-1700000002-4242'' 10)
                                     \<lparr>con_status := ''active''\<rparr>) \<rparr> \<noteq> None)"
    by (simp add: served_envelope_def served_iteration_pending)
  have settled: "list_all (fresh_buyer scenario_bus) [fst scenario_buyer]
      \<and> list_all send_covered
          (fst (run_market (map (\<lambda>b. (b, None)) [fst scenario_buyer], scenario_bus,
                  reset 1700000000) served_events))"
    by (simp add: served_run fresh_buyer_def send_covered_def scenario_buyer_fields
        scenario_broker_mailbox)
  note a = claim [THEN conjunct1, THEN mp, OF sent, folded served_iteration_def]
  note b = claim [THEN conjunct2, THEN conjunct1, THEN mp, OF answered]
  note c = claim [THEN conjunct2, THEN conjunct2, THEN mp, OF settled]
  have start: "m_total_requests (reset 1700000000) = 0" "m_failed_requests (reset 1700000000) = 0"
    "m_successful_requests (reset 1700000000) = 0"
    by (simp_all add: reset_def)
  have times: "m_response_times (snd (snd served_iteration)) = []"
    unfolding served_iteration_split [symmetric]
    by (simp add: request_behavior_resume_sent [of _ _ "[]"] scenario_buyer_fields
        scenario_broker_mailbox record_request_def record_network_event_def reset_def)
  show ?thesis
    using a b c
    by (simp add: start times served_run served_request_def)
qed

end
